theory Spec2Isabelle
  imports Complex_Main "HOL-Library.Word"
begin

unbundle bit_operations_syntax

section \<open>Rate limiter (src/lib/crypto.ts: checkRateLimit, resetRateLimit)\<close>

text \<open>
  The in-memory limiter keeps one entry per key \<open>action:identifier\<close>. Times are the
  millisecond readings of \<^verbatim>\<open>Date.now()\<close>, counts and limits are integral; both are
  modelled as \<open>int\<close>. The module-level \<^verbatim>\<open>Map\<close> is passed in and returned.
\<close>

record RateLimitEntry =
  count :: int
  entry_resetTime :: int

record RateLimitConfig =
  maxRequests :: int
  windowMs :: int

record RateLimitResult =
  success :: bool
  remaining :: int
  resetTime :: int
  retryAfterMs :: "int option"

type_synonym rateLimitStore = "string \<rightharpoonup> RateLimitEntry"

definition rateLimitKey :: "string \<Rightarrow> string \<Rightarrow> string" where
  "rateLimitKey action identifier = action @ '':'' @ identifier"

definition checkRateLimit ::
  "string \<Rightarrow> string \<Rightarrow> RateLimitConfig \<Rightarrow> int \<Rightarrow> rateLimitStore \<Rightarrow> RateLimitResult \<times> rateLimitStore"
where
  "checkRateLimit action identifier config now store =
     (let key = rateLimitKey action identifier in
      case store key of
        None \<Rightarrow>
          (\<lparr>success = True, remaining = maxRequests config - 1,
            resetTime = now + windowMs config, retryAfterMs = None\<rparr>,
           store(key \<mapsto> \<lparr>count = 1, entry_resetTime = now + windowMs config\<rparr>))
      | Some entry \<Rightarrow>
          if now > entry_resetTime entry then
            (\<lparr>success = True, remaining = maxRequests config - 1,
              resetTime = now + windowMs config, retryAfterMs = None\<rparr>,
             store(key \<mapsto> \<lparr>count = 1, entry_resetTime = now + windowMs config\<rparr>))
          else if count entry \<ge> maxRequests config then
            (\<lparr>success = False, remaining = 0, resetTime = entry_resetTime entry,
              retryAfterMs = Some (entry_resetTime entry - now)\<rparr>,
             store)
          else
            (\<lparr>success = True, remaining = maxRequests config - (count entry + 1),
              resetTime = entry_resetTime entry, retryAfterMs = None\<rparr>,
             store(key \<mapsto> entry\<lparr>count := count entry + 1\<rparr>)))"

definition resetRateLimit :: "string \<Rightarrow> string \<Rightarrow> rateLimitStore \<Rightarrow> rateLimitStore" where
  "resetRateLimit action identifier store = store(rateLimitKey action identifier := None)"

text \<open>The periodic sweep of the \<^verbatim>\<open>setInterval\<close> callback, run at time \<open>now\<close>.\<close>

definition cleanupExpired :: "int \<Rightarrow> rateLimitStore \<Rightarrow> rateLimitStore" where
  "cleanupExpired now store =
     (\<lambda>key. case store key of
               None \<Rightarrow> None
             | Some entry \<Rightarrow> if now > entry_resetTime entry then None else Some entry)"

definition loginConfig :: RateLimitConfig where
  "loginConfig = \<lparr>maxRequests = 5, windowMs = 15 * 60 * 1000\<rparr>"

text \<open>A sequence of calls on one key, made at the given times; the results in order.\<close>

fun checkRateLimitSeq ::
  "string \<Rightarrow> string \<Rightarrow> RateLimitConfig \<Rightarrow> int list \<Rightarrow> rateLimitStore \<Rightarrow> RateLimitResult list"
where
  "checkRateLimitSeq action identifier config [] store = []"
| "checkRateLimitSeq action identifier config (now # later) store =
     (case checkRateLimit action identifier config now store of
        (r, store') \<Rightarrow> r # checkRateLimitSeq action identifier config later store')"


section \<open>Credential vault (src/lib/crypto.ts: encryptCredentials, decryptCredentials)\<close>

text \<open>
  JavaScript exceptions are values: an \<^verbatim>\<open>Error\<close> object with its message, or any
  other thrown value. A function that can throw returns \<open>thrown + 'a\<close>.
\<close>

datatype thrown = Error string | NonError

type_synonym byte = "8 word"
type_synonym buffer = "byte list"
type_synonym credentials = "string \<rightharpoonup> string"

text \<open>
  What \<^verbatim>\<open>JSON.parse\<close> hands back: a record of strings, or any other JSON value
  (kept by its text; the vault returns it untouched).
\<close>

datatype jsvalue = JSRecord credentials | JSOther string

text \<open>
  The vault is written against the Node runtime: \<^verbatim>\<open>Buffer\<close> conversions,
  \<^verbatim>\<open>JSON\<close>, \<^verbatim>\<open>crypto.pbkdf2Sync\<close> and the \<^verbatim>\<open>aes-256-gcm\<close> cipher objects.
  These are not code of the repository; they are parameters of the model.
  \<^item> \<open>base64_decode\<close> is \<^verbatim>\<open>Buffer.from(s, "base64")\<close> and \<open>utf8_decode\<close> is
    \<^verbatim>\<open>buf.toString("utf8")\<close>; neither throws.
  \<^item> \<open>JSON_parse\<close> is \<open>None\<close> where \<^verbatim>\<open>JSON.parse\<close> throws.
  \<^item> \<open>gcm_encrypt key iv plaintext\<close> is \<^verbatim>\<open>createCipheriv\<close>, \<^verbatim>\<open>update\<close>,
    \<^verbatim>\<open>final\<close>, \<^verbatim>\<open>getAuthTag\<close>: ciphertext and tag.
  \<^item> \<open>gcm_decrypt key iv tag ciphertext\<close> is \<^verbatim>\<open>createDecipheriv\<close>,
    \<^verbatim>\<open>setAuthTag\<close>, \<^verbatim>\<open>update\<close>, \<^verbatim>\<open>final\<close>: \<open>None\<close> where any of them throws
    (bad IV or tag length, authentication failure).
\<close>

record node =
  base64_encode :: "buffer \<Rightarrow> string"
  base64_decode :: "string \<Rightarrow> buffer"
  utf8_encode :: "string \<Rightarrow> buffer"
  utf8_decode :: "buffer \<Rightarrow> string"
  JSON_stringify :: "credentials \<Rightarrow> string"
  JSON_parse :: "string \<Rightarrow> jsvalue option"
  pbkdf2Sync :: "string \<Rightarrow> buffer \<Rightarrow> nat \<Rightarrow> nat \<Rightarrow> buffer"
  gcm_encrypt :: "buffer \<Rightarrow> buffer \<Rightarrow> buffer \<Rightarrow> buffer \<times> buffer"
  gcm_decrypt :: "buffer \<Rightarrow> buffer \<Rightarrow> buffer \<Rightarrow> buffer \<Rightarrow> buffer option"

definition IV_LENGTH :: nat where "IV_LENGTH = 16"
definition AUTH_TAG_LENGTH :: nat where "AUTH_TAG_LENGTH = 16"
definition SALT_LENGTH :: nat where "SALT_LENGTH = 32"
definition KEY_LENGTH :: nat where "KEY_LENGTH = 32"
definition ITERATIONS :: nat where "ITERATIONS = 100000"

text \<open>
  \<open>masterKey\<close> is \<^verbatim>\<open>process.env.CREDENTIALS_ENCRYPTION_KEY\<close>; an unset or empty
  variable is falsy.
\<close>

definition getEncryptionKey :: "string option \<Rightarrow> thrown + string" where
  "getEncryptionKey masterKey =
     (case masterKey of
        None \<Rightarrow> Inl (Error ''CREDENTIALS_ENCRYPTION_KEY environment variable is not set. Please generate a secure key using: openssl rand -base64 32'')
      | Some key \<Rightarrow>
          if key = [] then Inl (Error ''CREDENTIALS_ENCRYPTION_KEY environment variable is not set. Please generate a secure key using: openssl rand -base64 32'')
          else Inr key)"

definition deriveKey :: "node \<Rightarrow> string option \<Rightarrow> buffer \<Rightarrow> thrown + buffer" where
  "deriveKey N masterKey salt =
     (case getEncryptionKey masterKey of
        Inl e \<Rightarrow> Inl e
      | Inr key \<Rightarrow> Inr (pbkdf2Sync N key salt ITERATIONS KEY_LENGTH))"

text \<open>
  \<^verbatim>\<open>crypto.randomBytes(n)\<close>: the next \<open>n\<close> bytes of an entropy source, read from
  position \<open>pos\<close>.
\<close>

definition randomBytes :: "(nat \<Rightarrow> byte) \<Rightarrow> nat \<Rightarrow> nat \<Rightarrow> buffer" where
  "randomBytes entropy pos n = map entropy [pos ..< pos + n]"

definition encryptCredentials ::
  "node \<Rightarrow> string option \<Rightarrow> (nat \<Rightarrow> byte) \<Rightarrow> credentials \<Rightarrow> thrown + string"
where
  "encryptCredentials N masterKey entropy data =
     (let plaintext = JSON_stringify N data;
          salt = randomBytes entropy 0 SALT_LENGTH;
          iv = randomBytes entropy SALT_LENGTH IV_LENGTH
      in case deriveKey N masterKey salt of
           Inl e \<Rightarrow> Inl e
         | Inr key \<Rightarrow>
             (case gcm_encrypt N key iv (utf8_encode N plaintext) of
                (encrypted, authTag) \<Rightarrow>
                  Inr (base64_encode N (salt @ iv @ authTag @ encrypted))))"

text \<open>\<^verbatim>\<open>buf.subarray(start, end)\<close> and \<^verbatim>\<open>buf.subarray(start)\<close>; both clamp.\<close>

definition subarray :: "buffer \<Rightarrow> nat \<Rightarrow> nat \<Rightarrow> buffer" where
  "subarray buf start end = take (end - start) (drop start buf)"

definition subarray_from :: "buffer \<Rightarrow> nat \<Rightarrow> buffer" where
  "subarray_from buf start = drop start buf"

text \<open>The body of the \<^verbatim>\<open>try\<close> block of \<^verbatim>\<open>decryptCredentials\<close>.\<close>

definition decryptAuthenticated :: "node \<Rightarrow> string option \<Rightarrow> string \<Rightarrow> thrown + jsvalue" where
  "decryptAuthenticated N masterKey encryptedData =
     (let combined = base64_decode N encryptedData;
          salt = subarray combined 0 SALT_LENGTH;
          iv = subarray combined SALT_LENGTH (SALT_LENGTH + IV_LENGTH);
          authTag = subarray combined (SALT_LENGTH + IV_LENGTH)
                      (SALT_LENGTH + IV_LENGTH + AUTH_TAG_LENGTH);
          encrypted = subarray_from combined (SALT_LENGTH + IV_LENGTH + AUTH_TAG_LENGTH)
      in case deriveKey N masterKey salt of
           Inl e \<Rightarrow> Inl e
         | Inr key \<Rightarrow>
             (case gcm_decrypt N key iv authTag encrypted of
                None \<Rightarrow> Inl (Error ''Unsupported state or unable to authenticate data'')
              | Some decrypted \<Rightarrow>
                  (case JSON_parse N (utf8_decode N decrypted) of
                     None \<Rightarrow> Inl (Error ''Unexpected token in JSON'')
                   | Some v \<Rightarrow> Inr v)))"

text \<open>
  The \<^verbatim>\<open>catch\<close> block: the legacy path reads the blob as plain base64-encoded JSON
  (the warning it logs is not part of the result).
\<close>

definition decryptLegacy :: "node \<Rightarrow> string \<Rightarrow> thrown + jsvalue" where
  "decryptLegacy N encryptedData =
     (case JSON_parse N (utf8_decode N (base64_decode N encryptedData)) of
        Some legacyDecoded \<Rightarrow> Inr legacyDecoded
      | None \<Rightarrow> Inl (Error ''Failed to decrypt credentials: Invalid or corrupted data''))"

definition decryptCredentials :: "node \<Rightarrow> string option \<Rightarrow> string \<Rightarrow> thrown + jsvalue" where
  "decryptCredentials N masterKey encryptedData =
     (case decryptAuthenticated N masterKey encryptedData of
        Inr v \<Rightarrow> Inr v
      | Inl error \<Rightarrow> decryptLegacy N encryptedData)"

text \<open>
  What the vault relies on from the runtime: base64 decoding undoes encoding, key
  derivation returns as many bytes as asked for, and decrypting a GCM ciphertext with its
  own key, IV and 16-byte tag gives the plaintext back.
\<close>

definition node_contract :: "node \<Rightarrow> bool" where
  "node_contract N \<longleftrightarrow>
     (\<forall>b. base64_decode N (base64_encode N b) = b)
   \<and> (\<forall>pw salt n len. length (pbkdf2Sync N pw salt n len) = len)
   \<and> (\<forall>key iv pt. length key = KEY_LENGTH \<and> length iv = IV_LENGTH \<longrightarrow>
         (case gcm_encrypt N key iv pt of
            (ct, tag) \<Rightarrow> length tag = AUTH_TAG_LENGTH \<and> gcm_decrypt N key iv tag ct = Some pt))"

text \<open>The credential map survives \<^verbatim>\<open>JSON.stringify\<close>, UTF-8 and \<^verbatim>\<open>JSON.parse\<close>.\<close>

definition json_roundtrip :: "node \<Rightarrow> credentials \<Rightarrow> bool" where
  "json_roundtrip N data \<longleftrightarrow>
     JSON_parse N (utf8_decode N (utf8_encode N (JSON_stringify N data))) = Some (JSRecord data)"

text \<open>
  Tampering: bit \<open>b\<close> of byte \<open>i\<close> of a buffer flipped. \<open>tag_binding\<close> says of the
  runtime's GCM that a ciphertext verifies under no tag but its own.
\<close>

definition flipBit :: "nat \<Rightarrow> nat \<Rightarrow> buffer \<Rightarrow> buffer" where
  "flipBit i b buf = buf[i := (buf ! i) XOR push_bit b 1]"

definition tag_binding :: "node \<Rightarrow> bool" where
  "tag_binding N \<longleftrightarrow>
     (\<forall>key iv pt tag'. tag' \<noteq> snd (gcm_encrypt N key iv pt) \<longrightarrow>
          gcm_decrypt N key iv tag' (fst (gcm_encrypt N key iv pt)) = None)"

text \<open>
  A small runtime to run the model on: bytes are written one character each, the key
  is derived as zero bytes, the cipher leaves the text as it is under an all-zero tag,
  and the only JSON text known is that of \<open>demoCredentials\<close>.
\<close>

definition demoCredentials :: credentials where
  "demoCredentials = [''apiToken'' \<mapsto> ''t0k3n'']"

definition demoNode :: node where
  "demoNode =
     \<lparr>base64_encode = map (\<lambda>b. char_of (unat b)),
      base64_decode = map (\<lambda>c. of_nat (of_char c)),
      utf8_encode = map (\<lambda>c. of_nat (of_char c)),
      utf8_decode = map (\<lambda>b. char_of (unat b)),
      JSON_stringify = (\<lambda>_. ''{\"apiToken\":\"t0k3n\"}''),
      JSON_parse = (\<lambda>s. if s = ''{\"apiToken\":\"t0k3n\"}'' then Some (JSRecord demoCredentials)
                         else None),
      pbkdf2Sync = (\<lambda>pw salt n len. replicate len 0),
      gcm_encrypt = (\<lambda>key iv pt. (pt, replicate 16 0)),
      gcm_decrypt = (\<lambda>key iv tag ct. if tag = replicate 16 0 then Some ct else None)\<rparr>"


section \<open>Record validator (src/lib/dns-validation.ts)\<close>

subsection \<open>Regular expressions\<close>

text \<open>
  The validator's patterns are all of the form \<^verbatim>\<open>/^...$/\<close> without back-references,
  so \<^verbatim>\<open>test\<close> decides membership of the whole string in a regular language.
  \<open>Repeat r m n\<close> is \<^verbatim>\<open>r{m,n}\<close> (\<open>None\<close>: no upper bound); \<open>Both\<close> and \<open>Compl\<close> are
  intersection and complement, used to express look-around assertions.
\<close>

datatype rx =
    Never
  | Eps
  | Cls "char \<Rightarrow> bool"
  | Then rx rx
  | Alt rx rx
  | Repeat rx nat "nat option"
  | Both rx rx
  | Compl rx

fun nullable :: "rx \<Rightarrow> bool" where
  "nullable Never = False"
| "nullable Eps = True"
| "nullable (Cls p) = False"
| "nullable (Then r s) = (nullable r \<and> nullable s)"
| "nullable (Alt r s) = (nullable r \<or> nullable s)"
| "nullable (Repeat r m n) =
     ((case n of None \<Rightarrow> True | Some k \<Rightarrow> m \<le> k) \<and> (m = 0 \<or> nullable r))"
| "nullable (Both r s) = (nullable r \<and> nullable s)"
| "nullable (Compl r) = (\<not> nullable r)"

text \<open>
  The derivative of a pattern by a character: what may follow that character. \<open>thn\<close> and
  \<open>alt\<close> build a sequence and an alternative, dropping parts that match nothing.
\<close>

fun thn :: "rx \<Rightarrow> rx \<Rightarrow> rx" where
  "thn Never s = Never"
| "thn Eps s = s"
| "thn r s = Then r s"

fun alt :: "rx \<Rightarrow> rx \<Rightarrow> rx" where
  "alt Never s = s"
| "alt r Never = r"
| "alt r s = Alt r s"

fun deriv :: "char \<Rightarrow> rx \<Rightarrow> rx" where
  "deriv c Never = Never"
| "deriv c Eps = Never"
| "deriv c (Cls p) = (if p c then Eps else Never)"
| "deriv c (Then r s) =
     (if nullable r then alt (thn (deriv c r) s) (deriv c s) else thn (deriv c r) s)"
| "deriv c (Alt r s) = alt (deriv c r) (deriv c s)"
| "deriv c (Repeat r m n) =
     (case n of
        None \<Rightarrow> thn (deriv c r) (Repeat r (m - 1) None)
      | Some k \<Rightarrow>
          if k = 0 \<or> k < m then Never
          else thn (deriv c r) (Repeat r (m - 1) (Some (k - 1))))"
| "deriv c (Both r s) = Both (deriv c r) (deriv c s)"
| "deriv c (Compl r) = Compl (deriv c r)"

fun matches :: "rx \<Rightarrow> string \<Rightarrow> bool" where
  "matches r [] = nullable r"
| "matches r (c # cs) = matches (deriv c r) cs"

subsection \<open>What a pattern means\<close>

text \<open>The set of strings a pattern stands for; \<open>matches\<close> decides membership in it.\<close>

definition conc :: "string set \<Rightarrow> string set \<Rightarrow> string set" where
  "conc A B = {xs @ ys |xs ys. xs \<in> A \<and> ys \<in> B}"

fun lpow :: "string set \<Rightarrow> nat \<Rightarrow> string set" where
  "lpow A 0 = {[]}"
| "lpow A (Suc k) = conc A (lpow A k)"

definition inBounds :: "nat \<Rightarrow> nat option \<Rightarrow> nat \<Rightarrow> bool" where
  "inBounds m n k \<longleftrightarrow> m \<le> k \<and> (case n of None \<Rightarrow> True | Some u \<Rightarrow> k \<le> u)"

fun lang :: "rx \<Rightarrow> string set" where
  "lang Never = {}"
| "lang Eps = {[]}"
| "lang (Cls p) = {[c] |c. p c}"
| "lang (Then r s) = conc (lang r) (lang s)"
| "lang (Alt r s) = lang r \<union> lang s"
| "lang (Repeat r m n) = (\<Union>k \<in> {k. inBounds m n k}. lpow (lang r) k)"
| "lang (Both r s) = lang r \<inter> lang s"
| "lang (Compl r) = - lang r"

subsection \<open>The validator's patterns\<close>

definition Chr :: "char \<Rightarrow> rx" where "Chr c = Cls (\<lambda>x. x = c)"
definition Range :: "char \<Rightarrow> char \<Rightarrow> char \<Rightarrow> bool" where
  "Range lo hi c \<longleftrightarrow> of_char lo \<le> (of_char c :: nat) \<and> (of_char c :: nat) \<le> of_char hi"
definition ZeroOrMore :: "rx \<Rightarrow> rx" where "ZeroOrMore r = Repeat r 0 None"
definition OneOrMore :: "rx \<Rightarrow> rx" where "OneOrMore r = Repeat r 1 None"
definition Optional :: "rx \<Rightarrow> rx" where "Optional r = Repeat r 0 (Some 1)"
definition AnyChar :: rx where "AnyChar = Cls (\<lambda>c. True)"

fun Lit :: "string \<Rightarrow> rx" where
  "Lit [] = Eps"
| "Lit (c # cs) = Then (Chr c) (Lit cs)"

definition digit :: "char \<Rightarrow> bool" where "digit = Range CHR ''0'' CHR ''9''"
definition alnum :: "char \<Rightarrow> bool" where
  "alnum c \<longleftrightarrow> Range CHR ''a'' CHR ''z'' c \<or> Range CHR ''A'' CHR ''Z'' c \<or> digit c"
definition alnumHyphen :: "char \<Rightarrow> bool" where
  "alnumHyphen c \<longleftrightarrow> alnum c \<or> c = CHR ''-''"
definition hexDigit :: "char \<Rightarrow> bool" where
  "hexDigit c \<longleftrightarrow> digit c \<or> Range CHR ''a'' CHR ''f'' c \<or> Range CHR ''A'' CHR ''F'' c"

definition octet :: rx where
  "octet = Alt (Then (Lit ''25'') (Cls (Range CHR ''0'' CHR ''5'')))
          (Alt (Then (Chr CHR ''2'') (Then (Cls (Range CHR ''0'' CHR ''4'')) (Cls digit)))
               (Then (Optional (Cls (Range CHR ''0'' CHR ''1''))) (Then (Cls digit) (Optional (Cls digit)))))"

definition IPV4_REGEX :: rx where
  "IPV4_REGEX = Then (Repeat (Then octet (Chr CHR ''.'')) 3 (Some 3)) octet"

definition hextet :: rx where "hextet = Repeat (Cls hexDigit) 1 (Some 4)"
definition hextetColon :: rx where "hextetColon = Then hextet (Chr CHR '':'')"

definition IPV6_REGEX :: rx where
  "IPV6_REGEX =
     Alt (Then (Repeat hextetColon 7 (Some 7)) hextet)
    (Alt (Then (Lit ''::'') (Then (Repeat hextetColon 0 (Some 6)) hextet))
    (Alt (Then (Repeat hextetColon 1 (Some 7)) (Chr CHR '':''))
         (Then (Repeat hextetColon 0 (Some 6))
           (Then (Lit ''::'') (Then (Repeat hextetColon 0 (Some 5)) hextet)))))"

text \<open>
  \<^verbatim>\<open>(?!-)[A-Za-z0-9-]{1,63}(?<!-)\<close>: a label is followed by a dot or by the end of the
  string, so it is a whole run of 1 to 63 label characters; the look-ahead says
  that its first character is not a hyphen, the look-behind that its last is not.
\<close>

definition hostLabel :: rx where
  "hostLabel =
     Both (Repeat (Cls alnumHyphen) 1 (Some 63))
       (Both (Compl (Then (Chr CHR ''-'') (ZeroOrMore AnyChar)))
             (Compl (Then (ZeroOrMore AnyChar) (Chr CHR ''-''))))"

definition HOSTNAME_REGEX :: rx where
  "HOSTNAME_REGEX =
     Then hostLabel (Then (ZeroOrMore (Then (Chr CHR ''.'') hostLabel)) (Optional (Chr CHR ''.'')))"

definition nameLabel :: rx where
  "nameLabel = Then (Cls alnum) (Optional (Then (ZeroOrMore (Cls alnumHyphen)) (Cls alnum)))"

definition DNS_NAME_REGEX :: rx where
  "DNS_NAME_REGEX =
     Alt (Chr CHR ''@'')
    (Alt (Chr CHR ''*'')
         (Then (Optional (Lit ''*.''))
           (Then (ZeroOrMore (Then nameLabel (Chr CHR ''.''))) nameLabel)))"

definition TXT_CONTENT_REGEX :: rx where
  "TXT_CONTENT_REGEX = OneOrMore (Cls (Range (CHR 0x20) (CHR 0x7E)))"

text \<open>
  \<^verbatim>\<open>/^(\d+)\s+(issue|issuewild|iodef)\s+(.+)$/i\<close>: the flag \<^verbatim>\<open>i\<close> makes the letters
  match in either case; \<^verbatim>\<open>.\<close> is any character but a line terminator.
\<close>

definition isSpace :: "char \<Rightarrow> bool" where
  "isSpace c \<longleftrightarrow> (of_char c :: nat) \<in> {9, 10, 11, 12, 13, 32, 160}"

definition toUpper :: "char \<Rightarrow> char" where
  "toUpper c = (if Range CHR ''a'' CHR ''z'' c then char_of (of_char c - (32::nat)) else c)"

definition toLower :: "char \<Rightarrow> char" where
  "toLower c = (if Range CHR ''A'' CHR ''Z'' c then char_of (of_char c + (32::nat)) else c)"

fun LitI :: "string \<Rightarrow> rx" where
  "LitI [] = Eps"
| "LitI (c # cs) = Then (Cls (\<lambda>x. toLower x = toLower c)) (LitI cs)"

definition CAA_REGEX :: rx where
  "CAA_REGEX =
     Then (OneOrMore (Cls digit))
    (Then (OneOrMore (Cls isSpace))
    (Then (Alt (LitI ''issue'') (Alt (LitI ''issuewild'') (LitI ''iodef'')))
    (Then (OneOrMore (Cls isSpace))
         (OneOrMore (Cls (\<lambda>c. c \<noteq> CHR 0x0A \<and> c \<noteq> CHR 0x0D))))))"

subsection \<open>Strings and numbers\<close>

text \<open>
  Strings are lists of code units below 256. \<open>toUpperCase\<close> maps the letters
  \<^verbatim>\<open>a\<close> to \<^verbatim>\<open>z\<close>; the other code units below 256 have upper-case forms that contain
  a non-ASCII code unit or \<^verbatim>\<open>SS\<close>, and so do not change which record type a string
  names.
\<close>

definition toUpperCase :: "string \<Rightarrow> string" where
  "toUpperCase s = map toUpper s"

definition trim :: "string \<Rightarrow> string" where
  "trim s = rev (dropWhile isSpace (rev (dropWhile isSpace s)))"

text \<open>
  \<^verbatim>\<open>s.split(/\s+/)\<close>: \<open>cur\<close> is the field being read (reversed), \<open>inGap\<close> says that
  the last character read was white space.
\<close>

fun splitFields :: "bool \<Rightarrow> string \<Rightarrow> string \<Rightarrow> string list" where
  "splitFields inGap cur [] = [rev cur]"
| "splitFields inGap cur (c # cs) =
     (if isSpace c then
        (if inGap then splitFields True cur cs else rev cur # splitFields True [] cs)
      else splitFields False (c # cur) cs)"

definition splitWhitespace :: "string \<Rightarrow> string list" where
  "splitWhitespace s = splitFields False [] s"

text \<open>
  A JavaScript number: \<open>NaN\<close>, an infinity or a finite value. \<open>Number(s)\<close> reads a
  numeric literal; the value kept is the literal's exact one, without the rounding to
  the nearest double.
\<close>

datatype number = NaN | Finite rat | PosInfinity | NegInfinity

fun isNaN :: "number \<Rightarrow> bool" where
  "isNaN NaN = True"
| "isNaN _ = False"

fun numLess :: "number \<Rightarrow> number \<Rightarrow> bool" where
  "numLess NaN _ = False"
| "numLess _ NaN = False"
| "numLess (Finite a) (Finite b) = (a < b)"
| "numLess (Finite a) PosInfinity = True"
| "numLess (Finite a) NegInfinity = False"
| "numLess PosInfinity _ = False"
| "numLess NegInfinity NegInfinity = False"
| "numLess NegInfinity _ = True"

definition numGreater :: "number \<Rightarrow> number \<Rightarrow> bool" where
  "numGreater a b = numLess b a"

definition digitValue :: "char \<Rightarrow> nat" where
  "digitValue c =
     (if digit c then of_char c - 48
      else if Range CHR ''a'' CHR ''f'' c then of_char c - 87
      else of_char c - 55)"

definition digitsValue :: "nat \<Rightarrow> string \<Rightarrow> nat" where
  "digitsValue base ds = foldl (\<lambda>acc c. base * acc + digitValue c) 0 ds"

definition scale10 :: "rat \<Rightarrow> int \<Rightarrow> rat" where
  "scale10 v e = (if e \<ge> 0 then v * 10 ^ nat e else v / 10 ^ nat (- e))"

text \<open>\<^verbatim>\<open>ExponentPart\<close>: empty, or \<^verbatim>\<open>e\<close>/\<^verbatim>\<open>E\<close>, an optional sign and digits.\<close>

definition exponentPart :: "string \<Rightarrow> int option" where
  "exponentPart s =
     (case s of
        [] \<Rightarrow> Some 0
      | c # r \<Rightarrow>
          if c = CHR ''e'' \<or> c = CHR ''E'' then
            (case r of
               [] \<Rightarrow> None
             | d # r' \<Rightarrow>
                 if d = CHR ''+'' then
                   (if r' \<noteq> [] \<and> list_all digit r' then Some (int (digitsValue 10 r')) else None)
                 else if d = CHR ''-'' then
                   (if r' \<noteq> [] \<and> list_all digit r' then Some (- int (digitsValue 10 r')) else None)
                 else if list_all digit r then Some (int (digitsValue 10 r))
                 else None)
          else None)"

text \<open>\<^verbatim>\<open>StrUnsignedDecimalLiteral\<close>.\<close>

definition unsignedDecimal :: "string \<Rightarrow> number" where
  "unsignedDecimal s =
     (if s = ''Infinity'' then PosInfinity
      else
        let intPart = takeWhile digit s;
            r1 = dropWhile digit s;
            fracPart = (case r1 of [] \<Rightarrow> [] | c # r \<Rightarrow> if c = CHR ''.'' then takeWhile digit r else []);
            r2 = (case r1 of [] \<Rightarrow> [] | c # r \<Rightarrow> if c = CHR ''.'' then dropWhile digit r else r1)
        in if intPart = [] \<and> fracPart = [] then NaN
           else (case exponentPart r2 of
                   None \<Rightarrow> NaN
                 | Some e \<Rightarrow>
                     Finite (scale10 (of_nat (digitsValue 10 (intPart @ fracPart)))
                               (e - int (length fracPart)))))"

definition negate :: "number \<Rightarrow> number" where
  "negate n = (case n of NaN \<Rightarrow> NaN | Finite v \<Rightarrow> Finite (- v)
                | PosInfinity \<Rightarrow> NegInfinity | NegInfinity \<Rightarrow> PosInfinity)"

definition radixLiteral :: "nat \<Rightarrow> (char \<Rightarrow> bool) \<Rightarrow> string \<Rightarrow> number" where
  "radixLiteral base allowed ds =
     (if ds \<noteq> [] \<and> list_all allowed ds then Finite (of_nat (digitsValue base ds)) else NaN)"

text \<open>\<^verbatim>\<open>Number(s)\<close> for a string \<open>s\<close>.\<close>

definition Number :: "string \<Rightarrow> number" where
  "Number s =
     (let t = trim s in
      case t of
        [] \<Rightarrow> Finite 0
      | c # r \<Rightarrow>
          if c = CHR ''+'' then unsignedDecimal r
          else if c = CHR ''-'' then negate (unsignedDecimal r)
          else if c = CHR ''0'' \<and> r \<noteq> [] \<and> (hd r = CHR ''x'' \<or> hd r = CHR ''X'') then
            radixLiteral 16 hexDigit (tl r)
          else if c = CHR ''0'' \<and> r \<noteq> [] \<and> (hd r = CHR ''o'' \<or> hd r = CHR ''O'') then
            radixLiteral 8 (Range CHR ''0'' CHR ''7'') (tl r)
          else if c = CHR ''0'' \<and> r \<noteq> [] \<and> (hd r = CHR ''b'' \<or> hd r = CHR ''B'') then
            radixLiteral 2 (Range CHR ''0'' CHR ''1'') (tl r)
          else unsignedDecimal t)"

subsection \<open>The validator\<close>

record ValidationResult =
  valid :: bool
  error :: "string option"

definition accepted :: ValidationResult where
  "accepted = \<lparr>valid = True, error = None\<rparr>"

definition rejected :: "string \<Rightarrow> ValidationResult" where
  "rejected msg = \<lparr>valid = False, error = Some msg\<rparr>"

definition validateRecordName :: "string \<Rightarrow> ValidationResult" where
  "validateRecordName name =
     (if name = [] \<or> trim name = [] then rejected ''Record name is required''
      else
        let trimmedName = trim name in
        if length trimmedName > 253 then rejected ''Record name is too long (max 253 characters)''
        else if \<not> matches DNS_NAME_REGEX trimmedName \<and> trimmedName \<noteq> ''@'' then
          rejected ''Invalid record name format''
        else accepted)"

definition validateRecordContent :: "string \<Rightarrow> string \<Rightarrow> ValidationResult" where
  "validateRecordContent type content =
     (if content = [] \<or> trim content = [] then rejected ''Record content is required''
      else
        let trimmedContent = trim content;
            upper = toUpperCase type
        in
        if upper = ''A'' then
          (if \<not> matches IPV4_REGEX trimmedContent then rejected ''Invalid IPv4 address format''
           else accepted)
        else if upper = ''AAAA'' then
          (if \<not> matches IPV6_REGEX trimmedContent then rejected ''Invalid IPv6 address format''
           else accepted)
        else if upper = ''CNAME'' \<or> upper = ''NS'' then
          (if \<not> matches HOSTNAME_REGEX trimmedContent then
             rejected (''Invalid hostname for '' @ type @ '' record'')
           else accepted)
        else if upper = ''MX'' then
          (if \<not> matches HOSTNAME_REGEX trimmedContent then rejected ''Invalid mail server hostname''
           else accepted)
        else if upper = ''TXT'' then
          (if length trimmedContent > 4096 then
             rejected ''TXT record content is too long (max 4096 characters)''
           else if \<not> matches TXT_CONTENT_REGEX (filter (\<lambda>c. c \<noteq> CHR 0x22) trimmedContent) then
             rejected ''TXT record contains invalid characters''
           else accepted)
        else if upper = ''SRV'' then
          (let srvParts = splitWhitespace trimmedContent in
           if length srvParts < 3 then rejected ''SRV record format: weight port target''
           else
             let weight = srvParts ! 0; port = srvParts ! 1; target = srvParts ! 2 in
             if isNaN (Number weight) \<or> numLess (Number weight) (Finite 0)
                \<or> numGreater (Number weight) (Finite 65535) then
               rejected ''Invalid SRV weight (0-65535)''
             else if isNaN (Number port) \<or> numLess (Number port) (Finite 0)
                \<or> numGreater (Number port) (Finite 65535) then
               rejected ''Invalid SRV port (0-65535)''
             else if \<not> matches HOSTNAME_REGEX target \<and> target \<noteq> ''.'' then
               rejected ''Invalid SRV target hostname''
             else accepted)
        else if upper = ''CAA'' then
          (if \<not> matches CAA_REGEX trimmedContent then
             rejected ''Invalid CAA record format: flag tag value''
           else accepted)
        else
          (if length trimmedContent > 4096 then rejected ''Record content is too long''
           else accepted))"

definition validateTTL :: "number \<Rightarrow> ValidationResult" where
  "validateTTL ttl =
     (if isNaN ttl then rejected ''TTL must be a number''
      else if numLess ttl (Finite 60) then rejected ''TTL must be at least 60 seconds''
      else if numGreater ttl (Finite (86400 * 7)) then
        rejected ''TTL cannot exceed 7 days (604800 seconds)''
      else accepted)"

definition validatePriority :: "number \<Rightarrow> ValidationResult" where
  "validatePriority priority =
     (if isNaN priority then rejected ''Priority must be a number''
      else if numLess priority (Finite 0) \<or> numGreater priority (Finite 65535) then
        rejected ''Priority must be between 0 and 65535''
      else accepted)"

record RecordFields =
  f_type :: string
  f_name :: string
  f_content :: string
  f_ttl :: "number option"
  f_priority :: "number option"

definition validateDNSRecord :: "RecordFields \<Rightarrow> ValidationResult" where
  "validateDNSRecord input =
     (let nameResult = validateRecordName (f_name input) in
      if \<not> valid nameResult then nameResult
      else
        let contentResult = validateRecordContent (f_type input) (f_content input) in
        if \<not> valid contentResult then contentResult
        else
          let ttlResult = (case f_ttl input of None \<Rightarrow> accepted | Some ttl \<Rightarrow> validateTTL ttl) in
          if \<not> valid ttlResult then ttlResult
          else if toUpperCase (f_type input) \<in> set [''MX'', ''SRV''] then
            (case f_priority input of
               None \<Rightarrow> rejected (''Priority is required for '' @ f_type input @ '' records'')
             | Some priority \<Rightarrow>
                 let priorityResult = validatePriority priority in
                 if \<not> valid priorityResult then priorityResult else accepted)
          else accepted)"



section \<open>Synchronisation engine (src/server/auth.ts: the provider, record and domain actions)\<close>

subsection \<open>Tables (schema) and remote objects\<close>

record ProviderRow =
  p_id :: string
  p_userId :: string
  p_name :: string
  p_label :: string
  p_credentials :: string
  p_status :: string
  p_lastSyncAt :: "int option"
  p_createdAt :: "int option"
  p_updatedAt :: "int option"

record DomainRow =
  d_id :: string
  d_providerId :: string
  d_name :: string
  d_remoteId :: string
  d_status :: string
  d_syncedAt :: "int option"
  d_createdAt :: "int option"
  d_updatedAt :: "int option"

record RecordRow =
  r_id :: string
  r_domainId :: string
  r_remoteId :: string
  r_type :: string
  r_name :: string
  r_content :: string
  r_ttl :: number
  r_priority :: "number option"
  r_proxied :: "bool option"
  r_extra :: "string option"
  r_syncedAt :: "int option"
  r_createdAt :: "int option"
  r_updatedAt :: "int option"

text \<open>
  Modelled from the spec: the types of \<^verbatim>\<open>@/lib/providers/types\<close> (remote domain, remote
  record, \<^verbatim>\<open>CreateRecordInput\<close>, \<^verbatim>\<open>UpdateRecordInput\<close>) and the adapter interface of
  \<^verbatim>\<open>@/lib/providers\<close> are not among the sources. Their fields are the ones the actions
  read and the adapter contract lists: a domain is \<open>{id, name, status}\<close>, a record is
  \<open>{id, type, name, content, ttl, priority?, proxied?, extra?}\<close>; an update input has every
  field optional. The provider-specific \<open>extra\<close> payload is kept as its JSON text.
\<close>

record RemoteDomain =
  rd_id :: string
  rd_name :: string
  rd_status :: string

record RemoteRecord =
  rr_id :: string
  rr_type :: string
  rr_name :: string
  rr_content :: string
  rr_ttl :: number
  rr_priority :: "number option"
  rr_proxied :: "bool option"
  rr_extra :: "string option"

record CreateRecordInput =
  c_type :: string
  c_name :: string
  c_content :: string
  c_ttl :: "number option"
  c_priority :: "number option"
  c_proxied :: "bool option"

record UpdateRecordInput =
  u_type :: "string option"
  u_name :: "string option"
  u_content :: "string option"
  u_ttl :: "number option"
  u_priority :: "number option"
  u_proxied :: "bool option"

text \<open>
  An adapter instance: what each of its methods answers when called (a thrown value when
  the remote call fails).
\<close>

record Adapter =
  a_listDomains :: "thrown + RemoteDomain list"
  a_listRecords :: "string \<Rightarrow> thrown + RemoteRecord list"
  a_createRecord :: "string \<Rightarrow> CreateRecordInput \<Rightarrow> thrown + RemoteRecord"
  a_updateRecord :: "string \<Rightarrow> string \<Rightarrow> UpdateRecordInput \<Rightarrow> thrown + RemoteRecord"
  a_deleteRecord :: "string \<Rightarrow> string \<Rightarrow> thrown + unit"

datatype RemoteCall =
    ListDomains
  | ListRecords string
  | CreateRecord string CreateRecordInput
  | UpdateRecord string string UpdateRecordInput
  | DeleteRecord string string

subsection \<open>State and environment\<close>

text \<open>
  The state an action works on: the three tables in row order, the log of adapter calls
  made so far, and how many clock readings and identifiers have been taken.
\<close>

record World =
  providers :: "ProviderRow list"
  domains :: "DomainRow list"
  records :: "RecordRow list"
  remoteCalls :: "RemoteCall list"
  ticks :: nat
  idsDrawn :: nat

text \<open>
  What an action reads but does not change: the session's user id (\<^verbatim>\<open>auth()\<close>), the
  runtime and master key of the vault, the adapter factory \<^verbatim>\<open>createProvider\<close>, and
  the successive values of \<^verbatim>\<open>nanoid()\<close> and \<^verbatim>\<open>new Date()\<close>.
\<close>

record Env =
  sessionUserId :: "string option"
  runtime :: node
  masterKey :: "string option"
  createProvider :: "string \<Rightarrow> jsvalue \<Rightarrow> thrown + Adapter"
  nanoid :: "nat \<Rightarrow> string"
  clock :: "nat \<Rightarrow> int"

text \<open>An action returns an outcome object, or throws.\<close>

datatype 'a ActionResult = Success 'a | Failure "string option"

definition auth :: "Env \<Rightarrow> string option" where
  "auth env = (case sessionUserId env of
                 None \<Rightarrow> None
               | Some userId \<Rightarrow> if userId = [] then None else Some userId)"

definition newDate :: "Env \<Rightarrow> World \<Rightarrow> int \<times> World" where
  "newDate env w = (clock env (ticks w), w\<lparr>ticks := Suc (ticks w)\<rparr>)"

definition drawId :: "Env \<Rightarrow> World \<Rightarrow> string \<times> World" where
  "drawId env w = (nanoid env (idsDrawn w), w\<lparr>idsDrawn := Suc (idsDrawn w)\<rparr>)"

definition logCall :: "RemoteCall \<Rightarrow> World \<Rightarrow> World" where
  "logCall c w = w\<lparr>remoteCalls := remoteCalls w @ [c]\<rparr>"

text \<open>\<^verbatim>\<open>error instanceof Error ? error.message : fallback\<close>.\<close>

definition errorMessage :: "thrown \<Rightarrow> string \<Rightarrow> string" where
  "errorMessage e fallback = (case e of Error message \<Rightarrow> message | NonError \<Rightarrow> fallback)"

text \<open>An insert throws when the primary key is already in the table.\<close>

definition insertDomain :: "DomainRow \<Rightarrow> World \<Rightarrow> thrown + World" where
  "insertDomain row w =
     (if d_id row \<in> set (map d_id (domains w)) then
        Inl (Error ''UNIQUE constraint failed: domains.id'')
      else Inr (w\<lparr>domains := domains w @ [row]\<rparr>))"

definition insertRecord :: "RecordRow \<Rightarrow> World \<Rightarrow> thrown + World" where
  "insertRecord row w =
     (if r_id row \<in> set (map r_id (records w)) then
        Inl (Error ''UNIQUE constraint failed: records.id'')
      else Inr (w\<lparr>records := records w @ [row]\<rparr>))"

subsection \<open>syncProvider\<close>

text \<open>The loop over the remote domains: update the row found, or insert a new one.\<close>

fun syncDomains :: "Env \<Rightarrow> string \<Rightarrow> RemoteDomain list \<Rightarrow> World \<Rightarrow> (thrown + unit) \<times> World" where
  "syncDomains env providerId [] w = (Inr (), w)"
| "syncDomains env providerId (remoteDomain # rest) w =
     (case filter (\<lambda>d. d_providerId d = providerId \<and> d_remoteId d = rd_id remoteDomain)
             (domains w) of
        existingDomain # _ \<Rightarrow>
          (case newDate env w of (syncedAt, w1) \<Rightarrow>
           case newDate env w1 of (updatedAt, w2) \<Rightarrow>
             syncDomains env providerId rest
               (w2\<lparr>domains :=
                    map (\<lambda>d. if d_id d = d_id existingDomain then
                                d\<lparr>d_name := rd_name remoteDomain,
                                  d_status := rd_status remoteDomain,
                                  d_syncedAt := Some syncedAt,
                                  d_updatedAt := Some updatedAt\<rparr>
                              else d)
                      (domains w2)\<rparr>))
      | [] \<Rightarrow>
          (case drawId env w of (domainId, w1) \<Rightarrow>
           case newDate env w1 of (syncedAt, w2) \<Rightarrow>
           case newDate env w2 of (createdAt, w3) \<Rightarrow>
           case newDate env w3 of (updatedAt, w4) \<Rightarrow>
             (case insertDomain
                     \<lparr>d_id = domainId, d_providerId = providerId,
                      d_name = rd_name remoteDomain, d_remoteId = rd_id remoteDomain,
                      d_status = rd_status remoteDomain, d_syncedAt = Some syncedAt,
                      d_createdAt = Some createdAt, d_updatedAt = Some updatedAt\<rparr> w4 of
                Inl e \<Rightarrow> (Inl e, w4)
              | Inr w5 \<Rightarrow> syncDomains env providerId rest w5)))"

text \<open>The \<^verbatim>\<open>try\<close> block of \<open>syncProvider\<close>.\<close>

definition syncProviderTry ::
  "Env \<Rightarrow> string \<Rightarrow> ProviderRow \<Rightarrow> World \<Rightarrow> (thrown + nat) \<times> World"
where
  "syncProviderTry env providerId providerData w =
     (case decryptCredentials (runtime env) (masterKey env) (p_credentials providerData) of
        Inl e \<Rightarrow> (Inl e, w)
      | Inr credentials \<Rightarrow>
          (case createProvider env (p_name providerData) credentials of
             Inl e \<Rightarrow> (Inl e, w)
           | Inr provider \<Rightarrow>
               (case a_listDomains provider of
                  Inl e \<Rightarrow> (Inl e, logCall ListDomains w)
                | Inr remoteDomains \<Rightarrow>
                    (case syncDomains env providerId remoteDomains (logCall ListDomains w) of
                       (Inl e, w1) \<Rightarrow> (Inl e, w1)
                     | (Inr _, w1) \<Rightarrow>
                         (case newDate env w1 of (lastSyncAt, w2) \<Rightarrow>
                          case newDate env w2 of (updatedAt, w3) \<Rightarrow>
                            (Inr (length remoteDomains),
                             w3\<lparr>providers :=
                                  map (\<lambda>p. if p_id p = providerId then
                                              p\<lparr>p_lastSyncAt := Some lastSyncAt,
                                                p_status := ''active'',
                                                p_updatedAt := Some updatedAt\<rparr>
                                            else p)
                                    (providers w3)\<rparr>))))))"

definition syncProvider ::
  "Env \<Rightarrow> string \<Rightarrow> World \<Rightarrow> (thrown + nat ActionResult) \<times> World"
where
  "syncProvider env providerId w =
     (case auth env of
        None \<Rightarrow> (Inl (Error ''Unauthorized''), w)
      | Some userId \<Rightarrow>
          (case filter (\<lambda>p. p_id p = providerId \<and> p_userId p = userId) (providers w) of
             [] \<Rightarrow> (Inr (Failure (Some ''Provider not found'')), w)
           | providerData # _ \<Rightarrow>
               (case syncProviderTry env providerId providerData w of
                  (Inr domainsCount, w1) \<Rightarrow> (Inr (Success domainsCount), w1)
                | (Inl e, w1) \<Rightarrow>
                    (case newDate env w1 of (updatedAt, w2) \<Rightarrow>
                       (Inr (Failure (Some (errorMessage e ''Sync failed''))),
                        w2\<lparr>providers :=
                             map (\<lambda>p. if p_id p = providerId then
                                         p\<lparr>p_status := ''error'', p_updatedAt := Some updatedAt\<rparr>
                                       else p)
                               (providers w2)\<rparr>)))))"

subsection \<open>Single-record mutations\<close>

text \<open>The domain joined with its provider, for the session's user.\<close>

definition domainWithProvider :: "string \<Rightarrow> string \<Rightarrow> World \<Rightarrow> (DomainRow \<times> ProviderRow) list" where
  "domainWithProvider domainId userId w =
     concat (map (\<lambda>d. map (\<lambda>p. (d, p))
                         (filter (\<lambda>p. d_providerId d = p_id p \<and> d_id d = domainId
                                      \<and> p_userId p = userId) (providers w)))
              (domains w))"

definition getProviderForDomain ::
  "Env \<Rightarrow> string \<Rightarrow> string \<Rightarrow> World \<Rightarrow> thrown + ((DomainRow \<times> ProviderRow) \<times> Adapter)"
where
  "getProviderForDomain env domainId userId w =
     (case domainWithProvider domainId userId w of
        [] \<Rightarrow> Inl (Error ''Domain not found'')
      | domain # _ \<Rightarrow>
          (case decryptCredentials (runtime env) (masterKey env) (p_credentials (snd domain)) of
             Inl e \<Rightarrow> Inl e
           | Inr credentials \<Rightarrow>
               (case createProvider env (p_name (snd domain)) credentials of
                  Inl e \<Rightarrow> Inl e
                | Inr provider \<Rightarrow> Inr (domain, provider))))"

definition createRecordTry ::
  "Env \<Rightarrow> string \<Rightarrow> string \<Rightarrow> CreateRecordInput \<Rightarrow> World \<Rightarrow> (thrown + RemoteRecord) \<times> World"
where
  "createRecordTry env userId domainId input w =
     (case getProviderForDomain env domainId userId w of
        Inl e \<Rightarrow> (Inl e, w)
      | Inr (domain, provider) \<Rightarrow>
          (case a_createRecord provider (d_remoteId (fst domain)) input of
             Inl e \<Rightarrow> (Inl e, logCall (CreateRecord (d_remoteId (fst domain)) input) w)
           | Inr remoteRecord \<Rightarrow>
               (case drawId env (logCall (CreateRecord (d_remoteId (fst domain)) input) w) of
                  (recordId, w1) \<Rightarrow>
                case newDate env w1 of (syncedAt, w2) \<Rightarrow>
                case newDate env w2 of (createdAt, w3) \<Rightarrow>
                case newDate env w3 of (updatedAt, w4) \<Rightarrow>
                  (case insertRecord
                          \<lparr>r_id = recordId, r_domainId = domainId,
                           r_remoteId = rr_id remoteRecord, r_type = rr_type remoteRecord,
                           r_name = rr_name remoteRecord, r_content = rr_content remoteRecord,
                           r_ttl = rr_ttl remoteRecord, r_priority = rr_priority remoteRecord,
                           r_proxied = Some (case rr_proxied remoteRecord of
                                               None \<Rightarrow> False | Some b \<Rightarrow> b),
                           r_extra = None, r_syncedAt = Some syncedAt,
                           r_createdAt = Some createdAt, r_updatedAt = Some updatedAt\<rparr> w4 of
                     Inl e \<Rightarrow> (Inl e, w4)
                   | Inr w5 \<Rightarrow> (Inr remoteRecord, w5)))))"

definition createRecord ::
  "Env \<Rightarrow> string \<Rightarrow> CreateRecordInput \<Rightarrow> World \<Rightarrow> (thrown + RemoteRecord ActionResult) \<times> World"
where
  "createRecord env domainId input w =
     (case auth env of
        None \<Rightarrow> (Inl (Error ''Unauthorized''), w)
      | Some userId \<Rightarrow>
          (let validation = validateDNSRecord
                 \<lparr>f_type = c_type input, f_name = c_name input, f_content = c_content input,
                  f_ttl = c_ttl input, f_priority = c_priority input\<rparr>
           in if \<not> valid validation then (Inr (Failure (error validation)), w)
              else
                (case createRecordTry env userId domainId input w of
                   (Inr remoteRecord, w1) \<Rightarrow> (Inr (Success remoteRecord), w1)
                 | (Inl e, w1) \<Rightarrow>
                     (Inr (Failure (Some (errorMessage e ''Failed to create record''))), w1))))"

text \<open>\<^verbatim>\<open>input.type && input.name && input.content\<close>: all three present and non-empty.\<close>

definition truthy :: "string option \<Rightarrow> bool" where
  "truthy s = (case s of None \<Rightarrow> False | Some v \<Rightarrow> v \<noteq> [])"

definition updateRecordTry ::
  "Env \<Rightarrow> string \<Rightarrow> string \<Rightarrow> string \<Rightarrow> UpdateRecordInput \<Rightarrow> World
     \<Rightarrow> (thrown + RemoteRecord ActionResult) \<times> World"
where
  "updateRecordTry env userId domainId recordId input w =
     (case getProviderForDomain env domainId userId w of
        Inl e \<Rightarrow> (Inl e, w)
      | Inr (domain, provider) \<Rightarrow>
          (case filter (\<lambda>r. r_id r = recordId \<and> r_domainId r = domainId) (records w) of
             [] \<Rightarrow> (Inr (Failure (Some ''Record not found'')), w)
           | localRecord # _ \<Rightarrow>
               (case a_updateRecord provider (d_remoteId (fst domain)) (r_remoteId localRecord)
                       input of
                  Inl e \<Rightarrow>
                    (Inl e, logCall (UpdateRecord (d_remoteId (fst domain))
                                       (r_remoteId localRecord) input) w)
                | Inr remoteRecord \<Rightarrow>
                    (case newDate env (logCall (UpdateRecord (d_remoteId (fst domain))
                                                  (r_remoteId localRecord) input) w) of
                       (syncedAt, w1) \<Rightarrow>
                     case newDate env w1 of (updatedAt, w2) \<Rightarrow>
                       (Inr (Success remoteRecord),
                        w2\<lparr>records :=
                             map (\<lambda>r. if r_id r = recordId then
                                         r\<lparr>r_type := rr_type remoteRecord,
                                           r_name := rr_name remoteRecord,
                                           r_content := rr_content remoteRecord,
                                           r_ttl := rr_ttl remoteRecord,
                                           r_priority := rr_priority remoteRecord,
                                           r_proxied := Some (case rr_proxied remoteRecord of
                                                                None \<Rightarrow> False | Some b \<Rightarrow> b),
                                           r_syncedAt := Some syncedAt,
                                           r_updatedAt := Some updatedAt\<rparr>
                                       else r)
                               (records w2)\<rparr>)))))"

definition updateRecord ::
  "Env \<Rightarrow> string \<Rightarrow> string \<Rightarrow> UpdateRecordInput \<Rightarrow> World
     \<Rightarrow> (thrown + RemoteRecord ActionResult) \<times> World"
where
  "updateRecord env domainId recordId input w =
     (case auth env of
        None \<Rightarrow> (Inl (Error ''Unauthorized''), w)
      | Some userId \<Rightarrow>
          (if truthy (u_type input) \<and> truthy (u_name input) \<and> truthy (u_content input)
              \<and> \<not> valid (validateDNSRecord
                            \<lparr>f_type = the (u_type input), f_name = the (u_name input),
                             f_content = the (u_content input),
                             f_ttl = u_ttl input, f_priority = u_priority input\<rparr>) then
             (Inr (Failure (error (validateDNSRecord
                                     \<lparr>f_type = the (u_type input), f_name = the (u_name input),
                                      f_content = the (u_content input),
                                      f_ttl = u_ttl input, f_priority = u_priority input\<rparr>))), w)
           else
             (case updateRecordTry env userId domainId recordId input w of
                (Inr result, w1) \<Rightarrow> (Inr result, w1)
              | (Inl e, w1) \<Rightarrow>
                  (Inr (Failure (Some (errorMessage e ''Failed to update record''))), w1))))"

definition deleteRecordTry ::
  "Env \<Rightarrow> string \<Rightarrow> string \<Rightarrow> string \<Rightarrow> World \<Rightarrow> (thrown + unit ActionResult) \<times> World"
where
  "deleteRecordTry env userId domainId recordId w =
     (case getProviderForDomain env domainId userId w of
        Inl e \<Rightarrow> (Inl e, w)
      | Inr (domain, provider) \<Rightarrow>
          (case filter (\<lambda>r. r_id r = recordId \<and> r_domainId r = domainId) (records w) of
             [] \<Rightarrow> (Inr (Failure (Some ''Record not found'')), w)
           | localRecord # _ \<Rightarrow>
               (case a_deleteRecord provider (d_remoteId (fst domain)) (r_remoteId localRecord) of
                  Inl e \<Rightarrow>
                    (Inl e, logCall (DeleteRecord (d_remoteId (fst domain))
                                       (r_remoteId localRecord)) w)
                | Inr _ \<Rightarrow>
                    (Inr (Success ()),
                     (logCall (DeleteRecord (d_remoteId (fst domain)) (r_remoteId localRecord)) w)
                       \<lparr>records := filter (\<lambda>r. r_id r \<noteq> recordId) (records w)\<rparr>))))"

definition deleteRecord ::
  "Env \<Rightarrow> string \<Rightarrow> string \<Rightarrow> World \<Rightarrow> (thrown + unit ActionResult) \<times> World"
where
  "deleteRecord env domainId recordId w =
     (case auth env of
        None \<Rightarrow> (Inl (Error ''Unauthorized''), w)
      | Some userId \<Rightarrow>
          (case deleteRecordTry env userId domainId recordId w of
             (Inr result, w1) \<Rightarrow> (Inr result, w1)
           | (Inl e, w1) \<Rightarrow>
               (Inr (Failure (Some (errorMessage e ''Failed to delete record''))), w1)))"

subsection \<open>syncDomainRecords\<close>

fun insertRemoteRecords ::
  "Env \<Rightarrow> string \<Rightarrow> RemoteRecord list \<Rightarrow> World \<Rightarrow> (thrown + unit) \<times> World"
where
  "insertRemoteRecords env domainId [] w = (Inr (), w)"
| "insertRemoteRecords env domainId (record # rest) w =
     (case drawId env w of (recordId, w1) \<Rightarrow>
      case newDate env w1 of (syncedAt, w2) \<Rightarrow>
      case newDate env w2 of (createdAt, w3) \<Rightarrow>
      case newDate env w3 of (updatedAt, w4) \<Rightarrow>
        (case insertRecord
                \<lparr>r_id = recordId, r_domainId = domainId,
                 r_remoteId = rr_id record, r_type = rr_type record,
                 r_name = rr_name record, r_content = rr_content record,
                 r_ttl = rr_ttl record, r_priority = rr_priority record,
                 r_proxied = Some (case rr_proxied record of None \<Rightarrow> False | Some b \<Rightarrow> b),
                 r_extra = rr_extra record, r_syncedAt = Some syncedAt,
                 r_createdAt = Some createdAt, r_updatedAt = Some updatedAt\<rparr> w4 of
           Inl e \<Rightarrow> (Inl e, w4)
         | Inr w5 \<Rightarrow> insertRemoteRecords env domainId rest w5))"

definition syncDomainRecordsTry ::
  "Env \<Rightarrow> string \<Rightarrow> (DomainRow \<times> ProviderRow) \<Rightarrow> World \<Rightarrow> (thrown + nat) \<times> World"
where
  "syncDomainRecordsTry env domainId domain w =
     (case decryptCredentials (runtime env) (masterKey env) (p_credentials (snd domain)) of
        Inl e \<Rightarrow> (Inl e, w)
      | Inr credentials \<Rightarrow>
          (case createProvider env (p_name (snd domain)) credentials of
             Inl e \<Rightarrow> (Inl e, w)
           | Inr provider \<Rightarrow>
               (case a_listRecords provider (d_remoteId (fst domain)) of
                  Inl e \<Rightarrow> (Inl e, logCall (ListRecords (d_remoteId (fst domain))) w)
                | Inr remoteRecords \<Rightarrow>
                    (case insertRemoteRecords env domainId remoteRecords
                            ((logCall (ListRecords (d_remoteId (fst domain))) w)
                               \<lparr>records := filter (\<lambda>r. r_domainId r \<noteq> domainId) (records w)\<rparr>) of
                       (Inl e, w1) \<Rightarrow> (Inl e, w1)
                     | (Inr _, w1) \<Rightarrow>
                         (case newDate env w1 of (syncedAt, w2) \<Rightarrow>
                          case newDate env w2 of (updatedAt, w3) \<Rightarrow>
                            (Inr (length remoteRecords),
                             w3\<lparr>domains :=
                                  map (\<lambda>d. if d_id d = domainId then
                                              d\<lparr>d_syncedAt := Some syncedAt,
                                                d_updatedAt := Some updatedAt\<rparr>
                                            else d)
                                    (domains w3)\<rparr>))))))"

definition syncDomainRecords ::
  "Env \<Rightarrow> string \<Rightarrow> World \<Rightarrow> (thrown + nat ActionResult) \<times> World"
where
  "syncDomainRecords env domainId w =
     (case auth env of
        None \<Rightarrow> (Inl (Error ''Unauthorized''), w)
      | Some userId \<Rightarrow>
          (case domainWithProvider domainId userId w of
             [] \<Rightarrow> (Inr (Failure (Some ''Domain not found'')), w)
           | domain # _ \<Rightarrow>
               (case syncDomainRecordsTry env domainId domain w of
                  (Inr recordsCount, w1) \<Rightarrow> (Inr (Success recordsCount), w1)
                | (Inl e, w1) \<Rightarrow>
                    (Inr (Failure (Some (errorMessage e ''Sync failed''))), w1))))"


subsection \<open>Notions used in the statements about the engine\<close>

text \<open>The pair that identifies a remote domain locally.\<close>

definition domainKey :: "DomainRow \<Rightarrow> string \<times> string" where
  "domainKey d = (d_providerId d, d_remoteId d)"

text \<open>A domain row without the two stamps that every sync rewrites.\<close>

definition stripTimes :: "DomainRow \<Rightarrow> DomainRow" where
  "stripTimes d = d\<lparr>d_syncedAt := None, d_updatedAt := None\<rparr>"

text \<open>The id of the row that \<open>syncDomains\<close> finds for a remote id, if it finds one.\<close>

definition target :: "string \<Rightarrow> DomainRow list \<Rightarrow> string \<Rightarrow> string option" where
  "target providerId rows remoteId =
     (case filter (\<lambda>d. d_providerId d = providerId \<and> d_remoteId d = remoteId) rows of
        [] \<Rightarrow> None
      | existingDomain # _ \<Rightarrow> Some (d_id existingDomain))"

text \<open>What the in-place updates of one pass do to a single row, stamps aside.\<close>

definition retouch :: "(string \<Rightarrow> string option) \<Rightarrow> DomainRow \<Rightarrow> RemoteDomain \<Rightarrow> DomainRow" where
  "retouch tg d rd =
     (if tg (rd_id rd) = Some (d_id d) then d\<lparr>d_name := rd_name rd, d_status := rd_status rd\<rparr>
      else d)"

definition replayRow :: "(string \<Rightarrow> string option) \<Rightarrow> RemoteDomain list \<Rightarrow> DomainRow \<Rightarrow> DomainRow" where
  "replayRow tg rds d = foldl (retouch tg) d rds"

text \<open>The row \<open>syncDomains\<close> writes over an existing one, and the row it inserts.\<close>

definition touched :: "RemoteDomain \<Rightarrow> int \<Rightarrow> int \<Rightarrow> DomainRow \<Rightarrow> DomainRow" where
  "touched rd syncedAt updatedAt d =
     d\<lparr>d_name := rd_name rd, d_status := rd_status rd,
       d_syncedAt := Some syncedAt, d_updatedAt := Some updatedAt\<rparr>"

definition freshDomain :: "Env \<Rightarrow> string \<Rightarrow> RemoteDomain \<Rightarrow> World \<Rightarrow> DomainRow" where
  "freshDomain env providerId rd w =
     \<lparr>d_id = nanoid env (idsDrawn w), d_providerId = providerId,
      d_name = rd_name rd, d_remoteId = rd_id rd, d_status = rd_status rd,
      d_syncedAt = Some (clock env (ticks w)),
      d_createdAt = Some (clock env (Suc (ticks w))),
      d_updatedAt = Some (clock env (Suc (Suc (ticks w))))\<rparr>"

text \<open>The mirrored fields of a local record row, and of a remote record under a domain.\<close>

definition rowView ::
  "RecordRow \<Rightarrow> string \<times> string \<times> string \<times> string \<times> string \<times> number \<times> number option \<times> bool \<times> string option"
where
  "rowView r = (r_domainId r, r_remoteId r, r_type r, r_name r, r_content r, r_ttl r,
                r_priority r, (case r_proxied r of None \<Rightarrow> False | Some b \<Rightarrow> b), r_extra r)"

definition remoteView ::
  "string \<Rightarrow> RemoteRecord \<Rightarrow> string \<times> string \<times> string \<times> string \<times> string \<times> number \<times> number option \<times> bool \<times> string option"
where
  "remoteView domainId rr = (domainId, rr_id rr, rr_type rr, rr_name rr, rr_content rr, rr_ttl rr,
                rr_priority rr, (case rr_proxied rr of None \<Rightarrow> False | Some b \<Rightarrow> b), rr_extra rr)"


text \<open>
  A table is settled for a list of remote domains when each of them has a row and
  replaying the list's updates leaves every row as it is, stamps aside.
\<close>

definition settled :: "string \<Rightarrow> RemoteDomain list \<Rightarrow> DomainRow list \<Rightarrow> bool" where
  "settled providerId rds rows \<longleftrightarrow>
     list_all (\<lambda>rd. target providerId rows (rd_id rd) \<noteq> None) rds
   \<and> list_all (\<lambda>d. replayRow (target providerId rows) rds (stripTimes d) = stripTimes d) rows"


subsection \<open>A small installation to run the engine on\<close>

text \<open>
  One user with two providers: \<open>p1\<close> answers, \<open>p2\<close> fails every remote call. The
  database starts with one domain of \<open>p2\<close> holding one record; the zone of \<open>p1\<close> has not
  been synchronised yet.
\<close>

definition demoBlob :: string where
  "demoBlob =
     (case encryptCredentials demoNode (Some ''master'') (\<lambda>n. of_nat n) demoCredentials of
        Inr blob \<Rightarrow> blob
      | Inl _ \<Rightarrow> [])"

definition demoRemoteDomain :: RemoteDomain where
  "demoRemoteDomain = \<lparr>rd_id = ''zone1'', rd_name = ''example.com'', rd_status = ''active''\<rparr>"

definition demoRemoteRecord :: RemoteRecord where
  "demoRemoteRecord =
     \<lparr>rr_id = ''rr1'', rr_type = ''A'', rr_name = ''www'', rr_content = ''192.0.2.1'',
      rr_ttl = Finite 300, rr_priority = None, rr_proxied = None, rr_extra = None\<rparr>"

definition demoAdapter :: Adapter where
  "demoAdapter =
     \<lparr>a_listDomains = Inr [demoRemoteDomain],
      a_listRecords = (\<lambda>remoteDomainId. Inr [demoRemoteRecord]),
      a_createRecord = (\<lambda>remoteDomainId input. Inr demoRemoteRecord),
      a_updateRecord = (\<lambda>remoteDomainId remoteRecordId input. Inr demoRemoteRecord),
      a_deleteRecord = (\<lambda>remoteDomainId remoteRecordId. Inr ())\<rparr>"

definition downAdapter :: Adapter where
  "downAdapter =
     \<lparr>a_listDomains = Inl (Error ''503''),
      a_listRecords = (\<lambda>remoteDomainId. Inl (Error ''503'')),
      a_createRecord = (\<lambda>remoteDomainId input. Inl (Error ''503'')),
      a_updateRecord = (\<lambda>remoteDomainId remoteRecordId input. Inl (Error ''503'')),
      a_deleteRecord = (\<lambda>remoteDomainId remoteRecordId. Inl (Error ''503''))\<rparr>"

definition demoEnv :: Env where
  "demoEnv =
     \<lparr>sessionUserId = Some ''u1'', runtime = demoNode, masterKey = Some ''master'',
      createProvider = (\<lambda>name credentials.
         if name = ''cloudflare'' then Inr demoAdapter
         else if name = ''down'' then Inr downAdapter
         else Inl (Error ''Unknown provider'')),
      nanoid = (\<lambda>n. ''n'' @ replicate n CHR ''x''),
      clock = (\<lambda>n. 1700000000000 + int n)\<rparr>"

definition demoWorld :: World where
  "demoWorld =
     \<lparr>providers =
        [\<lparr>p_id = ''p1'', p_userId = ''u1'', p_name = ''cloudflare'', p_label = ''Cloudflare'',
          p_credentials = demoBlob, p_status = ''active'', p_lastSyncAt = None,
          p_createdAt = Some 0, p_updatedAt = Some 0\<rparr>,
         \<lparr>p_id = ''p2'', p_userId = ''u1'', p_name = ''down'', p_label = ''Down'',
          p_credentials = demoBlob, p_status = ''active'', p_lastSyncAt = None,
          p_createdAt = Some 0, p_updatedAt = Some 0\<rparr>],
      domains =
        [\<lparr>d_id = ''d2'', d_providerId = ''p2'', d_name = ''example.org'', d_remoteId = ''zone2'',
          d_status = ''active'', d_syncedAt = Some 5, d_createdAt = Some 1, d_updatedAt = Some 5\<rparr>],
      records =
        [\<lparr>r_id = ''r2'', r_domainId = ''d2'', r_remoteId = ''rr2'', r_type = ''A'',
          r_name = ''@'', r_content = ''192.0.2.2'', r_ttl = Finite 300, r_priority = None,
          r_proxied = Some False, r_extra = None, r_syncedAt = Some 5, r_createdAt = Some 5,
          r_updatedAt = Some 5\<rparr>],
      remoteCalls = [], ticks = 0, idsDrawn = 0\<rparr>"

text \<open>The same installation after provider \<open>p1\<close> and then its domain have been synced.\<close>

definition demoWorld1 :: World where
  "demoWorld1 = snd (syncProvider demoEnv ''p1'' demoWorld)"

definition demoWorld2 :: World where
  "demoWorld2 = snd (syncDomainRecords demoEnv ''n'' demoWorld1)"


definition demoCreateInput :: CreateRecordInput where
  "demoCreateInput =
     \<lparr>c_type = ''A'', c_name = ''www'', c_content = ''192.0.2.1'', c_ttl = Some (Finite 300),
      c_priority = None, c_proxied = None\<rparr>"

definition demoUpdateInput :: UpdateRecordInput where
  "demoUpdateInput =
     \<lparr>u_type = Some ''A'', u_name = Some ''www'', u_content = Some ''192.0.2.1'',
      u_ttl = Some (Finite 300), u_priority = None, u_proxied = None\<rparr>"


text \<open>
  Inputs the validator rejects, an update that leaves the name out, and an update whose
  content is the empty string.
\<close>

definition badCreateInput :: CreateRecordInput where
  "badCreateInput =
     \<lparr>c_type = ''A'', c_name = ''www'', c_content = ''999.1.1.1'', c_ttl = None,
      c_priority = None, c_proxied = None\<rparr>"

definition badUpdateInput :: UpdateRecordInput where
  "badUpdateInput =
     \<lparr>u_type = Some ''A'', u_name = Some ''www'', u_content = Some ''999.1.1.1'',
      u_ttl = None, u_priority = None, u_proxied = None\<rparr>"

definition partialUpdateInput :: UpdateRecordInput where
  "partialUpdateInput =
     \<lparr>u_type = Some ''A'', u_name = None, u_content = Some ''999.1.1.1'',
      u_ttl = None, u_priority = None, u_proxied = None\<rparr>"

definition blankUpdateInput :: UpdateRecordInput where
  "blankUpdateInput =
     \<lparr>u_type = Some ''A'', u_name = Some ''www'', u_content = Some [],
      u_ttl = None, u_priority = None, u_proxied = None\<rparr>"


section \<open>Properties of the rate limiter\<close>

lemma checkRateLimit_fresh:
  "store (rateLimitKey a i) = None \<Longrightarrow>
   checkRateLimit a i cfg now store =
     (\<lparr>success = True, remaining = maxRequests cfg - 1,
       resetTime = now + windowMs cfg, retryAfterMs = None\<rparr>,
      store(rateLimitKey a i \<mapsto> \<lparr>count = 1, entry_resetTime = now + windowMs cfg\<rparr>))"
  by (simp add: checkRateLimit_def)

lemma checkRateLimit_counting:
  assumes "store (rateLimitKey a i) = Some e" "\<not> now > entry_resetTime e"
    "count e < maxRequests cfg"
  shows "checkRateLimit a i cfg now store =
     (\<lparr>success = True, remaining = maxRequests cfg - (count e + 1),
       resetTime = entry_resetTime e, retryAfterMs = None\<rparr>,
      store(rateLimitKey a i \<mapsto> e\<lparr>count := count e + 1\<rparr>))"
  using assms by (simp add: checkRateLimit_def)

lemma checkRateLimit_exceeded:
  assumes "store (rateLimitKey a i) = Some e" "\<not> now > entry_resetTime e"
    "count e \<ge> maxRequests cfg"
  shows "checkRateLimit a i cfg now store =
     (\<lparr>success = False, remaining = 0, resetTime = entry_resetTime e,
       retryAfterMs = Some (entry_resetTime e - now)\<rparr>, store)"
  using assms by (simp add: checkRateLimit_def)

lemma checkRateLimit_expired:
  assumes "store (rateLimitKey a i) = Some e" "now > entry_resetTime e"
  shows "checkRateLimit a i cfg now store =
     (\<lparr>success = True, remaining = maxRequests cfg - 1,
       resetTime = now + windowMs cfg, retryAfterMs = None\<rparr>,
      store(rateLimitKey a i \<mapsto> \<lparr>count = 1, entry_resetTime = now + windowMs cfg\<rparr>))"
  using assms by (simp add: checkRateLimit_def)

text \<open>
  A sweep that ran no later than the check never changes the check's answer: it only
  drops entries the check would treat as expired.
\<close>

lemma cleanupExpired_invisible:
  "t \<le> now \<Longrightarrow>
   fst (checkRateLimit a i cfg now (cleanupExpired t store)) =
   fst (checkRateLimit a i cfg now store)"
  by (auto simp: checkRateLimit_def cleanupExpired_def Let_def split: option.splits)

text \<open>
  Claim C9, as the code has it. With \<open>maxRequests = 5\<close> and \<open>windowMs = 900000\<close> on a
  key that has no entry: the first call opens a window whose \<open>resetTime\<close> is
  \<open>t1 + 900000\<close>; four more calls made no later than \<open>resetTime\<close> succeed; a sixth call
  made no later than \<open>resetTime\<close> is refused with \<open>retryAfterMs = resetTime - now\<close>, which is
  never negative and is positive exactly when the call is made before \<open>resetTime\<close>; a call
  made after \<open>resetTime\<close> succeeds again.
\<close>

theorem checkRateLimit_login_window:
  assumes fresh: "store (rateLimitKey a i) = None"
    and inside: "t2 \<le> t1 + 900000" "t3 \<le> t1 + 900000" "t4 \<le> t1 + 900000"
      "t5 \<le> t1 + 900000" "t6 \<le> t1 + 900000"
    and after: "t7 > t1 + 900000"
    and run: "rs = checkRateLimitSeq a i loginConfig [t1, t2, t3, t4, t5, t6, t7] store"
  shows "length rs = 7
    \<and> success (rs ! 0) \<and> resetTime (rs ! 0) = t1 + 900000
    \<and> success (rs ! 1) \<and> success (rs ! 2) \<and> success (rs ! 3) \<and> success (rs ! 4)
    \<and> \<not> success (rs ! 5)
    \<and> (\<exists>d. retryAfterMs (rs ! 5) = Some d \<and> d = t1 + 900000 - t6 \<and> d \<ge> 0
            \<and> (d > 0) = (t6 < t1 + 900000))
    \<and> success (rs ! 6)"
proof -
  let ?k = "rateLimitKey a i"
  let ?W = "t1 + 900000"
  define s1 where "s1 = store(?k \<mapsto> \<lparr>count = 1, entry_resetTime = ?W\<rparr>)"
  define s2 where "s2 = s1(?k \<mapsto> \<lparr>count = 2, entry_resetTime = ?W\<rparr>)"
  define s3 where "s3 = s2(?k \<mapsto> \<lparr>count = 3, entry_resetTime = ?W\<rparr>)"
  define s4 where "s4 = s3(?k \<mapsto> \<lparr>count = 4, entry_resetTime = ?W\<rparr>)"
  define s5 where "s5 = s4(?k \<mapsto> \<lparr>count = 5, entry_resetTime = ?W\<rparr>)"
  have c1: "checkRateLimit a i loginConfig t1 store =
      (\<lparr>success = True, remaining = 4, resetTime = ?W, retryAfterMs = None\<rparr>, s1)"
    using fresh by (simp add: checkRateLimit_fresh loginConfig_def s1_def)
  have c2: "checkRateLimit a i loginConfig t2 s1 =
      (\<lparr>success = True, remaining = 3, resetTime = ?W, retryAfterMs = None\<rparr>, s2)"
    using inside(1)
    by (subst checkRateLimit_counting [where e = "\<lparr>count = 1, entry_resetTime = ?W\<rparr>"])
       (simp_all add: loginConfig_def s1_def s2_def)
  have c3: "checkRateLimit a i loginConfig t3 s2 =
      (\<lparr>success = True, remaining = 2, resetTime = ?W, retryAfterMs = None\<rparr>, s3)"
    using inside(2)
    by (subst checkRateLimit_counting [where e = "\<lparr>count = 2, entry_resetTime = ?W\<rparr>"])
       (simp_all add: loginConfig_def s2_def s3_def)
  have c4: "checkRateLimit a i loginConfig t4 s3 =
      (\<lparr>success = True, remaining = 1, resetTime = ?W, retryAfterMs = None\<rparr>, s4)"
    using inside(3)
    by (subst checkRateLimit_counting [where e = "\<lparr>count = 3, entry_resetTime = ?W\<rparr>"])
       (simp_all add: loginConfig_def s3_def s4_def)
  have c5: "checkRateLimit a i loginConfig t5 s4 =
      (\<lparr>success = True, remaining = 0, resetTime = ?W, retryAfterMs = None\<rparr>, s5)"
    using inside(4)
    by (subst checkRateLimit_counting [where e = "\<lparr>count = 4, entry_resetTime = ?W\<rparr>"])
       (simp_all add: loginConfig_def s4_def s5_def)
  have c6: "checkRateLimit a i loginConfig t6 s5 =
      (\<lparr>success = False, remaining = 0, resetTime = ?W, retryAfterMs = Some (?W - t6)\<rparr>, s5)"
    using inside(5)
    by (subst checkRateLimit_exceeded [where e = "\<lparr>count = 5, entry_resetTime = ?W\<rparr>"])
       (simp_all add: loginConfig_def s5_def)
  have c7: "checkRateLimit a i loginConfig t7 s5 =
      (\<lparr>success = True, remaining = 4, resetTime = t7 + 900000, retryAfterMs = None\<rparr>,
       s5(?k \<mapsto> \<lparr>count = 1, entry_resetTime = t7 + 900000\<rparr>))"
    using after
    by (subst checkRateLimit_expired [where e = "\<lparr>count = 5, entry_resetTime = ?W\<rparr>"])
       (simp_all add: loginConfig_def s5_def)
  have "rs = [\<lparr>success = True, remaining = 4, resetTime = ?W, retryAfterMs = None\<rparr>,
              \<lparr>success = True, remaining = 3, resetTime = ?W, retryAfterMs = None\<rparr>,
              \<lparr>success = True, remaining = 2, resetTime = ?W, retryAfterMs = None\<rparr>,
              \<lparr>success = True, remaining = 1, resetTime = ?W, retryAfterMs = None\<rparr>,
              \<lparr>success = True, remaining = 0, resetTime = ?W, retryAfterMs = None\<rparr>,
              \<lparr>success = False, remaining = 0, resetTime = ?W, retryAfterMs = Some (?W - t6)\<rparr>,
              \<lparr>success = True, remaining = 4, resetTime = t7 + 900000, retryAfterMs = None\<rparr>]"
    unfolding run by (simp add: c1 c2 c3 c4 c5 c6 c7)
  then show ?thesis using inside(5) by auto
qed

theorem checkRateLimit_login_window_witness:
  "(let rs = checkRateLimitSeq ''login'' ''10.0.0.1'' loginConfig
               [1000, 2000, 3000, 4000, 5000, 6000, 901001] Map.empty
    in length rs = 7
      \<and> success (rs ! 0) \<and> resetTime (rs ! 0) = 901000
      \<and> success (rs ! 1) \<and> success (rs ! 2) \<and> success (rs ! 3) \<and> success (rs ! 4)
      \<and> \<not> success (rs ! 5) \<and> retryAfterMs (rs ! 5) = Some 895000
      \<and> success (rs ! 6))"
  using checkRateLimit_login_window
    [of Map.empty "''login''" "''10.0.0.1''" 2000 1000 3000 4000 5000 6000 901001
        "checkRateLimitSeq ''login'' ''10.0.0.1'' loginConfig
               [1000, 2000, 3000, 4000, 5000, 6000, 901001] Map.empty"]
  by (auto simp: Let_def)

text \<open>
  The claim as stated fails at the last instant of the window. The first call, at time
  1000, sets \<open>resetTime = 901000\<close>. A sixth call at time 901000 is not after \<open>resetTime\<close>, so
  it is counted in the same window and refused, and its \<open>retryAfterMs\<close> is 0, not a
  positive number.
\<close>

theorem checkRateLimit_window_end_counterexample:
  "map success (checkRateLimitSeq ''login'' ''10.0.0.1'' loginConfig
                  [1000, 2000, 3000, 4000, 5000, 901000] Map.empty) =
     [True, True, True, True, True, False]
   \<and> map resetTime (checkRateLimitSeq ''login'' ''10.0.0.1'' loginConfig
                  [1000, 2000, 3000, 4000, 5000, 901000] Map.empty) =
     [901000, 901000, 901000, 901000, 901000, 901000]
   \<and> map retryAfterMs (checkRateLimitSeq ''login'' ''10.0.0.1'' loginConfig
                  [1000, 2000, 3000, 4000, 5000, 901000] Map.empty) =
     [None, None, None, None, None, Some 0]"
  by (simp add: checkRateLimit_def loginConfig_def rateLimitKey_def)

text \<open>
  Claim C10. Whatever the store holds, clearing a key and then checking it returns
  \<open>success = true\<close>, \<open>remaining = maxRequests - 1\<close> and \<open>resetTime = now + windowMs\<close>.
\<close>

theorem reset_then_check:
  "fst (checkRateLimit action identifier config now (resetRateLimit action identifier store)) =
     \<lparr>success = True, remaining = maxRequests config - 1,
      resetTime = now + windowMs config, retryAfterMs = None\<rparr>"
  by (simp add: checkRateLimit_def resetRateLimit_def)

theorem reset_then_check_witness:
  "fst (checkRateLimit ''login'' ''10.0.0.1'' loginConfig 5000
         (resetRateLimit ''login'' ''10.0.0.1''
            (snd (checkRateLimit ''login'' ''10.0.0.1'' loginConfig 1000 Map.empty)))) =
     \<lparr>success = True, remaining = 4, resetTime = 905000, retryAfterMs = None\<rparr>"
  using reset_then_check [of "''login''" "''10.0.0.1''" loginConfig 5000
      "snd (checkRateLimit ''login'' ''10.0.0.1'' loginConfig 1000 Map.empty)"]
  by (simp add: loginConfig_def)


section \<open>Properties of the credential vault\<close>

lemma length_randomBytes [simp]: "length (randomBytes entropy pos n) = n"
  by (simp add: randomBytes_def)

lemma deriveKey_set:
  "k \<noteq> [] \<Longrightarrow> deriveKey N (Some k) salt = Inr (pbkdf2Sync N k salt ITERATIONS KEY_LENGTH)"
  by (simp add: deriveKey_def getEncryptionKey_def)

text \<open>The four slices of \<open>decryptCredentials\<close> take apart what \<open>encryptCredentials\<close> joined.\<close>

lemma blob_layout:
  assumes "length salt = SALT_LENGTH" "length iv = IV_LENGTH" "length tag = AUTH_TAG_LENGTH"
  shows "subarray (salt @ iv @ tag @ ct) 0 SALT_LENGTH = salt"
    and "subarray (salt @ iv @ tag @ ct) SALT_LENGTH (SALT_LENGTH + IV_LENGTH) = iv"
    and "subarray (salt @ iv @ tag @ ct) (SALT_LENGTH + IV_LENGTH)
           (SALT_LENGTH + IV_LENGTH + AUTH_TAG_LENGTH) = tag"
    and "subarray_from (salt @ iv @ tag @ ct) (SALT_LENGTH + IV_LENGTH + AUTH_TAG_LENGTH) = ct"
  using assms by (simp_all add: subarray_def subarray_from_def)

lemma char_byte_roundtrip: "char_of (unat (of_nat (of_char c) :: byte)) = c"
proof -
  have "of_char c < (256::nat)" by simp
  then have "unat (of_nat (of_char c) :: byte) = of_char c"
    by (simp add: unat_of_nat)
  then show ?thesis by simp
qed

lemma byte_mod_256: "(of_nat (unat (b::byte) mod 256) :: byte) = b"
proof -
  have "unat b < 2 ^ LENGTH(8)" by (rule unsigned_less)
  then have "unat b mod 256 = unat b" by simp
  then show ?thesis by simp
qed

lemma demoNode_base64: "base64_decode demoNode (base64_encode demoNode b) = b"
  unfolding demoNode_def by (simp add: comp_def byte_mod_256)

lemma demoNode_utf8: "utf8_decode demoNode (utf8_encode demoNode s) = s"
  unfolding demoNode_def by (simp add: comp_def char_byte_roundtrip)

lemma demoNode_contract: "node_contract demoNode"
  unfolding node_contract_def
proof (intro conjI allI impI)
  fix b show "base64_decode demoNode (base64_encode demoNode b) = b"
    by (rule demoNode_base64)
next
  fix pw salt n len show "length (pbkdf2Sync demoNode pw salt n len) = len"
    by (simp add: demoNode_def)
next
  fix key iv pt
  show "case gcm_encrypt demoNode key iv pt of
          (ct, tag) \<Rightarrow> length tag = AUTH_TAG_LENGTH \<and> gcm_decrypt demoNode key iv tag ct = Some pt"
    by (simp add: demoNode_def AUTH_TAG_LENGTH_def)
qed

lemma demoNode_json: "json_roundtrip demoNode demoCredentials"
  unfolding json_roundtrip_def demoNode_utf8 by (simp add: demoNode_def)

text \<open>The authenticated path undoes \<open>encryptCredentials\<close>.\<close>

lemma vault_roundtrip:
  assumes key: "envKey = Some k" "k \<noteq> []"
    and rt: "node_contract N"
    and js: "json_roundtrip N M"
  shows "\<exists>blob. encryptCredentials N envKey entropy M = Inr blob
           \<and> decryptCredentials N envKey blob = Inr (JSRecord M)"
proof -
  define salt where "salt = randomBytes entropy 0 SALT_LENGTH"
  define iv where "iv = randomBytes entropy SALT_LENGTH IV_LENGTH"
  define dk where "dk = pbkdf2Sync N k salt ITERATIONS KEY_LENGTH"
  define pt where "pt = utf8_encode N (JSON_stringify N M)"
  obtain ct tag where enc: "gcm_encrypt N dk iv pt = (ct, tag)"
    by (cases "gcm_encrypt N dk iv pt")
  define blob where "blob = base64_encode N (salt @ iv @ tag @ ct)"
  have len: "length salt = SALT_LENGTH" "length iv = IV_LENGTH" "length dk = KEY_LENGTH"
    using rt by (simp_all add: salt_def iv_def dk_def node_contract_def)
  from rt have "\<forall>key iv pt. length key = KEY_LENGTH \<and> length iv = IV_LENGTH \<longrightarrow>
         (case gcm_encrypt N key iv pt of
            (ct, tag) \<Rightarrow> length tag = AUTH_TAG_LENGTH \<and> gcm_decrypt N key iv tag ct = Some pt)"
    by (simp add: node_contract_def)
  from this [rule_format, of dk iv pt] len have "case gcm_encrypt N dk iv pt of
      (ct, tag) \<Rightarrow> length tag = AUTH_TAG_LENGTH \<and> gcm_decrypt N dk iv tag ct = Some pt"
    by simp
  with enc have tag: "length tag = AUTH_TAG_LENGTH"
    and dec: "gcm_decrypt N dk iv tag ct = Some pt"
    by simp_all
  have E: "encryptCredentials N envKey entropy M = Inr blob"
    using enc key
    by (simp add: encryptCredentials_def deriveKey_set Let_def
        salt_def [symmetric] iv_def [symmetric] dk_def [symmetric] pt_def [symmetric] blob_def)
  have b64: "base64_decode N blob = salt @ iv @ tag @ ct"
    using rt by (simp add: blob_def node_contract_def)
  have "decryptAuthenticated N envKey blob = Inr (JSRecord M)"
    using key dec js
    by (simp add: decryptAuthenticated_def Let_def b64 blob_layout [OF len(1,2) tag]
        deriveKey_set dk_def [symmetric] pt_def json_roundtrip_def)
  then have "decryptCredentials N envKey blob = Inr (JSRecord M)"
    by (simp add: decryptCredentials_def)
  with E show ?thesis by blast
qed

text \<open>
  Claim C1. With the master key set, every credential map that survives JSON comes back
  from \<open>decryptCredentials\<close> after \<open>encryptCredentials\<close>, whatever salt and IV were drawn.
\<close>

theorem decrypt_encrypt_roundtrip:
  assumes "envKey = Some k" "k \<noteq> []"
    and "node_contract N"
    and "json_roundtrip N M"
  shows "\<exists>blob. encryptCredentials N envKey entropy M = Inr blob
           \<and> decryptCredentials N envKey blob = Inr (JSRecord M)"
  using assms by (rule vault_roundtrip)

theorem decrypt_encrypt_roundtrip_witness:
  "node_contract demoNode \<and> json_roundtrip demoNode demoCredentials
   \<and> (\<exists>blob. encryptCredentials demoNode (Some ''master'') (\<lambda>n. of_nat n) demoCredentials = Inr blob
           \<and> decryptCredentials demoNode (Some ''master'') blob = Inr (JSRecord demoCredentials))"
  using decrypt_encrypt_roundtrip [of "Some ''master''" "''master''" demoNode demoCredentials
      "\<lambda>n. of_nat n"] demoNode_contract demoNode_json
  by simp

lemma demoBlob_decrypt:
  "decryptCredentials demoNode (Some ''master'') demoBlob = Inr (JSRecord demoCredentials)"
proof -
  obtain blob where "encryptCredentials demoNode (Some ''master'') (\<lambda>n. of_nat n) demoCredentials = Inr blob"
    and "decryptCredentials demoNode (Some ''master'') blob = Inr (JSRecord demoCredentials)"
    using vault_roundtrip [OF refl _ demoNode_contract demoNode_json, of "''master''" "\<lambda>n. of_nat n"]
    by auto
  then show ?thesis by (simp add: demoBlob_def)
qed

text \<open>
  A tag that does not verify sends \<open>decryptCredentials\<close> to the legacy path: the result is
  whatever that path makes of the blob.
\<close>

lemma decrypt_falls_back:
  "decryptAuthenticated N envKey blob = Inl e \<Longrightarrow>
   decryptCredentials N envKey blob = decryptLegacy N blob"
  by (simp add: decryptCredentials_def)


lemma flip_changes: "b < 8 \<Longrightarrow> (w::byte) XOR push_bit b 1 \<noteq> w"
proof
  assume b: "b < 8" and eq: "w XOR push_bit b 1 = w"
  have "bit (w XOR push_bit b 1) b \<longleftrightarrow> \<not> bit w b"
    using b by (simp add: bit_xor_iff bit_exp_iff)
  with eq show False by simp
qed

lemma flipBit_changes: "j < length buf \<Longrightarrow> b < 8 \<Longrightarrow> flipBit j b buf \<noteq> buf"
proof
  assume j: "j < length buf" and b: "b < 8" and eq: "flipBit j b buf = buf"
  from j have "flipBit j b buf ! j = (buf ! j) XOR push_bit b 1"
    unfolding flipBit_def by (rule nth_list_update_eq)
  with eq have "(buf ! j) XOR push_bit b 1 = buf ! j" by simp
  with flip_changes [OF b] show False by blast
qed

lemma flipBit_length [simp]: "length (flipBit j b buf) = length buf"
  by (simp add: flipBit_def)

lemma flipBit_append_right:
  "length xs \<le> i \<Longrightarrow> flipBit i b (xs @ ys) = xs @ flipBit (i - length xs) b ys"
  by (simp add: flipBit_def list_update_append nth_append)

lemma flipBit_append_left:
  "i < length xs \<Longrightarrow> flipBit i b (xs @ ys) = flipBit i b xs @ ys"
  by (simp add: flipBit_def list_update_append nth_append)

lemma flipBit_tag:
  assumes "length salt = SALT_LENGTH" "length iv = IV_LENGTH" "length tag = AUTH_TAG_LENGTH"
    and i: "SALT_LENGTH + IV_LENGTH \<le> i" "i < SALT_LENGTH + IV_LENGTH + AUTH_TAG_LENGTH"
  shows "flipBit i b (salt @ iv @ tag @ ct) =
           salt @ iv @ flipBit (i - (SALT_LENGTH + IV_LENGTH)) b tag @ ct"
proof -
  have 1: "length salt \<le> i" using assms by simp
  have 2: "length iv \<le> i - length salt" using assms by simp
  have 3: "i - (SALT_LENGTH + IV_LENGTH) < length tag" using assms by simp
  have 4: "i - length salt - length iv = i - (SALT_LENGTH + IV_LENGTH)" using assms by simp
  show ?thesis
    by (simp only: flipBit_append_right [OF 1] flipBit_append_right [OF 2]
        flipBit_append_left [OF 3] 4)
qed


text \<open>
  A blob whose tag has one bit flipped is refused by the authenticated path, so
  \<open>decryptCredentials\<close> answers what the legacy path makes of the tampered blob.
\<close>

lemma tampered_tag_falls_back:
  assumes key: "envKey = Some k" "k \<noteq> []"
    and rt: "node_contract N" and tb: "tag_binding N"
    and i: "SALT_LENGTH + IV_LENGTH \<le> i" "i < SALT_LENGTH + IV_LENGTH + AUTH_TAG_LENGTH"
    and b: "b < 8"
    and enc: "encryptCredentials N envKey entropy M = Inr blob"
  shows "decryptCredentials N envKey (base64_encode N (flipBit i b (base64_decode N blob))) =
         decryptLegacy N (base64_encode N (flipBit i b (base64_decode N blob)))"
proof -
  define salt where "salt = randomBytes entropy 0 SALT_LENGTH"
  define iv where "iv = randomBytes entropy SALT_LENGTH IV_LENGTH"
  define dk where "dk = pbkdf2Sync N k salt ITERATIONS KEY_LENGTH"
  define pt where "pt = utf8_encode N (JSON_stringify N M)"
  define ct where "ct = fst (gcm_encrypt N dk iv pt)"
  define tag where "tag = snd (gcm_encrypt N dk iv pt)"
  have e: "gcm_encrypt N dk iv pt = (ct, tag)" by (simp add: ct_def tag_def)
  have len: "length salt = SALT_LENGTH" "length iv = IV_LENGTH" "length dk = KEY_LENGTH"
    using rt by (simp_all add: salt_def iv_def dk_def node_contract_def)
  from rt have "\<forall>key iv pt. length key = KEY_LENGTH \<and> length iv = IV_LENGTH \<longrightarrow>
         (case gcm_encrypt N key iv pt of
            (ct, tag) \<Rightarrow> length tag = AUTH_TAG_LENGTH \<and> gcm_decrypt N key iv tag ct = Some pt)"
    by (simp add: node_contract_def)
  from this [rule_format, of dk iv pt] len e have tl: "length tag = AUTH_TAG_LENGTH" by simp
  have blob: "blob = base64_encode N (salt @ iv @ tag @ ct)"
    using enc key e
    by (simp add: encryptCredentials_def deriveKey_set Let_def
        salt_def [symmetric] iv_def [symmetric] dk_def [symmetric] pt_def [symmetric])
  have b64: "base64_decode N (base64_encode N x) = x" for x
    using rt by (simp add: node_contract_def)
  define tag' where "tag' = flipBit (i - (SALT_LENGTH + IV_LENGTH)) b tag"
  have "i - (SALT_LENGTH + IV_LENGTH) < length tag" using i tl by simp
  from flipBit_changes [OF this b] have ne: "tag' \<noteq> tag" by (simp add: tag'_def)
  have tl': "length tag' = AUTH_TAG_LENGTH" by (simp add: tag'_def tl)
  from tb ne have rej: "gcm_decrypt N dk iv tag' ct = None"
    unfolding tag_binding_def tag_def ct_def by blast
  have dec: "base64_decode N (base64_encode N (flipBit i b (base64_decode N blob))) =
      salt @ iv @ tag' @ ct"
    by (simp only: blob b64 flipBit_tag [OF len(1,2) tl i] tag'_def)
  have "decryptAuthenticated N envKey (base64_encode N (flipBit i b (base64_decode N blob))) =
        Inl (Error ''Unsupported state or unable to authenticate data'')"
    using key
    by (simp add: decryptAuthenticated_def Let_def dec blob_layout [OF len(1,2) tl']
        deriveKey_set dk_def [symmetric] rej)
  then show ?thesis by (rule decrypt_falls_back)
qed


section \<open>Properties of the validator\<close>

subsection \<open>The matcher decides the pattern's language\<close>

lemma conc_Nil_iff: "[] \<in> conc A B \<longleftrightarrow> [] \<in> A \<and> [] \<in> B"
  by (auto simp: conc_def)

lemma conc_empty [simp]: "conc {} B = {}" "conc A {} = {}"
  by (auto simp: conc_def)

lemma conc_unit [simp]: "conc {[]} B = B"
  by (auto simp: conc_def)

lemma concI: "xs \<in> A \<Longrightarrow> ys \<in> B \<Longrightarrow> xs @ ys \<in> conc A B"
  by (auto simp: conc_def)

lemma lpow_Nil_iff: "[] \<in> lpow A k \<longleftrightarrow> k = 0 \<or> [] \<in> A"
  by (induction k) (auto simp: conc_Nil_iff)

lemma lpow_step_up: "[] \<in> A \<Longrightarrow> lpow A k \<subseteq> lpow A (Suc k)"
proof
  fix xs assume "[] \<in> A" "xs \<in> lpow A k"
  then have "[] @ xs \<in> conc A (lpow A k)" by (rule concI)
  then show "xs \<in> lpow A (Suc k)" by simp
qed

text \<open>Taking the first character off a string of \<open>k\<close> repetitions.\<close>

lemma lpow_Cons:
  "c # xs \<in> lpow A k \<Longrightarrow> \<exists>j. k = Suc j \<and> xs \<in> conc {ys. c # ys \<in> A} (lpow A j)"
proof (induction k)
  case 0
  then show ?case by simp
next
  case (Suc k)
  then obtain a b where ab: "c # xs = a @ b" "a \<in> A" "b \<in> lpow A k"
    by (auto simp: conc_def)
  show ?case
  proof (cases a)
    case Nil
    with ab have "c # xs \<in> lpow A k" and nil: "[] \<in> A" by simp_all
    from Suc.IH [OF this(1)] obtain j where j: "k = Suc j"
      and "xs \<in> conc {ys. c # ys \<in> A} (lpow A j)" by blast
    then obtain u v where uv: "xs = u @ v" "c # u \<in> A" "v \<in> lpow A j"
      by (auto simp: conc_def)
    from lpow_step_up [OF nil] uv(3) j have "v \<in> lpow A k" by blast
    with uv(1,2) have "xs \<in> conc {ys. c # ys \<in> A} (lpow A k)"
      by (auto simp: conc_def)
    then show ?thesis by blast
  next
    case (Cons c' a')
    with ab have "c' = c" "xs = a' @ b" "c # a' \<in> A" by simp_all
    with ab(3) have "xs \<in> conc {ys. c # ys \<in> A} (lpow A k)"
      by (auto simp: conc_def)
    then show ?thesis by blast
  qed
qed

lemma Cons_in_conc:
  "c # xs \<in> conc A B \<longleftrightarrow>
     xs \<in> conc {ys. c # ys \<in> A} B \<or> ([] \<in> A \<and> c # xs \<in> B)"
proof
  assume "c # xs \<in> conc A B"
  then obtain a b where ab: "c # xs = a @ b" "a \<in> A" "b \<in> B"
    by (auto simp: conc_def)
  show "xs \<in> conc {ys. c # ys \<in> A} B \<or> ([] \<in> A \<and> c # xs \<in> B)"
  proof (cases a)
    case Nil
    with ab show ?thesis by simp
  next
    case (Cons c' a')
    with ab have "xs = a' @ b" "c # a' \<in> A" by simp_all
    with ab(3) show ?thesis by (auto simp: conc_def)
  qed
next
  assume "xs \<in> conc {ys. c # ys \<in> A} B \<or> ([] \<in> A \<and> c # xs \<in> B)"
  then show "c # xs \<in> conc A B"
  proof
    assume "xs \<in> conc {ys. c # ys \<in> A} B"
    then obtain u v where uv: "xs = u @ v" "c # u \<in> A" "v \<in> B"
      by (auto simp: conc_def)
    from concI [OF uv(2,3)] have "(c # u) @ v \<in> conc A B" .
    then show ?thesis by (simp add: uv(1))
  next
    assume "[] \<in> A \<and> c # xs \<in> B"
    then have "[] \<in> A" and "c # xs \<in> B" by simp_all
    from concI [OF this] show ?thesis by simp
  qed
qed

lemma conc_UN: "conc X (\<Union>k \<in> K. P k) = (\<Union>k \<in> K. conc X (P k))"
  by (auto simp: conc_def)

lemma nullable_iff: "nullable r \<longleftrightarrow> [] \<in> lang r"
proof (induction r)
  case (Repeat r m n)
  have "[] \<in> lang (Repeat r m n) \<longleftrightarrow> (\<exists>k. inBounds m n k \<and> (k = 0 \<or> [] \<in> lang r))"
    by (simp add: lpow_Nil_iff)
  also have "\<dots> \<longleftrightarrow> (case n of None \<Rightarrow> True | Some u \<Rightarrow> m \<le> u) \<and> (m = 0 \<or> [] \<in> lang r)"
  proof (cases n)
    case None
    then show ?thesis by (auto simp: inBounds_def)
  next
    case (Some u)
    then show ?thesis by (auto simp: inBounds_def intro: exI [of _ m])
  qed
  finally show ?case using Repeat by simp
qed (auto simp: conc_Nil_iff)

lemma lang_thn: "lang (thn r s) = conc (lang r) (lang s)"
  by (cases r) simp_all

lemma lang_alt: "lang (alt r s) = lang r \<union> lang s"
  by (cases r; cases s) simp_all

lemma lang_Repeat_Cons:
  "c # xs \<in> lang (Repeat r m n) \<longleftrightarrow>
     (\<exists>j. inBounds (m - 1) (map_option (\<lambda>u. u - 1) n) j \<and> (case n of None \<Rightarrow> True | Some u \<Rightarrow> 0 < u \<and> m \<le> u)
          \<and> xs \<in> conc {ys. c # ys \<in> lang r} (lpow (lang r) j))"
proof
  assume "c # xs \<in> lang (Repeat r m n)"
  then obtain k where k: "inBounds m n k" "c # xs \<in> lpow (lang r) k" by auto
  from lpow_Cons [OF k(2)] obtain j where j: "k = Suc j"
    "xs \<in> conc {ys. c # ys \<in> lang r} (lpow (lang r) j)" by blast
  from k(1) j(1) have "inBounds (m - 1) (map_option (\<lambda>u. u - 1) n) j"
    "case n of None \<Rightarrow> True | Some u \<Rightarrow> 0 < u \<and> m \<le> u"
    by (auto simp: inBounds_def split: option.splits)
  with j(2) show "\<exists>j. inBounds (m - 1) (map_option (\<lambda>u. u - 1) n) j
      \<and> (case n of None \<Rightarrow> True | Some u \<Rightarrow> 0 < u \<and> m \<le> u)
      \<and> xs \<in> conc {ys. c # ys \<in> lang r} (lpow (lang r) j)" by blast
next
  assume "\<exists>j. inBounds (m - 1) (map_option (\<lambda>u. u - 1) n) j
      \<and> (case n of None \<Rightarrow> True | Some u \<Rightarrow> 0 < u \<and> m \<le> u)
      \<and> xs \<in> conc {ys. c # ys \<in> lang r} (lpow (lang r) j)"
  then obtain j where j: "inBounds (m - 1) (map_option (\<lambda>u. u - 1) n) j"
    "case n of None \<Rightarrow> True | Some u \<Rightarrow> 0 < u \<and> m \<le> u"
    "xs \<in> conc {ys. c # ys \<in> lang r} (lpow (lang r) j)" by blast
  from j(1,2) have "inBounds m n (Suc j)"
    by (auto simp: inBounds_def split: option.splits)
  moreover from j(3) have "c # xs \<in> lpow (lang r) (Suc j)"
    by (simp add: Cons_in_conc)
  ultimately show "c # xs \<in> lang (Repeat r m n)" by auto
qed

lemma lang_deriv: "xs \<in> lang (deriv c r) \<longleftrightarrow> c # xs \<in> lang r"
proof (induction r arbitrary: xs)
  case (Then r s)
  have D: "{ys. c # ys \<in> lang r} = lang (deriv c r)" using Then.IH(1) by auto
  show ?case
    by (simp add: lang_alt lang_thn Cons_in_conc D nullable_iff Then.IH(2))
next
  case (Alt r s)
  then show ?case by (simp add: lang_alt)
next
  case (Repeat r m n)
  have D: "{ys. c # ys \<in> lang r} = lang (deriv c r)" using Repeat.IH by auto
  have tail: "xs \<in> lang (thn (deriv c r) (Repeat r m' n')) \<longleftrightarrow>
      (\<exists>j. inBounds m' n' j \<and> xs \<in> conc (lang (deriv c r)) (lpow (lang r) j))" for m' n'
    by (simp add: lang_thn conc_UN)
  show ?case
  proof (cases n)
    case None
    then show ?thesis
      by (simp add: tail lang_Repeat_Cons D del: lang.simps)
  next
    case (Some u)
    show ?thesis
    proof (cases "u = 0 \<or> u < m")
      case True
      with Some show ?thesis by (auto simp: lang_Repeat_Cons simp del: lang.simps(6))
    next
      case False
      with Some show ?thesis
        by (simp add: tail lang_Repeat_Cons D del: lang.simps)
    qed
  qed
qed auto

text \<open>\<open>matches\<close> is membership in the language of the pattern.\<close>

lemma matches_iff: "matches r xs \<longleftrightarrow> xs \<in> lang r"
  by (induction xs arbitrary: r) (simp_all add: nullable_iff lang_deriv)

subsection \<open>Host name labels\<close>

lemma conc_Cls: "xs \<in> conc {[c] |c. p c} B \<longleftrightarrow> (\<exists>c ys. xs = c # ys \<and> p c \<and> ys \<in> B)"
proof
  assume "xs \<in> conc {[c] |c. p c} B"
  then obtain a b where "xs = a @ b" "a \<in> {[c] |c. p c}" "b \<in> B"
    unfolding conc_def by blast
  then show "\<exists>c ys. xs = c # ys \<and> p c \<and> ys \<in> B"
    by auto
next
  assume "\<exists>c ys. xs = c # ys \<and> p c \<and> ys \<in> B"
  then obtain c ys where "xs = [c] @ ys" "p c" "ys \<in> B"
    by auto
  then show "xs \<in> conc {[c] |c. p c} B"
    unfolding conc_def by blast
qed

lemma lpow_Cls:
  "xs \<in> lpow {[c] |c. p c} k \<longleftrightarrow> length xs = k \<and> (\<forall>c \<in> set xs. p c)"
proof (induction k arbitrary: xs)
  case 0
  then show ?case by auto
next
  case (Suc k)
  show ?case
    unfolding lpow.simps conc_Cls Suc by (cases xs) auto
qed

lemma lang_any: "lang (ZeroOrMore AnyChar) = UNIV"
proof -
  have "xs \<in> lpow {[c] |c. True} (length xs)" for xs
    unfolding lpow_Cls by simp
  then have "\<exists>k. xs \<in> lpow {[c] |c. True} k" for xs
    by blast
  then show ?thesis
    by (auto simp: ZeroOrMore_def AnyChar_def inBounds_def)
qed

lemma lang_starts_with:
  "xs \<in> lang (Then (Chr c) (ZeroOrMore AnyChar)) \<longleftrightarrow> xs \<noteq> [] \<and> hd xs = c"
proof -
  have "xs \<in> lang (Then (Chr c) (ZeroOrMore AnyChar)) \<longleftrightarrow> xs \<in> conc {[d] |d. d = c} UNIV"
    by (simp add: lang_any Chr_def del: lang.simps(6))
  also have "\<dots> \<longleftrightarrow> xs \<noteq> [] \<and> hd xs = c"
    unfolding conc_Cls by (cases xs) auto
  finally show ?thesis .
qed

lemma lang_ends_with:
  "xs \<in> lang (Then (ZeroOrMore AnyChar) (Chr c)) \<longleftrightarrow> xs \<noteq> [] \<and> last xs = c"
proof -
  have "xs \<in> lang (Then (ZeroOrMore AnyChar) (Chr c)) \<longleftrightarrow> xs \<in> conc UNIV {[c]}"
    by (simp add: lang_any Chr_def del: lang.simps(6))
  also have "\<dots> \<longleftrightarrow> (\<exists>ys. xs = ys @ [c])"
    unfolding conc_def by blast
  also have "\<dots> \<longleftrightarrow> xs \<noteq> [] \<and> last xs = c"
    by (cases xs rule: rev_cases) auto
  finally show ?thesis .
qed

text \<open>
  A label of a host name: 1 to 63 letters, digits and hyphens, with no hyphen at either
  end.
\<close>

lemma matches_hostLabel:
  "matches hostLabel xs \<longleftrightarrow>
     1 \<le> length xs \<and> length xs \<le> 63 \<and> (\<forall>c \<in> set xs. alnumHyphen c)
   \<and> hd xs \<noteq> CHR ''-'' \<and> last xs \<noteq> CHR ''-''"
proof -
  have rep: "xs \<in> lang (Repeat (Cls alnumHyphen) 1 (Some 63)) \<longleftrightarrow>
      1 \<le> length xs \<and> length xs \<le> 63 \<and> (\<forall>c \<in> set xs. alnumHyphen c)"
    by (auto simp: lpow_Cls inBounds_def)
  have "matches hostLabel xs \<longleftrightarrow>
      xs \<in> lang (Repeat (Cls alnumHyphen) 1 (Some 63))
    \<and> xs \<notin> lang (Then (Chr CHR ''-'') (ZeroOrMore AnyChar))
    \<and> xs \<notin> lang (Then (ZeroOrMore AnyChar) (Chr CHR ''-''))"
    by (simp add: matches_iff hostLabel_def del: lang.simps(3,4,6))
  also have "\<dots> \<longleftrightarrow> 1 \<le> length xs \<and> length xs \<le> 63 \<and> (\<forall>c \<in> set xs. alnumHyphen c)
       \<and> hd xs \<noteq> CHR ''-'' \<and> last xs \<noteq> CHR ''-''"
    unfolding rep lang_starts_with lang_ends_with by auto
  finally show ?thesis .
qed

subsection \<open>Evaluating the validator\<close>


lemmas regex_defs =
  IPV4_REGEX_def IPV6_REGEX_def HOSTNAME_REGEX_def DNS_NAME_REGEX_def TXT_CONTENT_REGEX_def
  CAA_REGEX_def octet_def hextet_def hextetColon_def hostLabel_def nameLabel_def
  ZeroOrMore_def OneOrMore_def Optional_def Chr_def AnyChar_def alnumHyphen_def alnum_def
  hexDigit_def digit_def Range_def isSpace_def

lemmas validator_defs =
  validateDNSRecord_def validateRecordName_def validateRecordContent_def validateTTL_def
  validatePriority_def accepted_def rejected_def trim_def toUpperCase_def toUpper_def
  numGreater_def Let_def

lemmas eval_defs =
  validator_defs regex_defs splitWhitespace_def Number_def unsignedDecimal_def
  exponentPart_def digitsValue_def digitValue_def scale10_def toLower_def

text \<open>The validator on the examples of the specification's table.\<close>

lemma validator_table:
  "valid (validateRecordContent ''A'' ''1.2.3.4'')"
  "\<not> valid (validateRecordContent ''A'' ''999.1.1.1'')"
  "valid (validateRecordContent ''AAAA'' ''::1'')"
  "\<not> valid (validateTTL (Finite 30))"
  "valid (validateTTL (Finite 604800))"
  "\<not> valid (validateDNSRecord \<lparr>f_type = ''MX'', f_name = ''@'', f_content = ''mail.example.com'',
       f_ttl = None, f_priority = None\<rparr>)"
  "valid (validateRecordContent ''SRV'' ''10 5060 sip.example.com'')"
  "valid (validateRecordContent ''CAA'' ''0 issue letsencrypt.org'')"
  "\<not> valid (validateRecordContent ''CAA'' ''garbage'')"
  by (simp_all add: eval_defs)

subsection \<open>SRV content\<close>

lemma toUpperCase_SRV: "toUpperCase ''SRV'' = ''SRV''"
  by (simp add: toUpperCase_def toUpper_def Range_def)

text \<open>What \<open>validateRecordContent\<close> accepts as SRV content.\<close>

lemma validateRecordContent_SRV_iff:
  "valid (validateRecordContent ''SRV'' content) \<longleftrightarrow>
     content \<noteq> [] \<and> trim content \<noteq> []
   \<and> (let srvParts = splitWhitespace (trim content) in
        3 \<le> length srvParts
      \<and> \<not> isNaN (Number (srvParts ! 0)) \<and> \<not> numLess (Number (srvParts ! 0)) (Finite 0)
      \<and> \<not> numGreater (Number (srvParts ! 0)) (Finite 65535)
      \<and> \<not> isNaN (Number (srvParts ! 1)) \<and> \<not> numLess (Number (srvParts ! 1)) (Finite 0)
      \<and> \<not> numGreater (Number (srvParts ! 1)) (Finite 65535)
      \<and> (matches HOSTNAME_REGEX (srvParts ! 2) \<or> srvParts ! 2 = ''.''))"
  by (auto simp: validateRecordContent_def toUpperCase_SRV Let_def accepted_def rejected_def)

text \<open>
  Claim C8. The claim says that SRV content with more than three fields is rejected.
  The code splits the trimmed content at white space, refuses fewer than three fields,
  and checks the first three; a fourth field is never looked at. So the full RDATA form
  \<open>priority weight port target\<close>, which the code's own comment sets apart from the
  expected \<open>weight port target\<close>, passes with its port read as the target.
\<close>

theorem validateRecordContent_SRV_extra_field:
  "splitWhitespace (trim ''10 20 5060 sip.example.com'') =
     [''10'', ''20'', ''5060'', ''sip.example.com'']
   \<and> validateRecordContent ''SRV'' ''10 20 5060 sip.example.com'' = accepted
   \<and> validateRecordContent ''SRV'' ''10 5060 sip.example.com extra'' = accepted
   \<and> validateRecordContent ''SRV'' ''10 5060 sip.example.com'' = accepted"
  by (simp add: validateRecordContent_def trim_def isSpace_def toUpperCase_def toUpper_def
      splitWhitespace_def Number_def unsignedDecimal_def exponentPart_def digitsValue_def
      digitValue_def scale10_def numGreater_def rejected_def accepted_def
      HOSTNAME_REGEX_def hostLabel_def ZeroOrMore_def Optional_def Chr_def AnyChar_def
      alnumHyphen_def alnum_def digit_def Range_def Let_def)


section \<open>Properties of the synchronisation engine\<close>

subsection \<open>The domain loop\<close>

lemma syncDomains_hit:
  assumes "target pid (domains w) (rd_id rd) = Some i"
  shows "syncDomains env pid (rd # rds) w =
           syncDomains env pid rds
             (w\<lparr>ticks := Suc (Suc (ticks w)),
                domains := map (\<lambda>d. if d_id d = i
                                     then touched rd (clock env (ticks w)) (clock env (Suc (ticks w))) d
                                     else d) (domains w)\<rparr>)"
  using assms
  by (simp add: target_def newDate_def touched_def split: list.splits cong: if_cong)

lemma syncDomains_miss:
  assumes "target pid (domains w) (rd_id rd) = None"
  shows "syncDomains env pid (rd # rds) w =
           (if d_id (freshDomain env pid rd w) \<in> set (map d_id (domains w)) then
              (Inl (Error ''UNIQUE constraint failed: domains.id''),
               w\<lparr>idsDrawn := Suc (idsDrawn w), ticks := Suc (Suc (Suc (ticks w)))\<rparr>)
            else
              syncDomains env pid rds
                (w\<lparr>idsDrawn := Suc (idsDrawn w), ticks := Suc (Suc (Suc (ticks w))),
                   domains := domains w @ [freshDomain env pid rd w]\<rparr>))"
  using assms
  by (simp add: target_def newDate_def drawId_def insertDomain_def freshDomain_def
      split: list.splits)

lemma target_Some_mem: "target pid T k = Some i \<Longrightarrow> i \<in> set (map d_id T)"
proof -
  assume a: "target pid T k = Some i"
  then obtain ex exs where f: "filter (\<lambda>d. d_providerId d = pid \<and> d_remoteId d = k) T = ex # exs"
    and i: "d_id ex = i"
    by (auto simp: target_def split: list.splits)
  from f have "ex \<in> set (filter (\<lambda>d. d_providerId d = pid \<and> d_remoteId d = k) T)" by simp
  then have "ex \<in> set T" by simp
  with i show ?thesis by auto
qed

lemma target_None_iff: "target pid T k = None \<longleftrightarrow> (pid, k) \<notin> set (map domainKey T)"
proof -
  have "filter (\<lambda>d. d_providerId d = pid \<and> d_remoteId d = k) T = [] \<longleftrightarrow>
        (\<forall>d \<in> set T. \<not> (d_providerId d = pid \<and> d_remoteId d = k))"
    by (simp add: filter_empty_conv)
  then show ?thesis
    by (auto simp: target_def domainKey_def split: list.splits)
qed

lemma target_map:
  assumes "\<And>d. d_id (f d) = d_id d" "\<And>d. d_providerId (f d) = d_providerId d"
    "\<And>d. d_remoteId (f d) = d_remoteId d"
  shows "target pid (map f T) k = target pid T k"
proof -
  have "filter (\<lambda>d. d_providerId d = pid \<and> d_remoteId d = k) (map f T) =
        map f (filter (\<lambda>d. d_providerId d = pid \<and> d_remoteId d = k) T)"
    by (simp add: filter_map comp_def assms)
  then show ?thesis
    by (simp add: target_def assms split: list.splits)
qed

lemma target_touch:
  "target pid (map (\<lambda>d. if d_id d = i then touched rd t1 t2 d else d) T) k = target pid T k"
  by (rule target_map) (simp_all add: touched_def)

lemma target_append:
  "target pid (T @ [new]) k =
     (case target pid T k of
        Some i \<Rightarrow> Some i
      | None \<Rightarrow> if d_providerId new = pid \<and> d_remoteId new = k then Some (d_id new) else None)"
  by (simp add: target_def split: list.splits)

lemma retouch_fields [simp]:
  "d_id (retouch tg d rd) = d_id d"
  "d_providerId (retouch tg d rd) = d_providerId d"
  "d_remoteId (retouch tg d rd) = d_remoteId d"
  "d_syncedAt (retouch tg d rd) = d_syncedAt d"
  "d_createdAt (retouch tg d rd) = d_createdAt d"
  "d_updatedAt (retouch tg d rd) = d_updatedAt d"
  by (simp_all add: retouch_def)

lemma replayRow_Nil [simp]: "replayRow tg [] d = d"
  by (simp add: replayRow_def)

lemma replayRow_Cons [simp]: "replayRow tg (rd # rds) d = replayRow tg rds (retouch tg d rd)"
  by (simp add: replayRow_def)

lemma replayRow_snoc [simp]: "replayRow tg (rds @ [rd]) d = retouch tg (replayRow tg rds d) rd"
  by (simp add: replayRow_def)

lemma replayRow_id [simp]: "d_id (replayRow tg rds d) = d_id d"
  by (induction rds arbitrary: d) simp_all

text \<open>A replay changes nothing but name and status.\<close>

lemma replayRow_overwritten:
  "(replayRow tg rds d)\<lparr>d_name := a, d_status := b\<rparr> = d\<lparr>d_name := a, d_status := b\<rparr>"
  by (induction rds arbitrary: d) (simp_all add: retouch_def)

lemma replayRow_untargeted:
  "\<forall>rd \<in> set rds. tg (rd_id rd) \<noteq> Some (d_id d) \<Longrightarrow> replayRow tg rds d = d"
  by (induction rds arbitrary: d) (simp_all add: retouch_def)

lemma replayRow_cong:
  "\<forall>rd \<in> set rds. tg' (rd_id rd) = tg (rd_id rd) \<Longrightarrow> replayRow tg' rds d = replayRow tg rds d"
  by (induction rds arbitrary: d) (simp_all add: retouch_def)

lemma syncDomains_frame:
  "syncDomains env pid rds w = (res, w') \<Longrightarrow>
     providers w' = providers w \<and> records w' = records w \<and> remoteCalls w' = remoteCalls w
     \<and> ticks w \<le> ticks w'"
proof (induction rds arbitrary: w)
  case Nil
  then show ?case by simp
next
  case (Cons rd rds)
  show ?case
  proof (cases "target pid (domains w) (rd_id rd)")
    case (Some i)
    from Cons.prems Cons.IH show ?thesis
      by (simp only: syncDomains_hit [OF Some]) fastforce
  next
    case None
    show ?thesis
    proof (cases "d_id (freshDomain env pid rd w) \<in> set (map d_id (domains w))")
      case True
      with Cons.prems show ?thesis
        by (simp only: syncDomains_miss [OF None]) auto
    next
      case False
      with Cons.prems Cons.IH show ?thesis
        by (simp only: syncDomains_miss [OF None] if_False) fastforce
    qed
  qed
qed

lemma settled_Nil: "settled pid [] T"
  by (simp add: settled_def list_all_iff)

lemma settled_hit:
  assumes st: "settled pid pre T" and tg: "target pid T (rd_id rd) = Some i"
  shows "settled pid (pre @ [rd]) (map (\<lambda>d. if d_id d = i then touched rd t1 t2 d else d) T)"
proof -
  let ?T' = "map (\<lambda>d. if d_id d = i then touched rd t1 t2 d else d) T"
  have tg': "target pid ?T' = target pid T"
    by (rule ext) (rule target_touch)
  have rows: "replayRow (target pid T) (pre @ [rd])
                (stripTimes (if d_id d = i then touched rd t1 t2 d else d)) =
              stripTimes (if d_id d = i then touched rd t1 t2 d else d)"
    if d: "d \<in> set T" for d
  proof (cases "d_id d = i")
    case True
    let ?s = "stripTimes (touched rd t1 t2 d)"
    have s: "?s = (stripTimes d)\<lparr>d_name := rd_name rd, d_status := rd_status rd\<rparr>"
      by (simp add: stripTimes_def touched_def)
    have "retouch (target pid T) (replayRow (target pid T) pre ?s) rd =
          (replayRow (target pid T) pre ?s)\<lparr>d_name := rd_name rd, d_status := rd_status rd\<rparr>"
      using tg True by (simp add: retouch_def stripTimes_def touched_def)
    also have "\<dots> = ?s\<lparr>d_name := rd_name rd, d_status := rd_status rd\<rparr>"
      by (rule replayRow_overwritten)
    also have "\<dots> = ?s" by (simp add: s)
    finally show ?thesis using True by simp
  next
    case False
    from st d have "replayRow (target pid T) pre (stripTimes d) = stripTimes d"
      by (simp add: settled_def list_all_iff)
    then show ?thesis using False tg by (simp add: retouch_def stripTimes_def)
  qed
  from st tg have "list_all (\<lambda>r. target pid T (rd_id r) \<noteq> None) (pre @ [rd])"
    by (simp add: settled_def)
  moreover have "list_all (\<lambda>d. replayRow (target pid T) (pre @ [rd]) (stripTimes d) = stripTimes d) ?T'"
    unfolding list_all_iff set_map
  proof (rule ballI, erule imageE)
    fix d1 d assume "d \<in> set T" and "d1 = (if d_id d = i then touched rd t1 t2 d else d)"
    then show "replayRow (target pid T) (pre @ [rd]) (stripTimes d1) = stripTimes d1"
      using rows [of d] by (simp only:)
  qed
  ultimately show ?thesis
    unfolding settled_def tg' by blast
qed

lemma settled_miss:
  assumes st: "settled pid pre T" and tg: "target pid T (rd_id rd) = None"
    and fresh: "d_id new \<notin> set (map d_id T)"
    and new: "d_providerId new = pid" "d_remoteId new = rd_id rd"
      "d_name new = rd_name rd" "d_status new = rd_status rd"
  shows "settled pid (pre @ [rd]) (T @ [new])"
proof -
  let ?tg = "target pid T" and ?tg' = "target pid (T @ [new])"
  have old: "?tg' (rd_id r) = ?tg (rd_id r)" if "r \<in> set pre" for r
    using st that by (auto simp: settled_def list_all_iff target_append split: option.splits)
  have tnew: "?tg' (rd_id rd) = Some (d_id new)"
    using tg new by (simp add: target_append)
  have pre_cong: "replayRow ?tg' pre s = replayRow ?tg pre s" for s
    by (rule replayRow_cong) (simp add: old)
  have r1: "replayRow ?tg' (pre @ [rd]) (stripTimes d) = stripTimes d" if d: "d \<in> set T" for d
  proof -
    from st d have "replayRow ?tg pre (stripTimes d) = stripTimes d"
      by (simp add: settled_def list_all_iff)
    moreover from d have "d_id d \<in> set (map d_id T)" by simp
    with fresh have "d_id d \<noteq> d_id new" by metis
    ultimately show ?thesis
      using tnew by (simp add: pre_cong retouch_def stripTimes_def)
  qed
  have "\<forall>r \<in> set pre. ?tg (rd_id r) \<noteq> Some (d_id (stripTimes new))"
  proof
    fix r assume "r \<in> set pre"
    show "?tg (rd_id r) \<noteq> Some (d_id (stripTimes new))"
    proof
      assume "?tg (rd_id r) = Some (d_id (stripTimes new))"
      then have "d_id (stripTimes new) \<in> set (map d_id T)" by (rule target_Some_mem)
      with fresh show False by (simp add: stripTimes_def)
    qed
  qed
  then have "replayRow ?tg pre (stripTimes new) = stripTimes new"
    by (rule replayRow_untargeted)
  then have r2: "replayRow ?tg' (pre @ [rd]) (stripTimes new) = stripTimes new"
    using tnew new by (simp add: pre_cong retouch_def stripTimes_def)
  have "list_all (\<lambda>r. ?tg' (rd_id r) \<noteq> None) (pre @ [rd])"
    using st tnew old by (auto simp: settled_def list_all_iff)
  moreover have "list_all (\<lambda>d. replayRow ?tg' (pre @ [rd]) (stripTimes d) = stripTimes d) (T @ [new])"
    using r1 r2 by (auto simp: list_all_iff)
  ultimately show ?thesis by (simp add: settled_def)
qed

lemma syncDomains_settled:
  "settled pid pre (domains w) \<Longrightarrow> syncDomains env pid rds w = (Inr u, w') \<Longrightarrow>
   settled pid (pre @ rds) (domains w')"
proof (induction rds arbitrary: pre w)
  case Nil
  then show ?case by simp
next
  case (Cons rd rds)
  show ?case
  proof (cases "target pid (domains w) (rd_id rd)")
    case (Some i)
    let ?w1 = "w\<lparr>ticks := Suc (Suc (ticks w)),
                 domains := map (\<lambda>d. if d_id d = i
                                      then touched rd (clock env (ticks w)) (clock env (Suc (ticks w))) d
                                      else d) (domains w)\<rparr>"
    from Cons.prems(2) have run: "syncDomains env pid rds ?w1 = (Inr u, w')"
      by (simp only: syncDomains_hit [OF Some])
    have "settled pid (pre @ [rd]) (domains ?w1)"
      using settled_hit [OF Cons.prems(1) Some] by simp
    from Cons.IH [OF this run] show ?thesis by simp
  next
    case None
    let ?new = "freshDomain env pid rd w"
    let ?w1 = "w\<lparr>idsDrawn := Suc (idsDrawn w), ticks := Suc (Suc (Suc (ticks w))),
                 domains := domains w @ [?new]\<rparr>"
    from Cons.prems(2) have fresh: "d_id ?new \<notin> set (map d_id (domains w))"
      and run: "syncDomains env pid rds ?w1 = (Inr u, w')"
      by (simp_all only: syncDomains_miss [OF None] split: if_splits) simp_all
    have "settled pid (pre @ [rd]) (domains ?w1)"
      using settled_miss [OF Cons.prems(1) None fresh] by (simp add: freshDomain_def)
    from Cons.IH [OF this run] show ?thesis by simp
  qed
qed

lemma syncDomains_replay:
  "list_all (\<lambda>rd. target pid (domains w) (rd_id rd) \<noteq> None) rds \<Longrightarrow>
   \<exists>w'. syncDomains env pid rds w = (Inr (), w')
       \<and> map stripTimes (domains w') =
           map (\<lambda>d. replayRow (target pid (domains w)) rds (stripTimes d)) (domains w)
       \<and> idsDrawn w' = idsDrawn w \<and> providers w' = providers w \<and> records w' = records w"
proof (induction rds arbitrary: w)
  case Nil
  then show ?case by simp
next
  case (Cons rd rds)
  then obtain i where tg: "target pid (domains w) (rd_id rd) = Some i" by auto
  let ?w1 = "w\<lparr>ticks := Suc (Suc (ticks w)),
               domains := map (\<lambda>d. if d_id d = i
                                    then touched rd (clock env (ticks w)) (clock env (Suc (ticks w))) d
                                    else d) (domains w)\<rparr>"
  have same: "target pid (domains ?w1) = target pid (domains w)"
    by (rule ext) (simp add: target_touch)
  with Cons.prems have "list_all (\<lambda>rd. target pid (domains ?w1) (rd_id rd) \<noteq> None) rds"
    by simp
  from Cons.IH [OF this] obtain w' where run: "syncDomains env pid rds ?w1 = (Inr (), w')"
    and dom: "map stripTimes (domains w') =
           map (\<lambda>d. replayRow (target pid (domains ?w1)) rds (stripTimes d)) (domains ?w1)"
    and rest: "idsDrawn w' = idsDrawn ?w1" "providers w' = providers ?w1" "records w' = records ?w1"
    by blast
  have step: "stripTimes (if d_id d = i
                           then touched rd (clock env (ticks w)) (clock env (Suc (ticks w))) d
                           else d) = retouch (target pid (domains w)) (stripTimes d) rd" for d
    using tg by (auto simp: retouch_def stripTimes_def touched_def)
  have "map stripTimes (domains w') =
        map (\<lambda>d. replayRow (target pid (domains w)) (rd # rds) (stripTimes d)) (domains w)"
    unfolding dom same by (simp add: comp_def step)
  with run rest show ?case
    by (simp only: syncDomains_hit [OF tg]) simp
qed

lemma settled_replay:
  "settled pid rds T \<Longrightarrow> map (\<lambda>d. replayRow (target pid T) rds (stripTimes d)) T = map stripTimes T"
  by (simp add: settled_def list_all_iff)

lemma syncDomains_keys:
  "distinct (map domainKey (domains w)) \<Longrightarrow> syncDomains env pid rds w = (res, w') \<Longrightarrow>
   distinct (map domainKey (domains w'))"
proof (induction rds arbitrary: w)
  case Nil
  then show ?case by simp
next
  case (Cons rd rds)
  show ?case
  proof (cases "target pid (domains w) (rd_id rd)")
    case (Some i)
    let ?w1 = "w\<lparr>ticks := Suc (Suc (ticks w)),
                 domains := map (\<lambda>d. if d_id d = i
                                      then touched rd (clock env (ticks w)) (clock env (Suc (ticks w))) d
                                      else d) (domains w)\<rparr>"
    from Cons.prems(2) have run: "syncDomains env pid rds ?w1 = (res, w')"
      by (simp only: syncDomains_hit [OF Some])
    have k: "domainKey (if d_id d = i then touched rd a b d else d) = domainKey d" for d a b
      by (simp add: domainKey_def touched_def)
    have "map domainKey (map (\<lambda>d. if d_id d = i
                              then touched rd (clock env (ticks w)) (clock env (Suc (ticks w))) d
                              else d) (domains w)) = map domainKey (domains w)"
      by (simp only: map_map comp_def k)
    moreover have "domains ?w1 = map (\<lambda>d. if d_id d = i
                              then touched rd (clock env (ticks w)) (clock env (Suc (ticks w))) d
                              else d) (domains w)"
      by simp
    ultimately have "distinct (map domainKey (domains ?w1))"
      using Cons.prems(1) by (simp only:)
    from Cons.IH [OF this run] show ?thesis .
  next
    case None
    let ?new = "freshDomain env pid rd w"
    let ?w1 = "w\<lparr>idsDrawn := Suc (idsDrawn w), ticks := Suc (Suc (Suc (ticks w))),
                 domains := domains w @ [?new]\<rparr>"
    show ?thesis
    proof (cases "d_id ?new \<in> set (map d_id (domains w))")
      case True
      with Cons.prems show ?thesis
        by (simp only: syncDomains_miss [OF None]) auto
    next
      case False
      with Cons.prems(2) have run: "syncDomains env pid rds ?w1 = (res, w')"
        by (simp only: syncDomains_miss [OF None] if_False)
      from None have "(pid, rd_id rd) \<notin> set (map domainKey (domains w))"
        using target_None_iff [of pid "domains w" "rd_id rd"] by blast
      moreover have "domainKey ?new = (pid, rd_id rd)"
        by (simp add: freshDomain_def domainKey_def)
      ultimately have "distinct (map domainKey (domains ?w1))"
        using Cons.prems(1) by simp
      from Cons.IH [OF this run] show ?thesis .
    qed
  qed
qed


subsection \<open>syncProvider\<close>

lemma logCall_simps [simp]:
  "providers (logCall c w) = providers w"
  "domains (logCall c w) = domains w"
  "records (logCall c w) = records w"
  "ticks (logCall c w) = ticks w"
  "idsDrawn (logCall c w) = idsDrawn w"
  "remoteCalls (logCall c w) = remoteCalls w @ [c]"
  by (simp_all add: logCall_def)

lemma syncProviderTry_listDomains_fails:
  assumes "decryptCredentials (runtime env) (masterKey env) (p_credentials pd) = Inr creds"
    and "createProvider env (p_name pd) creds = Inr ad"
    and "a_listDomains ad = Inl e"
  shows "syncProviderTry env pid pd w = (Inl e, logCall ListDomains w)"
  using assms by (simp add: syncProviderTry_def)

lemma filter_id_map:
  assumes "\<And>p. p_id (f p) = p_id p"
  shows "filter (\<lambda>p. p_id p = pid) (map f ps) = map f (filter (\<lambda>p. p_id p = pid) ps)"
  by (induction ps) (simp_all add: assms)

lemma syncProvider_fails:
  assumes au: "auth env = Some uid"
    and found: "filter (\<lambda>p. p_id p = pid \<and> p_userId p = uid) (providers w) = pd # others"
    and tried: "syncProviderTry env pid pd w = (Inl e, w1)"
  shows "syncProvider env pid w =
           (Inr (Failure (Some (errorMessage e ''Sync failed''))),
            w1\<lparr>ticks := Suc (ticks w1),
               providers := map (\<lambda>p. if p_id p = pid
                                      then p\<lparr>p_status := ''error'',
                                             p_updatedAt := Some (clock env (ticks w1))\<rparr>
                                      else p) (providers w1)\<rparr>)"
  using assms by (simp add: syncProvider_def newDate_def cong: if_cong)

lemma syncProvider_succeeds:
  assumes "syncProvider env pid w = (Inr (Success n), w')"
  shows "\<exists>uid pd others creds ad rds w1.
           auth env = Some uid
         \<and> filter (\<lambda>p. p_id p = pid \<and> p_userId p = uid) (providers w) = pd # others
         \<and> decryptCredentials (runtime env) (masterKey env) (p_credentials pd) = Inr creds
         \<and> createProvider env (p_name pd) creds = Inr ad
         \<and> a_listDomains ad = Inr rds \<and> n = length rds
         \<and> syncDomains env pid rds (logCall ListDomains w) = (Inr (), w1)
         \<and> w' = w1\<lparr>ticks := Suc (Suc (ticks w1)),
                    providers := map (\<lambda>p. if p_id p = pid
                                          then p\<lparr>p_lastSyncAt := Some (clock env (ticks w1)),
                                                 p_status := ''active'',
                                                 p_updatedAt := Some (clock env (Suc (ticks w1)))\<rparr>
                                          else p) (providers w1)\<rparr>"
  using assms
  by (auto simp: syncProvider_def syncProviderTry_def newDate_def
      split: option.splits list.splits sum.splits prod.splits cong: if_cong)

lemma syncProvider_listDomains_failure:
  assumes au: "auth env = Some userId"
    and found: "filter (\<lambda>p. p_id p = providerId \<and> p_userId p = userId) (providers w)
                  = providerData # others"
    and dec: "decryptCredentials (runtime env) (masterKey env) (p_credentials providerData)
                = Inr credentials"
    and mk: "createProvider env (p_name providerData) credentials = Inr provider"
    and fails: "a_listDomains provider = Inl e"
  shows "fst (syncProvider env providerId w) = Inr (Failure (Some (errorMessage e ''Sync failed'')))
       \<and> domains (snd (syncProvider env providerId w)) = domains w
       \<and> records (snd (syncProvider env providerId w)) = records w
       \<and> filter (\<lambda>p. p_id p = providerId) (providers (snd (syncProvider env providerId w))) \<noteq> []
       \<and> list_all (\<lambda>p. p_status p = ''error'')
            (filter (\<lambda>p. p_id p = providerId) (providers (snd (syncProvider env providerId w))))"
proof -
  let ?f = "\<lambda>p. if p_id p = providerId
                 then p\<lparr>p_status := ''error'', p_updatedAt := Some (clock env (ticks w))\<rparr>
                 else p"
  have run: "syncProvider env providerId w =
      (Inr (Failure (Some (errorMessage e ''Sync failed''))),
       (logCall ListDomains w)\<lparr>ticks := Suc (ticks w), providers := map ?f (providers w)\<rparr>)"
    using syncProvider_fails [OF au found syncProviderTry_listDomains_fails [OF dec mk fails]]
    by simp
  have pd: "providerData \<in> set (filter (\<lambda>p. p_id p = providerId \<and> p_userId p = userId) (providers w))"
    by (simp only: found list.set_intros)
  then have ne: "filter (\<lambda>p. p_id p = providerId) (providers w) \<noteq> []"
    by (auto simp: filter_empty_conv)
  have fid: "p_id (?f p) = p_id p" for p :: ProviderRow by simp
  have sel: "filter (\<lambda>p. p_id p = providerId) (map ?f (providers w)) =
             map ?f (filter (\<lambda>p. p_id p = providerId) (providers w))"
    by (rule filter_id_map) (rule fid)
  have A: "filter (\<lambda>p. p_id p = providerId) (providers (snd (syncProvider env providerId w))) \<noteq> []"
    using ne by (simp add: run sel)
  have B: "list_all (\<lambda>p. p_status p = ''error'')
            (filter (\<lambda>p. p_id p = providerId) (providers (snd (syncProvider env providerId w))))"
    by (simp add: run sel list_all_iff)
  from A B show ?thesis by (simp add: run)
qed

lemma syncProvider_success_stamps:
  assumes good: "syncProvider env providerId w = (Inr (Success n), w')"
  shows "filter (\<lambda>p. p_id p = providerId) (providers w') \<noteq> []
       \<and> list_all (\<lambda>p. p_status p = ''active''
                        \<and> (\<exists>k. ticks w \<le> k \<and> k < ticks w' \<and> p_lastSyncAt p = Some (clock env k)))
            (filter (\<lambda>p. p_id p = providerId) (providers w'))"
proof -
  from syncProvider_succeeds [OF good] obtain uid pd others rds w1 where
      found: "filter (\<lambda>p. p_id p = providerId \<and> p_userId p = uid) (providers w) = pd # others"
    and loop: "syncDomains env providerId rds (logCall ListDomains w) = (Inr (), w1)"
    and w': "w' = w1\<lparr>ticks := Suc (Suc (ticks w1)),
                    providers := map (\<lambda>p. if p_id p = providerId
                                          then p\<lparr>p_lastSyncAt := Some (clock env (ticks w1)),
                                                 p_status := ''active'',
                                                 p_updatedAt := Some (clock env (Suc (ticks w1)))\<rparr>
                                          else p) (providers w1)\<rparr>"
    by blast
  let ?g = "\<lambda>p. if p_id p = providerId
                 then p\<lparr>p_lastSyncAt := Some (clock env (ticks w1)), p_status := ''active'',
                        p_updatedAt := Some (clock env (Suc (ticks w1)))\<rparr>
                 else p"
  from syncDomains_frame [OF loop] have fr: "providers w1 = providers w" "ticks w \<le> ticks w1"
    by simp_all
  have "pd \<in> set (filter (\<lambda>p. p_id p = providerId \<and> p_userId p = uid) (providers w))"
    by (simp only: found list.set_intros)
  then have ne: "filter (\<lambda>p. p_id p = providerId) (providers w) \<noteq> []"
    by (auto simp: filter_empty_conv)
  have gid: "p_id (?g p) = p_id p" for p :: ProviderRow by simp
  have sel: "filter (\<lambda>p. p_id p = providerId) (map ?g (providers w)) =
             map ?g (filter (\<lambda>p. p_id p = providerId) (providers w))"
    by (rule filter_id_map) (rule gid)
  have C: "filter (\<lambda>p. p_id p = providerId) (providers w') \<noteq> []"
    using ne by (simp add: w' fr sel)
  have D: "list_all (\<lambda>p. p_status p = ''active''
                        \<and> (\<exists>k. ticks w \<le> k \<and> k < ticks w' \<and> p_lastSyncAt p = Some (clock env k)))
            (filter (\<lambda>p. p_id p = providerId) (providers w'))"
    using fr(2) by (auto simp: w' fr(1) sel list_all_iff)
  from C D show ?thesis by simp
qed

text \<open>
  Claim C4. When \<open>listDomains\<close> fails, \<open>syncProvider\<close> returns the failure, leaves the
  domain table as it was and sets the provider's status to \<open>error\<close>; a run that returns
  success has set the status to \<open>active\<close> and stamped \<open>lastSyncAt\<close> with a time read
  during that run.
\<close>

theorem syncProvider_failure_isolation:
  "(auth env = Some userId
      \<and> filter (\<lambda>p. p_id p = providerId \<and> p_userId p = userId) (providers w) = providerData # others
      \<and> decryptCredentials (runtime env) (masterKey env) (p_credentials providerData) = Inr credentials
      \<and> createProvider env (p_name providerData) credentials = Inr provider
      \<and> a_listDomains provider = Inl e
    \<longrightarrow>
        fst (syncProvider env providerId w) = Inr (Failure (Some (errorMessage e ''Sync failed'')))
      \<and> domains (snd (syncProvider env providerId w)) = domains w
      \<and> records (snd (syncProvider env providerId w)) = records w
      \<and> filter (\<lambda>p. p_id p = providerId) (providers (snd (syncProvider env providerId w))) \<noteq> []
      \<and> list_all (\<lambda>p. p_status p = ''error'')
           (filter (\<lambda>p. p_id p = providerId) (providers (snd (syncProvider env providerId w)))))
   \<and> (syncProvider env2 providerId2 v = (Inr (Success n), v')
    \<longrightarrow>
        filter (\<lambda>p. p_id p = providerId2) (providers v') \<noteq> []
      \<and> list_all (\<lambda>p. p_status p = ''active''
                       \<and> (\<exists>k. ticks v \<le> k \<and> k < ticks v' \<and> p_lastSyncAt p = Some (clock env2 k)))
           (filter (\<lambda>p. p_id p = providerId2) (providers v')))"
  using syncProvider_listDomains_failure [of env userId providerId w providerData others
      credentials provider e]
    syncProvider_success_stamps [of env2 providerId2 v n v']
  by blast

lemma demo_auth: "auth demoEnv = Some ''u1''"
  by (simp add: auth_def demoEnv_def)

lemma demo_decrypt:
  "decryptCredentials (runtime demoEnv) (masterKey demoEnv) demoBlob = Inr (JSRecord demoCredentials)"
  by (simp add: demoEnv_def demoBlob_decrypt)

lemma demo_sync_p1: "syncProvider demoEnv ''p1'' demoWorld = (Inr (Success 1), demoWorld1)"
proof -
  have "fst (syncProvider demoEnv ''p1'' demoWorld) = Inr (Success 1)"
    by (simp add: syncProvider_def syncProviderTry_def demo_auth demo_decrypt demoWorld_def
        target_def newDate_def drawId_def insertDomain_def demoRemoteDomain_def)
       (simp add: demoEnv_def demoAdapter_def demoRemoteDomain_def newDate_def drawId_def
        insertDomain_def)
  then show ?thesis
    by (simp add: demoWorld1_def prod_eq_iff)
qed

theorem syncProvider_failure_isolation_witness:
  "fst (syncProvider demoEnv ''p2'' demoWorld) = Inr (Failure (Some ''503''))
   \<and> domains (snd (syncProvider demoEnv ''p2'' demoWorld)) = domains demoWorld
   \<and> records (snd (syncProvider demoEnv ''p2'' demoWorld)) = records demoWorld
   \<and> filter (\<lambda>p. p_id p = ''p2'') (providers (snd (syncProvider demoEnv ''p2'' demoWorld))) \<noteq> []
   \<and> list_all (\<lambda>p. p_status p = ''error'')
        (filter (\<lambda>p. p_id p = ''p2'') (providers (snd (syncProvider demoEnv ''p2'' demoWorld))))
   \<and> filter (\<lambda>p. p_id p = ''p1'') (providers demoWorld1) \<noteq> []
   \<and> list_all (\<lambda>p. p_status p = ''active''
                    \<and> (\<exists>k. ticks demoWorld \<le> k \<and> k < ticks demoWorld1
                           \<and> p_lastSyncAt p = Some (clock demoEnv k)))
        (filter (\<lambda>p. p_id p = ''p1'') (providers demoWorld1))"
proof -
  let ?p2 = "\<lparr>p_id = ''p2'', p_userId = ''u1'', p_name = ''down'', p_label = ''Down'',
       p_credentials = demoBlob, p_status = ''active'', p_lastSyncAt = None,
       p_createdAt = Some 0, p_updatedAt = Some 0\<rparr>"
  have found: "filter (\<lambda>p. p_id p = ''p2'' \<and> p_userId p = ''u1'') (providers demoWorld) = ?p2 # []"
    by (simp add: demoWorld_def)
  have dec: "decryptCredentials (runtime demoEnv) (masterKey demoEnv) (p_credentials ?p2) =
      Inr (JSRecord demoCredentials)"
    by (simp add: demo_decrypt)
  have mk: "createProvider demoEnv (p_name ?p2) (JSRecord demoCredentials) = Inr downAdapter"
    by (simp add: demoEnv_def)
  have fails: "a_listDomains downAdapter = Inl (Error ''503'')"
    by (simp add: downAdapter_def)
  have msg: "errorMessage (Error ''503'') ''Sync failed'' = ''503''"
    by (simp add: errorMessage_def)
  from syncProvider_failure_isolation [of demoEnv "''u1''" "''p2''" demoWorld ?p2 "[]"
        "JSRecord demoCredentials" downAdapter "Error ''503''" demoEnv "''p1''" demoWorld 1 demoWorld1]
    demo_auth found dec mk fails demo_sync_p1
  show ?thesis
    unfolding msg by blast
qed

subsection \<open>Single-record mutations\<close>

lemma createRecord_remote_fails:
  assumes "auth env = Some uid"
    and "getProviderForDomain env d uid w = Inr (dmn, ad)"
    and "a_createRecord ad (d_remoteId (fst dmn)) inp = Inl e"
  shows "(\<exists>msg. fst (createRecord env d inp w) = Inr (Failure msg))
       \<and> records (snd (createRecord env d inp w)) = records w"
  using assms by (simp add: createRecord_def createRecordTry_def Let_def)

lemma updateRecord_remote_fails:
  assumes "auth env = Some uid"
    and "getProviderForDomain env d uid w = Inr (dmn, ad)"
    and "filter (\<lambda>r. r_id r = rid \<and> r_domainId r = d) (records w) = lr # rest"
    and "a_updateRecord ad (d_remoteId (fst dmn)) (r_remoteId lr) inp = Inl e"
  shows "(\<exists>msg. fst (updateRecord env d rid inp w) = Inr (Failure msg))
       \<and> records (snd (updateRecord env d rid inp w)) = records w"
  using assms by (simp add: updateRecord_def updateRecordTry_def)

lemma deleteRecord_remote_fails:
  assumes "auth env = Some uid"
    and "getProviderForDomain env d uid w = Inr (dmn, ad)"
    and "filter (\<lambda>r. r_id r = rid \<and> r_domainId r = d) (records w) = lr # rest"
    and "a_deleteRecord ad (d_remoteId (fst dmn)) (r_remoteId lr) = Inl e"
  shows "(\<exists>msg. fst (deleteRecord env d rid w) = Inr (Failure msg))
       \<and> records (snd (deleteRecord env d rid w)) = records w"
  using assms by (simp add: deleteRecord_def deleteRecordTry_def)

lemma createRecord_mutates:
  assumes "records (snd (createRecord env d inp w)) \<noteq> records w"
  shows "\<exists>uid dmn ad rr.
           auth env = Some uid \<and> getProviderForDomain env d uid w = Inr (dmn, ad)
         \<and> a_createRecord ad (d_remoteId (fst dmn)) inp = Inr rr
         \<and> fst (createRecord env d inp w) = Inr (Success rr)
         \<and> remoteCalls (snd (createRecord env d inp w)) =
             remoteCalls w @ [CreateRecord (d_remoteId (fst dmn)) inp]"
proof (cases "auth env")
  case None
  with assms show ?thesis by (simp add: createRecord_def)
next
  case (Some uid)
  show ?thesis
  proof (cases "getProviderForDomain env d uid w")
    case (Inl e)
    with assms Some show ?thesis
      by (simp add: createRecord_def createRecordTry_def Let_def split: if_splits)
  next
    case (Inr da)
    obtain dmn ad where da: "da = (dmn, ad)" by (cases da)
    show ?thesis
    proof (cases "a_createRecord ad (d_remoteId (fst dmn)) inp")
      case (Inl e)
      with assms Some Inr da show ?thesis
        by (simp add: createRecord_def createRecordTry_def Let_def split: if_splits)
    next
      case rr: (Inr rr)
      with assms Some Inr da show ?thesis
        by (cases dmn)
           (auto simp: createRecord_def createRecordTry_def Let_def newDate_def drawId_def
            insertRecord_def split: if_splits)
    qed
  qed
qed

lemma updateRecord_mutates:
  assumes "records (snd (updateRecord env d rid inp w)) \<noteq> records w"
  shows "\<exists>uid dmn ad lr rest rr.
           auth env = Some uid \<and> getProviderForDomain env d uid w = Inr (dmn, ad)
         \<and> filter (\<lambda>r. r_id r = rid \<and> r_domainId r = d) (records w) = lr # rest
         \<and> a_updateRecord ad (d_remoteId (fst dmn)) (r_remoteId lr) inp = Inr rr
         \<and> fst (updateRecord env d rid inp w) = Inr (Success rr)
         \<and> remoteCalls (snd (updateRecord env d rid inp w)) =
             remoteCalls w @ [UpdateRecord (d_remoteId (fst dmn)) (r_remoteId lr) inp]"
proof (cases "auth env")
  case None
  with assms show ?thesis by (simp add: updateRecord_def)
next
  case (Some uid)
  show ?thesis
  proof (cases "getProviderForDomain env d uid w")
    case (Inl e)
    with assms Some show ?thesis
      by (simp add: updateRecord_def updateRecordTry_def split: if_splits)
  next
    case (Inr da)
    obtain dmn ad where da: "da = (dmn, ad)" by (cases da)
    show ?thesis
    proof (cases "filter (\<lambda>r. r_id r = rid \<and> r_domainId r = d) (records w)")
      case Nil
      with assms Some Inr da show ?thesis
        by (simp add: updateRecord_def updateRecordTry_def split: if_splits)
    next
      case (Cons lr rest)
      show ?thesis
      proof (cases "a_updateRecord ad (d_remoteId (fst dmn)) (r_remoteId lr) inp")
        case (Inl e)
        with assms Some Inr da Cons show ?thesis
          by (simp add: updateRecord_def updateRecordTry_def split: if_splits)
      next
        case rr: (Inr rr)
        with assms Some Inr da Cons show ?thesis
          by (cases dmn)
             (auto simp: updateRecord_def updateRecordTry_def newDate_def split: if_splits)
      qed
    qed
  qed
qed

lemma deleteRecord_mutates:
  assumes "records (snd (deleteRecord env d rid w)) \<noteq> records w"
  shows "\<exists>uid dmn ad lr rest.
           auth env = Some uid \<and> getProviderForDomain env d uid w = Inr (dmn, ad)
         \<and> filter (\<lambda>r. r_id r = rid \<and> r_domainId r = d) (records w) = lr # rest
         \<and> a_deleteRecord ad (d_remoteId (fst dmn)) (r_remoteId lr) = Inr ()
         \<and> fst (deleteRecord env d rid w) = Inr (Success ())
         \<and> remoteCalls (snd (deleteRecord env d rid w)) =
             remoteCalls w @ [DeleteRecord (d_remoteId (fst dmn)) (r_remoteId lr)]"
proof (cases "auth env")
  case None
  with assms show ?thesis by (simp add: deleteRecord_def)
next
  case (Some uid)
  show ?thesis
  proof (cases "getProviderForDomain env d uid w")
    case (Inl e)
    with assms Some show ?thesis
      by (simp add: deleteRecord_def deleteRecordTry_def)
  next
    case (Inr da)
    obtain dmn ad where da: "da = (dmn, ad)" by (cases da)
    show ?thesis
    proof (cases "filter (\<lambda>r. r_id r = rid \<and> r_domainId r = d) (records w)")
      case Nil
      with assms Some Inr da show ?thesis
        by (simp add: deleteRecord_def deleteRecordTry_def)
    next
      case (Cons lr rest)
      show ?thesis
      proof (cases "a_deleteRecord ad (d_remoteId (fst dmn)) (r_remoteId lr)")
        case (Inl e)
        with assms Some Inr da Cons show ?thesis
          by (simp add: deleteRecord_def deleteRecordTry_def)
      next
        case ok: (Inr u)
        with assms Some Inr da Cons show ?thesis
          by (cases dmn) (auto simp: deleteRecord_def deleteRecordTry_def)
      qed
    qed
  qed
qed

text \<open>
  Claim C5. Each of \<open>createRecord\<close>, \<open>updateRecord\<close> and \<open>deleteRecord\<close> on its own: when
  its adapter call fails, the action returns a failure and the record table is as before;
  and whenever the record table has changed, the adapter call had been made and had
  returned a result. Nothing is assumed about the adapter's other methods, and
  \<open>createRecord\<close> needs no local row.
\<close>

theorem remote_failure_no_local_mutation:
  "(auth envc = Some uc
      \<and> getProviderForDomain envc dc uc wc = Inr (domc, pc)
      \<and> a_createRecord pc (d_remoteId (fst domc)) cinput = Inl ec
    \<longrightarrow>
        (\<exists>msg. fst (createRecord envc dc cinput wc) = Inr (Failure msg))
      \<and> records (snd (createRecord envc dc cinput wc)) = records wc)
   \<and> (auth envu = Some uu
      \<and> getProviderForDomain envu du uu wu = Inr (domu, pu)
      \<and> filter (\<lambda>r. r_id r = ru \<and> r_domainId r = du) (records wu) = lu # restu
      \<and> a_updateRecord pu (d_remoteId (fst domu)) (r_remoteId lu) uinput = Inl eu
    \<longrightarrow>
        (\<exists>msg. fst (updateRecord envu du ru uinput wu) = Inr (Failure msg))
      \<and> records (snd (updateRecord envu du ru uinput wu)) = records wu)
   \<and> (auth envd = Some ud
      \<and> getProviderForDomain envd dd ud wd = Inr (domd, pd)
      \<and> filter (\<lambda>r. r_id r = rd \<and> r_domainId r = dd) (records wd) = ld # restd
      \<and> a_deleteRecord pd (d_remoteId (fst domd)) (r_remoteId ld) = Inl ed
    \<longrightarrow>
        (\<exists>msg. fst (deleteRecord envd dd rd wd) = Inr (Failure msg))
      \<and> records (snd (deleteRecord envd dd rd wd)) = records wd)
   \<and> (records (snd (createRecord env2 domainId2 cinput2 v)) \<noteq> records v
    \<longrightarrow> (\<exists>uid dmn ad rr.
           auth env2 = Some uid \<and> getProviderForDomain env2 domainId2 uid v = Inr (dmn, ad)
         \<and> a_createRecord ad (d_remoteId (fst dmn)) cinput2 = Inr rr
         \<and> remoteCalls (snd (createRecord env2 domainId2 cinput2 v)) =
             remoteCalls v @ [CreateRecord (d_remoteId (fst dmn)) cinput2]))
   \<and> (records (snd (updateRecord env2 domainId2 recordId2 uinput2 v)) \<noteq> records v
    \<longrightarrow> (\<exists>uid dmn ad lr others rr.
           auth env2 = Some uid \<and> getProviderForDomain env2 domainId2 uid v = Inr (dmn, ad)
         \<and> filter (\<lambda>r. r_id r = recordId2 \<and> r_domainId r = domainId2) (records v) = lr # others
         \<and> a_updateRecord ad (d_remoteId (fst dmn)) (r_remoteId lr) uinput2 = Inr rr
         \<and> remoteCalls (snd (updateRecord env2 domainId2 recordId2 uinput2 v)) =
             remoteCalls v @ [UpdateRecord (d_remoteId (fst dmn)) (r_remoteId lr) uinput2]))
   \<and> (records (snd (deleteRecord env2 domainId2 recordId2 v)) \<noteq> records v
    \<longrightarrow> (\<exists>uid dmn ad lr others.
           auth env2 = Some uid \<and> getProviderForDomain env2 domainId2 uid v = Inr (dmn, ad)
         \<and> filter (\<lambda>r. r_id r = recordId2 \<and> r_domainId r = domainId2) (records v) = lr # others
         \<and> a_deleteRecord ad (d_remoteId (fst dmn)) (r_remoteId lr) = Inr ()
         \<and> remoteCalls (snd (deleteRecord env2 domainId2 recordId2 v)) =
             remoteCalls v @ [DeleteRecord (d_remoteId (fst dmn)) (r_remoteId lr)]))"
proof (intro conjI impI)
  assume h: "auth envc = Some uc
      \<and> getProviderForDomain envc dc uc wc = Inr (domc, pc)
      \<and> a_createRecord pc (d_remoteId (fst domc)) cinput = Inl ec"
  from h createRecord_remote_fails [of envc uc dc wc domc pc cinput ec]
  show "\<exists>msg. fst (createRecord envc dc cinput wc) = Inr (Failure msg)"
    and "records (snd (createRecord envc dc cinput wc)) = records wc"
    by blast+
next
  assume h: "auth envu = Some uu
      \<and> getProviderForDomain envu du uu wu = Inr (domu, pu)
      \<and> filter (\<lambda>r. r_id r = ru \<and> r_domainId r = du) (records wu) = lu # restu
      \<and> a_updateRecord pu (d_remoteId (fst domu)) (r_remoteId lu) uinput = Inl eu"
  from h updateRecord_remote_fails [of envu uu du wu domu pu ru lu restu uinput eu]
  show "\<exists>msg. fst (updateRecord envu du ru uinput wu) = Inr (Failure msg)"
    and "records (snd (updateRecord envu du ru uinput wu)) = records wu"
    by blast+
next
  assume h: "auth envd = Some ud
      \<and> getProviderForDomain envd dd ud wd = Inr (domd, pd)
      \<and> filter (\<lambda>r. r_id r = rd \<and> r_domainId r = dd) (records wd) = ld # restd
      \<and> a_deleteRecord pd (d_remoteId (fst domd)) (r_remoteId ld) = Inl ed"
  from h deleteRecord_remote_fails [of envd ud dd wd domd pd rd ld restd ed]
  show "\<exists>msg. fst (deleteRecord envd dd rd wd) = Inr (Failure msg)"
    and "records (snd (deleteRecord envd dd rd wd)) = records wd"
    by blast+
next
  assume "records (snd (createRecord env2 domainId2 cinput2 v)) \<noteq> records v"
  from createRecord_mutates [OF this]
  show "\<exists>uid dmn ad rr.
           auth env2 = Some uid \<and> getProviderForDomain env2 domainId2 uid v = Inr (dmn, ad)
         \<and> a_createRecord ad (d_remoteId (fst dmn)) cinput2 = Inr rr
         \<and> remoteCalls (snd (createRecord env2 domainId2 cinput2 v)) =
             remoteCalls v @ [CreateRecord (d_remoteId (fst dmn)) cinput2]"
    by blast
next
  assume "records (snd (updateRecord env2 domainId2 recordId2 uinput2 v)) \<noteq> records v"
  from updateRecord_mutates [OF this]
  show "\<exists>uid dmn ad lr others rr.
           auth env2 = Some uid \<and> getProviderForDomain env2 domainId2 uid v = Inr (dmn, ad)
         \<and> filter (\<lambda>r. r_id r = recordId2 \<and> r_domainId r = domainId2) (records v) = lr # others
         \<and> a_updateRecord ad (d_remoteId (fst dmn)) (r_remoteId lr) uinput2 = Inr rr
         \<and> remoteCalls (snd (updateRecord env2 domainId2 recordId2 uinput2 v)) =
             remoteCalls v @ [UpdateRecord (d_remoteId (fst dmn)) (r_remoteId lr) uinput2]"
    by blast
next
  assume "records (snd (deleteRecord env2 domainId2 recordId2 v)) \<noteq> records v"
  from deleteRecord_mutates [OF this]
  show "\<exists>uid dmn ad lr others.
           auth env2 = Some uid \<and> getProviderForDomain env2 domainId2 uid v = Inr (dmn, ad)
         \<and> filter (\<lambda>r. r_id r = recordId2 \<and> r_domainId r = domainId2) (records v) = lr # others
         \<and> a_deleteRecord ad (d_remoteId (fst dmn)) (r_remoteId lr) = Inr ()
         \<and> remoteCalls (snd (deleteRecord env2 domainId2 recordId2 v)) =
             remoteCalls v @ [DeleteRecord (d_remoteId (fst dmn)) (r_remoteId lr)]"
    by blast
qed

lemma demoWorld1_eq:
  "demoWorld1 =
     \<lparr>providers =
        [\<lparr>p_id = ''p1'', p_userId = ''u1'', p_name = ''cloudflare'', p_label = ''Cloudflare'',
          p_credentials = demoBlob, p_status = ''active'', p_lastSyncAt = Some 1700000000003,
          p_createdAt = Some 0, p_updatedAt = Some 1700000000004\<rparr>,
         \<lparr>p_id = ''p2'', p_userId = ''u1'', p_name = ''down'', p_label = ''Down'',
          p_credentials = demoBlob, p_status = ''active'', p_lastSyncAt = None,
          p_createdAt = Some 0, p_updatedAt = Some 0\<rparr>],
      domains =
        [\<lparr>d_id = ''d2'', d_providerId = ''p2'', d_name = ''example.org'', d_remoteId = ''zone2'',
          d_status = ''active'', d_syncedAt = Some 5, d_createdAt = Some 1, d_updatedAt = Some 5\<rparr>,
         \<lparr>d_id = ''n'', d_providerId = ''p1'', d_name = ''example.com'', d_remoteId = ''zone1'',
          d_status = ''active'', d_syncedAt = Some 1700000000000,
          d_createdAt = Some 1700000000001, d_updatedAt = Some 1700000000002\<rparr>],
      records =
        [\<lparr>r_id = ''r2'', r_domainId = ''d2'', r_remoteId = ''rr2'', r_type = ''A'',
          r_name = ''@'', r_content = ''192.0.2.2'', r_ttl = Finite 300, r_priority = None,
          r_proxied = Some False, r_extra = None, r_syncedAt = Some 5, r_createdAt = Some 5,
          r_updatedAt = Some 5\<rparr>],
      remoteCalls = [ListDomains], ticks = 5, idsDrawn = 1\<rparr>"
  unfolding demoWorld1_def
  by (simp add: syncProvider_def syncProviderTry_def demo_auth demo_decrypt demoWorld_def
        target_def newDate_def drawId_def insertDomain_def demoRemoteDomain_def logCall_def)
     (simp add: demoEnv_def demoAdapter_def demoRemoteDomain_def newDate_def drawId_def
        insertDomain_def logCall_def)

lemma demoWorld2_eq:
  "demoWorld2 =
     \<lparr>providers =
        [\<lparr>p_id = ''p1'', p_userId = ''u1'', p_name = ''cloudflare'', p_label = ''Cloudflare'',
          p_credentials = demoBlob, p_status = ''active'', p_lastSyncAt = Some 1700000000003,
          p_createdAt = Some 0, p_updatedAt = Some 1700000000004\<rparr>,
         \<lparr>p_id = ''p2'', p_userId = ''u1'', p_name = ''down'', p_label = ''Down'',
          p_credentials = demoBlob, p_status = ''active'', p_lastSyncAt = None,
          p_createdAt = Some 0, p_updatedAt = Some 0\<rparr>],
      domains =
        [\<lparr>d_id = ''d2'', d_providerId = ''p2'', d_name = ''example.org'', d_remoteId = ''zone2'',
          d_status = ''active'', d_syncedAt = Some 5, d_createdAt = Some 1, d_updatedAt = Some 5\<rparr>,
         \<lparr>d_id = ''n'', d_providerId = ''p1'', d_name = ''example.com'', d_remoteId = ''zone1'',
          d_status = ''active'', d_syncedAt = Some 1700000000008,
          d_createdAt = Some 1700000000001, d_updatedAt = Some 1700000000009\<rparr>],
      records =
        [\<lparr>r_id = ''r2'', r_domainId = ''d2'', r_remoteId = ''rr2'', r_type = ''A'',
          r_name = ''@'', r_content = ''192.0.2.2'', r_ttl = Finite 300, r_priority = None,
          r_proxied = Some False, r_extra = None, r_syncedAt = Some 5, r_createdAt = Some 5,
          r_updatedAt = Some 5\<rparr>,
         \<lparr>r_id = ''nx'', r_domainId = ''n'', r_remoteId = ''rr1'', r_type = ''A'',
          r_name = ''www'', r_content = ''192.0.2.1'', r_ttl = Finite 300, r_priority = None,
          r_proxied = Some False, r_extra = None, r_syncedAt = Some 1700000000005,
          r_createdAt = Some 1700000000006, r_updatedAt = Some 1700000000007\<rparr>],
      remoteCalls = [ListDomains, ListRecords ''zone1''], ticks = 10, idsDrawn = 2\<rparr>"
  unfolding demoWorld2_def demoWorld1_eq
  by (simp add: syncDomainRecords_def syncDomainRecordsTry_def domainWithProvider_def
        demo_auth demo_decrypt newDate_def drawId_def insertRecord_def logCall_def)
     (simp add: demoEnv_def demoAdapter_def demoRemoteRecord_def newDate_def drawId_def
        insertRecord_def logCall_def)

lemma demo_input_valid:
  "validateDNSRecord \<lparr>f_type = ''A'', f_name = ''www'', f_content = ''192.0.2.1'',
      f_ttl = Some (Finite 300), f_priority = None\<rparr> = accepted"
  by (simp add: validator_defs regex_defs)

lemma demo_down_domain:
  "getProviderForDomain demoEnv ''d2'' ''u1'' demoWorld2 =
     Inr ((\<lparr>d_id = ''d2'', d_providerId = ''p2'', d_name = ''example.org'', d_remoteId = ''zone2'',
            d_status = ''active'', d_syncedAt = Some 5, d_createdAt = Some 1, d_updatedAt = Some 5\<rparr>,
           \<lparr>p_id = ''p2'', p_userId = ''u1'', p_name = ''down'', p_label = ''Down'',
            p_credentials = demoBlob, p_status = ''active'', p_lastSyncAt = None,
            p_createdAt = Some 0, p_updatedAt = Some 0\<rparr>), downAdapter)"
  by (simp add: getProviderForDomain_def domainWithProvider_def demoWorld2_eq demo_decrypt)
     (simp add: demoEnv_def)

lemma demo_down_domain_empty:
  "getProviderForDomain demoEnv ''d2'' ''u1'' (demoWorld2\<lparr>records := []\<rparr>) =
     Inr ((\<lparr>d_id = ''d2'', d_providerId = ''p2'', d_name = ''example.org'', d_remoteId = ''zone2'',
            d_status = ''active'', d_syncedAt = Some 5, d_createdAt = Some 1, d_updatedAt = Some 5\<rparr>,
           \<lparr>p_id = ''p2'', p_userId = ''u1'', p_name = ''down'', p_label = ''Down'',
            p_credentials = demoBlob, p_status = ''active'', p_lastSyncAt = None,
            p_createdAt = Some 0, p_updatedAt = Some 0\<rparr>), downAdapter)"
  by (simp add: getProviderForDomain_def domainWithProvider_def demoWorld2_eq demo_decrypt)
     (simp add: demoEnv_def)

lemma demo_up_domain:
  "getProviderForDomain demoEnv ''n'' ''u1'' demoWorld2 =
     Inr ((\<lparr>d_id = ''n'', d_providerId = ''p1'', d_name = ''example.com'', d_remoteId = ''zone1'',
          d_status = ''active'', d_syncedAt = Some 1700000000008,
          d_createdAt = Some 1700000000001, d_updatedAt = Some 1700000000009\<rparr>,
           \<lparr>p_id = ''p1'', p_userId = ''u1'', p_name = ''cloudflare'', p_label = ''Cloudflare'',
          p_credentials = demoBlob, p_status = ''active'', p_lastSyncAt = Some 1700000000003,
          p_createdAt = Some 0, p_updatedAt = Some 1700000000004\<rparr>), demoAdapter)"
  by (simp add: getProviderForDomain_def domainWithProvider_def demoWorld2_eq demo_decrypt)
     (simp add: demoEnv_def)

lemma demo_create_mutates:
  "records (snd (createRecord demoEnv ''n'' demoCreateInput demoWorld2)) \<noteq> records demoWorld2"
  by (simp add: createRecord_def createRecordTry_def demo_auth demo_up_domain demoCreateInput_def
      demo_input_valid accepted_def)
     (simp add: demoAdapter_def demoEnv_def demoWorld2_eq newDate_def drawId_def insertRecord_def
      logCall_def eval_nat_numeral)

lemma demo_update_mutates:
  "records (snd (updateRecord demoEnv ''n'' ''nx'' demoUpdateInput demoWorld2)) \<noteq> records demoWorld2"
  by (simp add: updateRecord_def updateRecordTry_def demo_auth demo_up_domain demoUpdateInput_def
      demo_input_valid accepted_def truthy_def)
     (simp add: demoAdapter_def demoEnv_def demoWorld2_eq newDate_def logCall_def
      demoRemoteRecord_def)

lemma demo_delete_mutates:
  "records (snd (deleteRecord demoEnv ''n'' ''nx'' demoWorld2)) \<noteq> records demoWorld2"
  by (simp add: deleteRecord_def deleteRecordTry_def demo_auth demo_up_domain)
     (simp add: demoAdapter_def demoWorld2_eq logCall_def)

theorem remote_failure_no_local_mutation_witness:
  "(\<exists>msg. fst (createRecord demoEnv ''d2'' demoCreateInput (demoWorld2\<lparr>records := []\<rparr>)) =
            Inr (Failure msg))
   \<and> records (snd (createRecord demoEnv ''d2'' demoCreateInput (demoWorld2\<lparr>records := []\<rparr>))) = []
   \<and> (\<exists>msg. fst (updateRecord demoEnv ''d2'' ''r2'' demoUpdateInput demoWorld2) = Inr (Failure msg))
   \<and> records (snd (updateRecord demoEnv ''d2'' ''r2'' demoUpdateInput demoWorld2)) = records demoWorld2
   \<and> (\<exists>msg. fst (deleteRecord demoEnv ''d2'' ''r2'' demoWorld2) = Inr (Failure msg))
   \<and> records (snd (deleteRecord demoEnv ''d2'' ''r2'' demoWorld2)) = records demoWorld2
   \<and> records (snd (createRecord demoEnv ''n'' demoCreateInput demoWorld2)) \<noteq> records demoWorld2
   \<and> (\<exists>uid dmn ad rr.
           auth demoEnv = Some uid \<and> getProviderForDomain demoEnv ''n'' uid demoWorld2 = Inr (dmn, ad)
         \<and> a_createRecord ad (d_remoteId (fst dmn)) demoCreateInput = Inr rr
         \<and> remoteCalls (snd (createRecord demoEnv ''n'' demoCreateInput demoWorld2)) =
             remoteCalls demoWorld2 @ [CreateRecord (d_remoteId (fst dmn)) demoCreateInput])
   \<and> records (snd (updateRecord demoEnv ''n'' ''nx'' demoUpdateInput demoWorld2)) \<noteq> records demoWorld2
   \<and> (\<exists>uid dmn ad lr others rr.
           auth demoEnv = Some uid \<and> getProviderForDomain demoEnv ''n'' uid demoWorld2 = Inr (dmn, ad)
         \<and> filter (\<lambda>r. r_id r = ''nx'' \<and> r_domainId r = ''n'') (records demoWorld2) = lr # others
         \<and> a_updateRecord ad (d_remoteId (fst dmn)) (r_remoteId lr) demoUpdateInput = Inr rr
         \<and> remoteCalls (snd (updateRecord demoEnv ''n'' ''nx'' demoUpdateInput demoWorld2)) =
             remoteCalls demoWorld2 @ [UpdateRecord (d_remoteId (fst dmn)) (r_remoteId lr) demoUpdateInput])
   \<and> records (snd (deleteRecord demoEnv ''n'' ''nx'' demoWorld2)) \<noteq> records demoWorld2
   \<and> (\<exists>uid dmn ad lr others.
           auth demoEnv = Some uid \<and> getProviderForDomain demoEnv ''n'' uid demoWorld2 = Inr (dmn, ad)
         \<and> filter (\<lambda>r. r_id r = ''nx'' \<and> r_domainId r = ''n'') (records demoWorld2) = lr # others
         \<and> a_deleteRecord ad (d_remoteId (fst dmn)) (r_remoteId lr) = Inr ()
         \<and> remoteCalls (snd (deleteRecord demoEnv ''n'' ''nx'' demoWorld2)) =
             remoteCalls demoWorld2 @ [DeleteRecord (d_remoteId (fst dmn)) (r_remoteId lr)])"
proof -
  have loc: "filter (\<lambda>r. r_id r = ''r2'' \<and> r_domainId r = ''d2'') (records demoWorld2) =
      \<lparr>r_id = ''r2'', r_domainId = ''d2'', r_remoteId = ''rr2'', r_type = ''A'',
          r_name = ''@'', r_content = ''192.0.2.2'', r_ttl = Finite 300, r_priority = None,
          r_proxied = Some False, r_extra = None, r_syncedAt = Some 5, r_createdAt = Some 5,
          r_updatedAt = Some 5\<rparr> # []"
    by (simp add: demoWorld2_eq)
  have down: "a_createRecord downAdapter z demoCreateInput = Inl (Error ''503'')"
    "a_updateRecord downAdapter z r demoUpdateInput = Inl (Error ''503'')"
    "a_deleteRecord downAdapter z r = Inl (Error ''503'')" for z r
    by (simp_all add: downAdapter_def)
  note T = remote_failure_no_local_mutation
    [where envc = demoEnv and uc = "''u1''" and dc = "''d2''"
       and wc = "demoWorld2\<lparr>records := []\<rparr>"
       and pc = downAdapter and cinput = demoCreateInput and ec = "Error ''503''"
       and envu = demoEnv and uu = "''u1''" and du = "''d2''" and wu = demoWorld2
       and pu = downAdapter and ru = "''r2''" and restu = "[]" and uinput = demoUpdateInput
       and eu = "Error ''503''"
       and envd = demoEnv and ud = "''u1''" and dd = "''d2''" and wd = demoWorld2
       and pd = downAdapter and rd = "''r2''" and restd = "[]" and ed = "Error ''503''"
       and ?env2.0 = demoEnv and ?domainId2.0 = "''n''" and ?cinput2.0 = demoCreateInput
       and v = demoWorld2 and ?recordId2.0 = "''nx''" and ?uinput2.0 = demoUpdateInput]
  show ?thesis
    using T demo_auth demo_down_domain demo_down_domain_empty loc down demo_create_mutates
      demo_update_mutates demo_delete_mutates
    by auto
qed


subsection \<open>syncDomainRecords\<close>

lemma rowView_domain: "rowView r = remoteView d rr \<Longrightarrow> r_domainId r = d"
  by (simp add: rowView_def remoteView_def)

lemma insertRemoteRecords_appends:
  "insertRemoteRecords env d rs w = (Inr u, w') \<Longrightarrow>
   \<exists>new. records w' = records w @ new \<and> map rowView new = map (remoteView d) rs"
proof (induction rs arbitrary: w)
  case Nil
  then show ?case by simp
next
  case (Cons rr rs)
  let ?row = "\<lparr>r_id = nanoid env (idsDrawn w), r_domainId = d,
                 r_remoteId = rr_id rr, r_type = rr_type rr,
                 r_name = rr_name rr, r_content = rr_content rr,
                 r_ttl = rr_ttl rr, r_priority = rr_priority rr,
                 r_proxied = Some (case rr_proxied rr of None \<Rightarrow> False | Some b \<Rightarrow> b),
                 r_extra = rr_extra rr, r_syncedAt = Some (clock env (ticks w)),
                 r_createdAt = Some (clock env (Suc (ticks w))),
                 r_updatedAt = Some (clock env (Suc (Suc (ticks w))))\<rparr>"
  let ?w4 = "w\<lparr>idsDrawn := Suc (idsDrawn w), ticks := Suc (Suc (Suc (ticks w)))\<rparr>"
  from Cons.prems obtain w5 where ins: "insertRecord ?row ?w4 = Inr w5"
    and run: "insertRemoteRecords env d rs w5 = (Inr u, w')"
    by (auto simp: newDate_def drawId_def split: sum.splits)
  from ins have w5: "records w5 = records w @ [?row]"
    by (auto simp: insertRecord_def split: if_splits)
  from Cons.IH [OF run] obtain new where
    "records w' = records w5 @ new" "map rowView new = map (remoteView d) rs"
    by blast
  moreover have "rowView ?row = remoteView d rr"
    by (simp add: rowView_def remoteView_def)
  ultimately have "records w' = records w @ (?row # new)
      \<and> map rowView (?row # new) = map (remoteView d) (rr # rs)"
    by (simp add: w5)
  then show ?case by blast
qed

lemma filter_all_domain:
  assumes "map rowView new = map (remoteView d) rs"
  shows "filter (\<lambda>r. r_domainId r = d) new = new" and "filter (\<lambda>r. r_domainId r \<noteq> d) new = []"
proof -
  have "\<forall>r \<in> set new. r_domainId r = d"
  proof
    fix r assume "r \<in> set new"
    then have "rowView r \<in> set (map rowView new)" by simp
    then have "rowView r \<in> set (map (remoteView d) rs)" by (simp only: assms)
    then obtain rr where "rowView r = remoteView d rr" by auto
    then show "r_domainId r = d" by (rule rowView_domain)
  qed
  then show "filter (\<lambda>r. r_domainId r = d) new = new"
    and "filter (\<lambda>r. r_domainId r \<noteq> d) new = []"
    by (simp_all add: filter_empty_conv)
qed

text \<open>
  Claim C3. After \<open>syncDomainRecords\<close> has returned success, the rows of the domain are,
  in order, the records \<open>listRecords\<close> returned for the domain's remote id, each with its
  remote id, type, name, content, TTL, priority, proxy flag and extra payload; the rows of
  other domains are as before. Nothing is assumed about the rows the domain had.
\<close>

theorem syncDomainRecords_replaces:
  assumes "syncDomainRecords env domainId w = (Inr (Success n), w')"
  shows "\<exists>userId domain others credentials provider remoteRecords.
           auth env = Some userId
         \<and> domainWithProvider domainId userId w = domain # others
         \<and> decryptCredentials (runtime env) (masterKey env) (p_credentials (snd domain))
             = Inr credentials
         \<and> createProvider env (p_name (snd domain)) credentials = Inr provider
         \<and> a_listRecords provider (d_remoteId (fst domain)) = Inr remoteRecords
         \<and> n = length remoteRecords
         \<and> map rowView (filter (\<lambda>r. r_domainId r = domainId) (records w'))
             = map (remoteView domainId) remoteRecords
         \<and> filter (\<lambda>r. r_domainId r \<noteq> domainId) (records w')
             = filter (\<lambda>r. r_domainId r \<noteq> domainId) (records w)"
proof -
  from assms obtain userId where au: "auth env = Some userId"
    by (auto simp: syncDomainRecords_def split: option.splits)
  from assms au obtain domain others where dw: "domainWithProvider domainId userId w = domain # others"
    by (auto simp: syncDomainRecords_def split: list.splits)
  from assms au dw have tr: "syncDomainRecordsTry env domainId domain w = (Inr n, w')"
    by (auto simp: syncDomainRecords_def split: sum.splits prod.splits)
  then obtain credentials where dec:
    "decryptCredentials (runtime env) (masterKey env) (p_credentials (snd domain)) = Inr credentials"
    by (auto simp: syncDomainRecordsTry_def split: sum.splits)
  from tr dec obtain provider where mk:
    "createProvider env (p_name (snd domain)) credentials = Inr provider"
    by (auto simp: syncDomainRecordsTry_def split: sum.splits)
  from tr dec mk obtain remoteRecords where lr:
    "a_listRecords provider (d_remoteId (fst domain)) = Inr remoteRecords"
    by (auto simp: syncDomainRecordsTry_def split: sum.splits)
  let ?w0 = "(logCall (ListRecords (d_remoteId (fst domain))) w)
               \<lparr>records := filter (\<lambda>r. r_domainId r \<noteq> domainId) (records w)\<rparr>"
  from tr dec mk lr obtain w1 where loop: "insertRemoteRecords env domainId remoteRecords ?w0 = (Inr (), w1)"
    and n: "n = length remoteRecords" and recs: "records w' = records w1"
    by (auto simp: syncDomainRecordsTry_def newDate_def split: sum.splits prod.splits)
  from insertRemoteRecords_appends [OF loop] obtain new where
    new: "records w1 = filter (\<lambda>r. r_domainId r \<noteq> domainId) (records w) @ new"
    and view: "map rowView new = map (remoteView domainId) remoteRecords"
    by auto
  have "map rowView (filter (\<lambda>r. r_domainId r = domainId) (records w'))
          = map (remoteView domainId) remoteRecords"
    by (simp add: recs new filter_all_domain [OF view] view)
  moreover have "filter (\<lambda>r. r_domainId r \<noteq> domainId) (records w')
          = filter (\<lambda>r. r_domainId r \<noteq> domainId) (records w)"
    by (simp add: recs new filter_all_domain [OF view])
  ultimately show ?thesis using au dw dec mk lr n by blast
qed

lemma demo_sync_records:
  "syncDomainRecords demoEnv ''n'' demoWorld1 = (Inr (Success 1), demoWorld2)"
proof -
  have "fst (syncDomainRecords demoEnv ''n'' demoWorld1) = Inr (Success 1)"
    unfolding demoWorld1_eq
    by (simp add: syncDomainRecords_def syncDomainRecordsTry_def domainWithProvider_def
        demo_auth demo_decrypt newDate_def drawId_def insertRecord_def logCall_def)
       (simp add: demoEnv_def demoAdapter_def demoRemoteRecord_def newDate_def drawId_def
        insertRecord_def logCall_def)
  then show ?thesis
    by (simp add: demoWorld2_def prod_eq_iff)
qed

theorem syncDomainRecords_replaces_witness:
  "syncDomainRecords demoEnv ''n'' demoWorld1 = (Inr (Success 1), demoWorld2)
   \<and> (\<exists>userId domain others credentials provider remoteRecords.
           auth demoEnv = Some userId
         \<and> domainWithProvider ''n'' userId demoWorld1 = domain # others
         \<and> decryptCredentials (runtime demoEnv) (masterKey demoEnv) (p_credentials (snd domain))
             = Inr credentials
         \<and> createProvider demoEnv (p_name (snd domain)) credentials = Inr provider
         \<and> a_listRecords provider (d_remoteId (fst domain)) = Inr remoteRecords
         \<and> 1 = length remoteRecords
         \<and> map rowView (filter (\<lambda>r. r_domainId r = ''n'') (records demoWorld2))
             = map (remoteView ''n'') remoteRecords
         \<and> filter (\<lambda>r. r_domainId r \<noteq> ''n'') (records demoWorld2)
             = filter (\<lambda>r. r_domainId r \<noteq> ''n'') (records demoWorld1))"
  using syncDomainRecords_replaces [OF demo_sync_records] demo_sync_records
  by blast


subsection \<open>Running syncProvider twice\<close>

lemma filter_owner_map:
  assumes "\<And>p. p_id (f p) = p_id p" "\<And>p. p_userId (f p) = p_userId p"
  shows "filter (\<lambda>p. p_id p = pid \<and> p_userId p = uid) (map f ps) =
         map f (filter (\<lambda>p. p_id p = pid \<and> p_userId p = uid) ps)"
  by (induction ps) (simp_all add: assms)

lemma syncProvider_rerun:
  assumes first: "syncProvider env pid w = (Inr (Success n), w1)"
  shows "\<exists>w2. syncProvider env pid w1 = (Inr (Success n), w2)
           \<and> map stripTimes (domains w2) = map stripTimes (domains w1)
           \<and> idsDrawn w2 = idsDrawn w1"
proof -
  from syncProvider_succeeds [OF first] obtain uid pd others creds ad rds wa where
      au: "auth env = Some uid"
    and found: "filter (\<lambda>p. p_id p = pid \<and> p_userId p = uid) (providers w) = pd # others"
    and dec: "decryptCredentials (runtime env) (masterKey env) (p_credentials pd) = Inr creds"
    and mk: "createProvider env (p_name pd) creds = Inr ad"
    and lst: "a_listDomains ad = Inr rds" and n: "n = length rds"
    and loop: "syncDomains env pid rds (logCall ListDomains w) = (Inr (), wa)"
    and w1: "w1 = wa\<lparr>ticks := Suc (Suc (ticks wa)),
                    providers := map (\<lambda>p. if p_id p = pid
                                          then p\<lparr>p_lastSyncAt := Some (clock env (ticks wa)),
                                                 p_status := ''active'',
                                                 p_updatedAt := Some (clock env (Suc (ticks wa)))\<rparr>
                                          else p) (providers wa)\<rparr>"
    by blast
  let ?g = "\<lambda>p. if p_id p = pid
                 then p\<lparr>p_lastSyncAt := Some (clock env (ticks wa)), p_status := ''active'',
                        p_updatedAt := Some (clock env (Suc (ticks wa)))\<rparr>
                 else p"
  from syncDomains_frame [OF loop] have fr: "providers wa = providers w" by simp
  have st: "settled pid rds (domains wa)"
    using syncDomains_settled [OF settled_Nil loop] by simp
  have gi: "p_id (?g p) = p_id p" "p_userId (?g p) = p_userId p" for p :: ProviderRow
    by simp_all
  have "filter (\<lambda>p. p_id p = pid \<and> p_userId p = uid) (map ?g (providers w)) =
        map ?g (filter (\<lambda>p. p_id p = pid \<and> p_userId p = uid) (providers w))"
    by (rule filter_owner_map) (rule gi)+
  then have found1: "filter (\<lambda>p. p_id p = pid \<and> p_userId p = uid) (providers w1) =
      ?g pd # map ?g others"
    by (simp add: w1 fr found)
  have same: "p_credentials (?g pd) = p_credentials pd" "p_name (?g pd) = p_name pd"
    by simp_all
  have dom1: "domains w1 = domains wa"
    by (simp add: w1)
  from st have "list_all (\<lambda>rd. target pid (domains (logCall ListDomains w1)) (rd_id rd) \<noteq> None) rds"
    by (simp add: settled_def dom1)
  from syncDomains_replay [OF this, of env] obtain wb where
      loop2: "syncDomains env pid rds (logCall ListDomains w1) = (Inr (), wb)"
    and doms: "map stripTimes (domains wb) =
           map (\<lambda>d. replayRow (target pid (domains (logCall ListDomains w1))) rds (stripTimes d))
             (domains (logCall ListDomains w1))"
    and ids: "idsDrawn wb = idsDrawn (logCall ListDomains w1)"
    by blast
  have doms': "map stripTimes (domains wb) = map stripTimes (domains wa)"
    unfolding doms logCall_simps dom1 by (rule settled_replay [OF st])
  let ?w2 = "wb\<lparr>ticks := Suc (Suc (ticks wb)),
                 providers := map (\<lambda>p. if p_id p = pid
                                       then p\<lparr>p_lastSyncAt := Some (clock env (ticks wb)),
                                              p_status := ''active'',
                                              p_updatedAt := Some (clock env (Suc (ticks wb)))\<rparr>
                                       else p) (providers wb)\<rparr>"
  have second: "syncProviderTry env pid (?g pd) w1 = (Inr n, ?w2)"
    unfolding syncProviderTry_def same
    by (simp add: dec mk lst loop2 newDate_def n cong: if_cong)
  have "syncProvider env pid w1 = (Inr (Success n), ?w2)"
    unfolding syncProvider_def
    by (simp only: au found1 second option.case list.case prod.case sum.case)
  moreover have "map stripTimes (domains ?w2) = map stripTimes (domains w1)"
    using doms' by (simp add: w1)
  moreover have "idsDrawn ?w2 = idsDrawn w1"
    using ids by simp
  ultimately show ?thesis by blast
qed

lemma syncProvider_keys:
  assumes "distinct (map domainKey (domains w))" and "syncProvider env pid w = (out, w')"
  shows "distinct (map domainKey (domains w'))"
proof (cases "auth env")
  case None
  with assms show ?thesis by (simp add: syncProvider_def)
next
  case (Some uid)
  show ?thesis
  proof (cases "filter (\<lambda>p. p_id p = pid \<and> p_userId p = uid) (providers w)")
    case Nil
    with assms Some show ?thesis by (simp add: syncProvider_def)
  next
    case (Cons pd others)
    obtain res wt where tr: "syncProviderTry env pid pd w = (res, wt)"
      by (cases "syncProviderTry env pid pd w")
    have "distinct (map domainKey (domains wt))"
    proof (cases "decryptCredentials (runtime env) (masterKey env) (p_credentials pd)")
      case (Inl e)
      with tr assms(1) show ?thesis by (auto simp: syncProviderTry_def)
    next
      case creds: (Inr creds)
      show ?thesis
      proof (cases "createProvider env (p_name pd) creds")
        case (Inl e)
        with tr creds assms(1) show ?thesis by (auto simp: syncProviderTry_def)
      next
        case ad: (Inr ad)
        show ?thesis
        proof (cases "a_listDomains ad")
          case (Inl e)
          with tr creds ad assms(1) show ?thesis by (auto simp: syncProviderTry_def)
        next
          case rds: (Inr rds)
          obtain r1 wl where loop: "syncDomains env pid rds (logCall ListDomains w) = (r1, wl)"
            by (cases "syncDomains env pid rds (logCall ListDomains w)")
          from assms(1) have "distinct (map domainKey (domains (logCall ListDomains w)))"
            by simp
          from syncDomains_keys [OF this loop] have "distinct (map domainKey (domains wl))" .
          moreover from tr creds ad rds loop have "domains wt = domains wl"
            by (auto simp: syncProviderTry_def newDate_def split: sum.splits)
          ultimately show ?thesis by simp
        qed
      qed
    qed
    moreover from assms(2) Some Cons tr have "domains w' = domains wt"
      by (auto simp: syncProvider_def newDate_def split: sum.splits)
    ultimately show ?thesis by simp
  qed
qed




subsection \<open>Validation before the remote call\<close>

lemma bad_input_rejected:
  "validateDNSRecord \<lparr>f_type = ''A'', f_name = ''www'', f_content = ''999.1.1.1'',
      f_ttl = None, f_priority = None\<rparr> = rejected ''Invalid IPv4 address format''"
  by (simp add: validator_defs regex_defs)

lemma blank_input_rejected:
  "validateDNSRecord \<lparr>f_type = ''A'', f_name = ''www'', f_content = [],
      f_ttl = None, f_priority = None\<rparr> = rejected ''Record content is required''"
  by (simp add: validator_defs regex_defs)

lemma bad_content_rejected:
  "validateRecordContent ''A'' ''999.1.1.1'' = rejected ''Invalid IPv4 address format''"
  by (simp add: validator_defs regex_defs)

lemma updateRecord_unvalidated:
  assumes "auth env = Some uid"
    and "\<not> (truthy (u_type inp) \<and> truthy (u_name inp) \<and> truthy (u_content inp))"
    and "getProviderForDomain env d uid w = Inr (dmn, ad)"
    and "filter (\<lambda>r. r_id r = rid \<and> r_domainId r = d) (records w) = lr # rest"
    and "a_updateRecord ad (d_remoteId (fst dmn)) (r_remoteId lr) inp = Inr rr"
  shows "fst (updateRecord env d rid inp w) = Inr (Success rr)"
    and "remoteCalls (snd (updateRecord env d rid inp w)) =
           remoteCalls w @ [UpdateRecord (d_remoteId (fst dmn)) (r_remoteId lr) inp]"
    and "records (snd (updateRecord env d rid inp w)) =
           map (\<lambda>r. if r_id r = rid then
                       r\<lparr>r_type := rr_type rr, r_name := rr_name rr,
                         r_content := rr_content rr, r_ttl := rr_ttl rr,
                         r_priority := rr_priority rr,
                         r_proxied := Some (case rr_proxied rr of None \<Rightarrow> False | Some b \<Rightarrow> b),
                         r_syncedAt := Some (clock env (ticks w)),
                         r_updatedAt := Some (clock env (Suc (ticks w)))\<rparr>
                     else r)
             (records w)"
  using assms
  by (auto simp: updateRecord_def updateRecordTry_def newDate_def cong: if_cong)

text \<open>
  Claim C6, as the code has it. \<open>createRecord\<close> validates its input first. \<open>updateRecord\<close>
  validates when type, name and content are all given, with non-empty values. An input that
  fails this validation gets the validator's error back, and the state is untouched: no
  adapter call is logged and no table is written. An update that leaves out the type, the
  name or the content is not validated: if the provider resolves, the row exists and the
  adapter accepts the input, the adapter is called with it and the action succeeds,
  whatever the fields that were given hold.
\<close>

theorem validation_precedes_remote_call:
  "(auth env = Some userId
      \<and> \<not> valid (validateDNSRecord
                   \<lparr>f_type = c_type cinput, f_name = c_name cinput, f_content = c_content cinput,
                    f_ttl = c_ttl cinput, f_priority = c_priority cinput\<rparr>)
    \<longrightarrow> createRecord env domainId cinput w =
          (Inr (Failure (error (validateDNSRecord
                   \<lparr>f_type = c_type cinput, f_name = c_name cinput, f_content = c_content cinput,
                    f_ttl = c_ttl cinput, f_priority = c_priority cinput\<rparr>))), w))
   \<and> (auth env2 = Some userId2
      \<and> truthy (u_type uinput) \<and> truthy (u_name uinput) \<and> truthy (u_content uinput)
      \<and> \<not> valid (validateDNSRecord
                   \<lparr>f_type = the (u_type uinput), f_name = the (u_name uinput),
                    f_content = the (u_content uinput),
                    f_ttl = u_ttl uinput, f_priority = u_priority uinput\<rparr>)
    \<longrightarrow> updateRecord env2 domainId2 recordId uinput v =
          (Inr (Failure (error (validateDNSRecord
                   \<lparr>f_type = the (u_type uinput), f_name = the (u_name uinput),
                    f_content = the (u_content uinput),
                    f_ttl = u_ttl uinput, f_priority = u_priority uinput\<rparr>))), v))
   \<and> (auth env3 = Some userId3
      \<and> (u_type pinput = None \<or> u_name pinput = None \<or> u_content pinput = None)
      \<and> getProviderForDomain env3 domainId3 userId3 v3 = Inr (domain3, provider3)
      \<and> filter (\<lambda>r. r_id r = recordId3 \<and> r_domainId r = domainId3) (records v3) =
          localRecord3 # rest3
      \<and> a_updateRecord provider3 (d_remoteId (fst domain3)) (r_remoteId localRecord3) pinput =
          Inr remoteRecord3
    \<longrightarrow> fst (updateRecord env3 domainId3 recordId3 pinput v3) = Inr (Success remoteRecord3)
      \<and> remoteCalls (snd (updateRecord env3 domainId3 recordId3 pinput v3)) =
          remoteCalls v3 @
            [UpdateRecord (d_remoteId (fst domain3)) (r_remoteId localRecord3) pinput])"
proof (intro conjI impI)
  assume "auth env = Some userId
      \<and> \<not> valid (validateDNSRecord
                   \<lparr>f_type = c_type cinput, f_name = c_name cinput, f_content = c_content cinput,
                    f_ttl = c_ttl cinput, f_priority = c_priority cinput\<rparr>)"
  then show "createRecord env domainId cinput w =
          (Inr (Failure (error (validateDNSRecord
                   \<lparr>f_type = c_type cinput, f_name = c_name cinput, f_content = c_content cinput,
                    f_ttl = c_ttl cinput, f_priority = c_priority cinput\<rparr>))), w)"
    by (simp add: createRecord_def Let_def)
next
  assume "auth env2 = Some userId2
      \<and> truthy (u_type uinput) \<and> truthy (u_name uinput) \<and> truthy (u_content uinput)
      \<and> \<not> valid (validateDNSRecord
                   \<lparr>f_type = the (u_type uinput), f_name = the (u_name uinput),
                    f_content = the (u_content uinput),
                    f_ttl = u_ttl uinput, f_priority = u_priority uinput\<rparr>)"
  then show "updateRecord env2 domainId2 recordId uinput v =
          (Inr (Failure (error (validateDNSRecord
                   \<lparr>f_type = the (u_type uinput), f_name = the (u_name uinput),
                    f_content = the (u_content uinput),
                    f_ttl = u_ttl uinput, f_priority = u_priority uinput\<rparr>))), v)"
    by (simp add: updateRecord_def)
next
  assume h: "auth env3 = Some userId3
      \<and> (u_type pinput = None \<or> u_name pinput = None \<or> u_content pinput = None)
      \<and> getProviderForDomain env3 domainId3 userId3 v3 = Inr (domain3, provider3)
      \<and> filter (\<lambda>r. r_id r = recordId3 \<and> r_domainId r = domainId3) (records v3) =
          localRecord3 # rest3
      \<and> a_updateRecord provider3 (d_remoteId (fst domain3)) (r_remoteId localRecord3) pinput =
          Inr remoteRecord3"
  then have skip: "\<not> (truthy (u_type pinput) \<and> truthy (u_name pinput) \<and> truthy (u_content pinput))"
    by (auto simp: truthy_def)
  from h updateRecord_unvalidated(1,2) [OF _ skip, of env3 userId3 domainId3 v3 domain3 provider3
      recordId3 localRecord3 rest3 remoteRecord3]
  show "fst (updateRecord env3 domainId3 recordId3 pinput v3) = Inr (Success remoteRecord3)"
    and "remoteCalls (snd (updateRecord env3 domainId3 recordId3 pinput v3)) =
          remoteCalls v3 @
            [UpdateRecord (d_remoteId (fst domain3)) (r_remoteId localRecord3) pinput]"
    by blast+
qed

lemma demo_local_row:
  "filter (\<lambda>r. r_id r = ''nx'' \<and> r_domainId r = ''n'') (records demoWorld2) =
     \<lparr>r_id = ''nx'', r_domainId = ''n'', r_remoteId = ''rr1'', r_type = ''A'',
       r_name = ''www'', r_content = ''192.0.2.1'', r_ttl = Finite 300, r_priority = None,
       r_proxied = Some False, r_extra = None, r_syncedAt = Some 1700000000005,
       r_createdAt = Some 1700000000006, r_updatedAt = Some 1700000000007\<rparr> # []"
  by (simp add: demoWorld2_eq)

theorem validation_precedes_remote_call_witness:
  "createRecord demoEnv ''n'' badCreateInput demoWorld2 =
     (Inr (Failure (Some ''Invalid IPv4 address format'')), demoWorld2)
   \<and> updateRecord demoEnv ''n'' ''nx'' badUpdateInput demoWorld2 =
     (Inr (Failure (Some ''Invalid IPv4 address format'')), demoWorld2)
   \<and> fst (updateRecord demoEnv ''n'' ''nx'' partialUpdateInput demoWorld2) =
       Inr (Success demoRemoteRecord)
   \<and> remoteCalls (snd (updateRecord demoEnv ''n'' ''nx'' partialUpdateInput demoWorld2)) =
       remoteCalls demoWorld2 @ [UpdateRecord ''zone1'' ''rr1'' partialUpdateInput]"
proof -
  have ok: "a_updateRecord demoAdapter z r partialUpdateInput = Inr demoRemoteRecord" for z r
    by (simp add: demoAdapter_def)
  have omitted: "u_name partialUpdateInput = None"
    by (simp add: partialUpdateInput_def)
  have bad: "\<not> valid (validateDNSRecord
                   \<lparr>f_type = c_type badCreateInput, f_name = c_name badCreateInput,
                    f_content = c_content badCreateInput,
                    f_ttl = c_ttl badCreateInput, f_priority = c_priority badCreateInput\<rparr>)"
    "error (validateDNSRecord
                   \<lparr>f_type = c_type badCreateInput, f_name = c_name badCreateInput,
                    f_content = c_content badCreateInput,
                    f_ttl = c_ttl badCreateInput, f_priority = c_priority badCreateInput\<rparr>) =
       Some ''Invalid IPv4 address format''"
    "truthy (u_type badUpdateInput)" "truthy (u_name badUpdateInput)"
    "truthy (u_content badUpdateInput)"
    "\<not> valid (validateDNSRecord
                   \<lparr>f_type = the (u_type badUpdateInput), f_name = the (u_name badUpdateInput),
                    f_content = the (u_content badUpdateInput),
                    f_ttl = u_ttl badUpdateInput, f_priority = u_priority badUpdateInput\<rparr>)"
    "error (validateDNSRecord
                   \<lparr>f_type = the (u_type badUpdateInput), f_name = the (u_name badUpdateInput),
                    f_content = the (u_content badUpdateInput),
                    f_ttl = u_ttl badUpdateInput, f_priority = u_priority badUpdateInput\<rparr>) =
       Some ''Invalid IPv4 address format''"
    by (simp_all add: badCreateInput_def badUpdateInput_def bad_input_rejected rejected_def
        truthy_def)
  note T = validation_precedes_remote_call
    [where env = demoEnv and userId = "''u1''" and cinput = badCreateInput
       and domainId = "''n''" and w = demoWorld2
       and ?env2.0 = demoEnv and ?userId2.0 = "''u1''" and uinput = badUpdateInput
       and ?domainId2.0 = "''n''" and recordId = "''nx''" and v = demoWorld2
       and ?env3.0 = demoEnv and ?userId3.0 = "''u1''" and pinput = partialUpdateInput
       and ?domainId3.0 = "''n''" and ?recordId3.0 = "''nx''" and ?v3.0 = demoWorld2
       and ?provider3.0 = demoAdapter and ?rest3.0 = "[]"
       and ?remoteRecord3.0 = demoRemoteRecord]
  show ?thesis
    using T demo_auth demo_up_domain demo_local_row ok omitted bad
    by auto
qed

text \<open>
  The claim as stated fails for \<open>updateRecord\<close>. An update that gives the type \<open>A\<close> and
  the content \<open>999.1.1.1\<close> and leaves the name out has a content that the validator rejects
  for its type, yet \<open>updateRecord\<close> does not validate it: it calls the adapter with the
  input and writes the row.
\<close>

theorem updateRecord_skips_validation_counterexample:
  "u_type partialUpdateInput = Some ''A''
   \<and> u_content partialUpdateInput = Some ''999.1.1.1''
   \<and> validateRecordContent ''A'' ''999.1.1.1'' = rejected ''Invalid IPv4 address format''
   \<and> fst (updateRecord demoEnv ''n'' ''nx'' partialUpdateInput demoWorld2) =
       Inr (Success demoRemoteRecord)
   \<and> remoteCalls (snd (updateRecord demoEnv ''n'' ''nx'' partialUpdateInput demoWorld2)) =
       remoteCalls demoWorld2 @ [UpdateRecord ''zone1'' ''rr1'' partialUpdateInput]
   \<and> records (snd (updateRecord demoEnv ''n'' ''nx'' partialUpdateInput demoWorld2)) \<noteq>
       records demoWorld2"
proof -
  have ok: "a_updateRecord demoAdapter ''zone1'' ''rr1'' partialUpdateInput = Inr demoRemoteRecord"
    by (simp add: demoAdapter_def)
  have skip: "\<not> (truthy (u_type partialUpdateInput) \<and> truthy (u_name partialUpdateInput)
                 \<and> truthy (u_content partialUpdateInput))"
    by (simp add: partialUpdateInput_def truthy_def)
  note run = updateRecord_unvalidated [OF demo_auth skip demo_up_domain demo_local_row, simplified,
      OF ok]
  have "records (snd (updateRecord demoEnv ''n'' ''nx'' partialUpdateInput demoWorld2)) \<noteq>
       records demoWorld2"
    unfolding run(3) by (simp add: demoWorld2_eq demoRemoteRecord_def demoEnv_def)
  with run(1,2) bad_content_rejected show ?thesis
    by (simp add: partialUpdateInput_def)
qed

text \<open>
  The guard of \<open>updateRecord\<close> tests the three fields for truthiness, and the empty string
  is falsy: an update that gives all three fields, with the empty string as content, is
  passed to the adapter although the validator answers \<^verbatim>\<open>Record content is required\<close>.
\<close>

lemma updateRecord_empty_content:
  "validateDNSRecord
     \<lparr>f_type = the (u_type blankUpdateInput), f_name = the (u_name blankUpdateInput),
      f_content = the (u_content blankUpdateInput),
      f_ttl = u_ttl blankUpdateInput, f_priority = u_priority blankUpdateInput\<rparr> =
     rejected ''Record content is required''
   \<and> fst (updateRecord demoEnv ''n'' ''nx'' blankUpdateInput demoWorld2) =
       Inr (Success demoRemoteRecord)
   \<and> remoteCalls (snd (updateRecord demoEnv ''n'' ''nx'' blankUpdateInput demoWorld2)) =
       remoteCalls demoWorld2 @ [UpdateRecord ''zone1'' ''rr1'' blankUpdateInput]"
proof -
  have ok: "a_updateRecord demoAdapter ''zone1'' ''rr1'' blankUpdateInput = Inr demoRemoteRecord"
    by (simp add: demoAdapter_def)
  have skip: "\<not> (truthy (u_type blankUpdateInput) \<and> truthy (u_name blankUpdateInput)
                 \<and> truthy (u_content blankUpdateInput))"
    by (simp add: blankUpdateInput_def truthy_def)
  note run = updateRecord_unvalidated [OF demo_auth skip demo_up_domain demo_local_row, simplified,
      OF ok]
  from run(1,2) blank_input_rejected show ?thesis
    by (simp add: blankUpdateInput_def)
qed

end
